theory Spec2Isabelle
  imports Complex_Main
begin

section \<open>The race-time predictor of server/src/index.ts\<close>

text \<open>
  The predictor works on JavaScript numbers, which are IEEE 754 binary64 values. A number
  that has passed an \<open>isFinite\<close> check is modelled as a \<^typ>\<open>real\<close>; a number that has
  not is a \<open>jsnum\<close>, which keeps NaN and the two infinities apart from the finite values
  (the sign of zero is not modelled: the predictor never divides by a zero). A \<open>Date\<close> is
  its \<open>getTime()\<close>, an integer number of milliseconds, and the clock read by
  \<open>new Date()\<close> is the explicit parameter \<open>now\<close>.

  The numeric steps are given in two readings. The exact reading (\<open>recencyWeight\<close>,
  \<open>fitPowerLaw\<close>, \<open>predictPerformance\<close>) computes with real numbers: it states the laws
  the predictor follows and the control structure of the request. The binary64 reading
  (\<open>median\<close>, \<open>outlierFilter\<close>, \<open>recencyWeight64\<close>, \<open>fitPowerLaw64\<close>,
  \<open>predictPerformance64\<close>) rounds every arithmetic operation as the program does. The
  functions \<open>Math.log\<close>, \<open>Math.exp\<close> and \<open>Math.pow\<close>, which ECMAScript leaves to
  the implementation, are a parameter of the binary64 reading, the \<open>runtime\<close>. The
  median and the outlier filter are given in the binary64 reading only; the pause filter
  and the formatting of the response are given in the exact reading only.
\<close>

subsection \<open>Numbers, raw activities and points\<close>

datatype jsnum = Finite real | NaN | PosInfinity | NegInfinity

fun isFinite :: "jsnum \<Rightarrow> bool" where
  "isFinite (Finite v) = True"
| "isFinite NaN = False"
| "isFinite PosInfinity = False"
| "isFinite NegInfinity = False"

subsection \<open>Binary64 arithmetic\<close>

text \<open>
  \<open>fl\<close> rounds a real number to the nearest binary64 value, ties to the even
  significand, with gradual underflow: \<open>ulpExp x\<close> is the exponent of the unit in the last
  place of the binade of \<open>x\<close>, and \<open>rne\<close> rounds to the nearest integer, ties to even.
  \<open>round64\<close> adds the overflow to an infinity. Addition, subtraction, multiplication,
  division and the square root of JavaScript are the exact operation followed by this
  rounding.
\<close>

definition rne :: "real \<Rightarrow> int" where
  "rne y =
     (let f = \<lfloor>y\<rfloor>; d = y - of_int f in
      if d < 1 / 2 then f else if 1 / 2 < d then f + 1 else if even f then f else f + 1)"

definition ulpExp :: "real \<Rightarrow> int" where
  "ulpExp x = max \<lfloor>log 2 \<bar>x\<bar>\<rfloor> (- 1022) - 52"

definition fl :: "real \<Rightarrow> real" where
  "fl x = (if x = 0 then 0 else of_int (rne (x / 2 powr ulpExp x)) * 2 powr ulpExp x)"

definition round64 :: "real \<Rightarrow> jsnum" where
  "round64 x =
     (let v = fl x in
      if 2 ^ 1024 \<le> v then PosInfinity
      else if v \<le> - (2 ^ 1024) then NegInfinity
      else Finite v)"

fun js_neg :: "jsnum \<Rightarrow> jsnum" where
  "js_neg (Finite a) = Finite (- a)"
| "js_neg NaN = NaN"
| "js_neg PosInfinity = NegInfinity"
| "js_neg NegInfinity = PosInfinity"

fun js_add :: "jsnum \<Rightarrow> jsnum \<Rightarrow> jsnum" where
  "js_add (Finite a) (Finite b) = round64 (a + b)"
| "js_add NaN b = NaN"
| "js_add a NaN = NaN"
| "js_add PosInfinity NegInfinity = NaN"
| "js_add NegInfinity PosInfinity = NaN"
| "js_add PosInfinity b = PosInfinity"
| "js_add NegInfinity b = NegInfinity"
| "js_add (Finite a) b = b"

definition js_sub :: "jsnum \<Rightarrow> jsnum \<Rightarrow> jsnum" where
  "js_sub a b = js_add a (js_neg b)"

fun js_mul :: "jsnum \<Rightarrow> jsnum \<Rightarrow> jsnum" where
  "js_mul (Finite a) (Finite b) = round64 (a * b)"
| "js_mul NaN b = NaN"
| "js_mul a NaN = NaN"
| "js_mul (Finite a) b = (if a = 0 then NaN else if 0 < a then b else js_neg b)"
| "js_mul a (Finite b) = (if b = 0 then NaN else if 0 < b then a else js_neg a)"
| "js_mul PosInfinity b = b"
| "js_mul NegInfinity b = js_neg b"

fun js_div :: "jsnum \<Rightarrow> jsnum \<Rightarrow> jsnum" where
  "js_div (Finite a) (Finite b) =
     (if b = 0 then (if a = 0 then NaN else if 0 < a then PosInfinity else NegInfinity)
      else round64 (a / b))"
| "js_div NaN b = NaN"
| "js_div a NaN = NaN"
| "js_div (Finite a) b = Finite 0"
| "js_div a (Finite b) = (if 0 \<le> b then a else js_neg a)"
| "js_div PosInfinity b = NaN"
| "js_div NegInfinity b = NaN"

fun js_abs :: "jsnum \<Rightarrow> jsnum" where
  "js_abs (Finite a) = Finite \<bar>a\<bar>"
| "js_abs NaN = NaN"
| "js_abs PosInfinity = PosInfinity"
| "js_abs NegInfinity = PosInfinity"

fun js_less :: "jsnum \<Rightarrow> jsnum \<Rightarrow> bool" where
  "js_less (Finite a) (Finite b) = (a < b)"
| "js_less NaN b = False"
| "js_less a NaN = False"
| "js_less a NegInfinity = False"
| "js_less PosInfinity b = False"
| "js_less (Finite a) PosInfinity = True"
| "js_less NegInfinity b = True"

fun Math_sqrt :: "jsnum \<Rightarrow> jsnum" where
  "Math_sqrt (Finite a) = (if a < 0 then NaN else Finite (fl (sqrt a)))"
| "Math_sqrt PosInfinity = PosInfinity"
| "Math_sqrt NaN = NaN"
| "Math_sqrt NegInfinity = NaN"

text \<open>
  The functions that the implementation approximates. A \<open>tableRuntime\<close> answers from a
  finite table of arguments and values and is used to run the program on the values that
  an engine returns. The \<open>idealRuntime\<close> rounds the exact function correctly; of
  \<open>Math.pow\<close> it spells out the case of a positive finite base and a finite exponent,
  which is the one \<open>recencyWeight\<close> uses.
\<close>

record runtime =
  Math_log :: "jsnum \<Rightarrow> jsnum"
  Math_exp :: "jsnum \<Rightarrow> jsnum"
  Math_pow :: "jsnum \<Rightarrow> jsnum \<Rightarrow> jsnum"

definition tableRuntime ::
    "(jsnum \<times> jsnum) list \<Rightarrow> (jsnum \<times> jsnum) list \<Rightarrow> ((jsnum \<times> jsnum) \<times> jsnum) list
     \<Rightarrow> runtime" where
  "tableRuntime logs exps pows =
     \<lparr>Math_log = (\<lambda>v. case map_of logs v of Some r \<Rightarrow> r | None \<Rightarrow> NaN),
      Math_exp = (\<lambda>v. case map_of exps v of Some r \<Rightarrow> r | None \<Rightarrow> NaN),
      Math_pow = (\<lambda>b e. case map_of pows (b, e) of Some r \<Rightarrow> r | None \<Rightarrow> NaN)\<rparr>"

fun idealLog :: "jsnum \<Rightarrow> jsnum" where
  "idealLog (Finite a) =
     (if a < 0 then NaN else if a = 0 then NegInfinity else round64 (ln a))"
| "idealLog PosInfinity = PosInfinity"
| "idealLog NaN = NaN"
| "idealLog NegInfinity = NaN"

fun idealExp :: "jsnum \<Rightarrow> jsnum" where
  "idealExp (Finite a) = round64 (exp a)"
| "idealExp PosInfinity = PosInfinity"
| "idealExp NegInfinity = Finite 0"
| "idealExp NaN = NaN"

fun idealPow :: "jsnum \<Rightarrow> jsnum \<Rightarrow> jsnum" where
  "idealPow (Finite b) (Finite e) = (if 0 < b then round64 (b powr e) else NaN)"
| "idealPow b e = NaN"

definition idealRuntime :: runtime where
  "idealRuntime = \<lparr>Math_log = idealLog, Math_exp = idealExp, Math_pow = idealPow\<rparr>"

text \<open>
  The values that the functions of V8 (\<open>ieee754::log\<close>, \<open>ieee754::exp\<close> and
  \<open>ieee754::pow\<close>, which follow fdlibm) return at the arguments that the examples below
  use: the logarithms of 1000, 2000, 4000, 8000, 21097.5, 5000, 1500, 42195 and 12600,
  the exponentials of 0 and of \<open>Math.log(21097.5)\<close>, and the powers \<open>0.5 ** 0\<close> and
  \<open>21097.5 ** 1\<close>. Each value is the binary64 number nearest to the exact one; for
  instance \<open>Math.log(5000)\<close> is 8.517193191416238 and
  \<open>Math.exp(Math.log(21097.5))\<close> is 21097.49999999998.
\<close>

definition sampledRuntime :: runtime where
  "sampledRuntime =
     tableRuntime
       [(Finite 1000, Finite (243045032034301 / 35184372088832)),
        (Finite 2000, Finite (4278927685559151 / 562949953421312)),
        (Finite 4000, Finite (2334567429284743 / 281474976710656)),
        (Finite 8000, Finite (5059342031579821 / 562949953421312)),
        (Finite (42195 / 2), Finite (1401310481118459 / 140737488355328)),
        (Finite 5000, Finite (4794753510388087 / 562949953421312)),
        (Finite 1500, Finite (8233954152544549 / 1125899906842624)),
        (Finite 42195, Finite (5995449097484171 / 562949953421312)),
        (Finite 12600, Finite (5315065015949879 / 562949953421312))]
       [(Finite 0, Finite 1),
        (Finite (1401310481118459 / 140737488355328), Finite (5799236641751035 / 274877906944))]
       [((Finite (1 / 2), Finite 0), Finite 1),
        ((Finite (42195 / 2), Finite 1), Finite (42195 / 2))]"

text \<open>
  A runtime whose \<open>Math.pow\<close> is faithful at base 0.5 and a non-negative exponent: the
  value it returns is not separated from the exact power by any binary64 value, so it is
  the exact power when that is a binary64 value and one of its two neighbours otherwise.
\<close>

definition faithfulPow :: "runtime \<Rightarrow> bool" where
  "faithfulPow rt =
     (\<forall>e. 0 \<le> e \<longrightarrow>
        (\<exists>v. Math_pow rt (Finite (1 / 2)) (Finite e) = Finite v
           \<and> (\<forall>c. fl c = c \<longrightarrow> (c \<le> (1 / 2) powr e \<longrightarrow> c \<le> v) \<and> ((1 / 2) powr e \<le> c \<longrightarrow> v \<le> c))))"

text \<open>
  A raw Strava activity as \<open>mapStravaAct\<close> reads it: \<open>act_type\<close> is \<open>a.type\<close>
  (\<open>None\<close> when it is null or undefined), \<open>act_distance\<close> is \<open>Number(a.distance)\<close>,
  \<open>moving_time\<close> is \<open>Number(a.moving_time)\<close>, \<open>elapsed_time\<close> is \<open>None\<close> when
  \<open>a.elapsed_time == null\<close> and \<open>Number(a.elapsed_time)\<close> otherwise, and \<open>start_date\<close>
  is \<open>new Date(String(a.start_date)).getTime()\<close>, \<open>None\<close> when that is NaN.
  An element of the activity list that is itself falsy is \<open>None\<close>. The type label is
  taken to be a string whenever it is present, as Strava sends it: a label of another type
  has no \<open>toLowerCase\<close> and makes the source throw, which this model leaves out.
\<close>

record activity =
  act_type :: "string option"
  act_distance :: jsnum
  moving_time :: jsnum
  elapsed_time :: "jsnum option"
  start_date :: "int option"

record Point =
  distance :: real
  movingTime :: real
  elapsedTime :: "real option"
  startDate :: int

subsection \<open>Tunables\<close>

definition HALF_LIFE_DAYS :: real where
  "HALF_LIFE_DAYS = 60"

definition MIN_DISTANCE_M :: real where
  "MIN_DISTANCE_M = 800"

definition MIN_POINTS :: nat where
  "MIN_POINTS = 4"

definition MIN_MOVE_ELAPSED_RATIO :: real where
  "MIN_MOVE_ELAPSED_RATIO = 8 / 10"

subsection \<open>recencyWeight and median\<close>

definition ageDays :: "int \<Rightarrow> int \<Rightarrow> real" where
  \<comment> \<open>the local \<open>days\<close> of \<open>recencyWeight\<close>: \<open>Math.max(0, now - start) / 86_400_000\<close>\<close>
  "ageDays start now = real_of_int (max 0 (now - start)) / 86400000"

definition recencyWeight :: "int \<Rightarrow> int \<Rightarrow> real" where
  "recencyWeight start now = (1 / 2) powr (ageDays start now / HALF_LIFE_DAYS)"

text \<open>
  \<open>recencyWeight\<close> as the program computes it: the difference of the two time values,
  the two divisions and the power are binary64 operations. Time values are at most
  8.64e15 in absolute value, so none of the first three overflows.
\<close>

definition recencyWeight64 :: "runtime \<Rightarrow> int \<Rightarrow> int \<Rightarrow> jsnum" where
  "recencyWeight64 rt start now =
     (let ms = max 0 (fl (real_of_int now - real_of_int start));
          days = fl (ms / 86400000)
      in Math_pow rt (Finite (1 / 2)) (Finite (fl (days / HALF_LIFE_DAYS))))"

text \<open>
  \<open>median\<close> is applied to paces, which are binary64 values; the mean of the two middle
  elements is a binary64 addition followed by a binary64 division.
\<close>

definition median :: "real list \<Rightarrow> real" where
  "median nums =
     (let n = length nums in
      if n = 0 then 0
      else
        let arr = sort nums; mid = n div 2 in
        if n mod 2 = 1 then arr ! mid else fl (fl (arr ! (mid - 1) + arr ! mid) / 2))"

subsection \<open>fitPowerLaw, exact reading\<close>

record Sums =
  sw :: real
  swx :: real
  swy :: real
  swxx :: real
  swxy :: real

definition zeroSums :: Sums where
  "zeroSums = \<lparr>sw = 0, swx = 0, swy = 0, swxx = 0, swxy = 0\<rparr>"

text \<open>The first loop of \<open>fitPowerLaw\<close>, over the triples \<open>(w[i], x[i], y[i])\<close>.\<close>

fun accumulate :: "(real \<times> real \<times> real) list \<Rightarrow> Sums \<Rightarrow> Sums" where
  "accumulate [] s = s"
| "accumulate ((wi, xi, yi) # rest) s =
     accumulate rest
       \<lparr>sw = sw s + wi, swx = swx s + wi * xi, swy = swy s + wi * yi,
        swxx = swxx s + wi * xi * xi, swxy = swxy s + wi * xi * yi\<rparr>"

text \<open>The second loop: the weighted sum of squared residuals.\<close>

fun residuals :: "real \<Rightarrow> real \<Rightarrow> (real \<times> real \<times> real) list \<Rightarrow> real \<Rightarrow> real" where
  "residuals beta0 beta1 [] sse = sse"
| "residuals beta0 beta1 ((wi, xi, yi) # rest) sse =
     (let yhat = beta0 + beta1 * xi; r = yi - yhat
      in residuals beta0 beta1 rest (sse + wi * r * r))"

record FitResult =
  logA :: real
  slope :: real
  rmseLog :: real

definition samples :: "Point list \<Rightarrow> int \<Rightarrow> (real \<times> real \<times> real) list" where
  \<comment> \<open>the arrays \<open>w\<close>, \<open>x\<close>, \<open>y\<close> of \<open>fitPowerLaw\<close>, read by one index\<close>
  "samples points now =
     (let x = map (\<lambda>p. ln (distance p)) points;
          y = map (\<lambda>p. ln (movingTime p)) points;
          w = map (\<lambda>p. recencyWeight (startDate p) now) points
      in zip w (zip x y))"

definition fitDet :: "Point list \<Rightarrow> int \<Rightarrow> real" where
  \<comment> \<open>the local \<open>det\<close> of \<open>fitPowerLaw\<close>, computed exactly\<close>
  "fitDet points now =
     (let s = accumulate (samples points now) zeroSums
      in sw s * swxx s - swx s * swx s)"

text \<open>
  \<open>fitPowerLaw\<close> returns null (\<open>None\<close>) before it divides. In the exact reading the
  test \<open>!isFinite(det)\<close> is always false and is left out of the guard. The field \<open>b\<close> of
  the result is called \<open>slope\<close> here.
\<close>

definition fitPowerLaw :: "Point list \<Rightarrow> int \<Rightarrow> FitResult option" where
  "fitPowerLaw points now =
     (if length points < 2 then None
      else
        let s = accumulate (samples points now) zeroSums;
            det = fitDet points now
        in if \<bar>det\<bar> < 1 / 10 ^ 12 \<or> sw s = 0 then None
           else
             let beta0 = (swy s * swxx s - swx s * swxy s) / det;
                 beta1 = (sw s * swxy s - swx s * swy s) / det;
                 sse = residuals beta0 beta1 (samples points now) 0
             in Some \<lparr>logA = beta0, slope = beta1, rmseLog = sqrt (sse / sw s)\<rparr>)"

definition predictSeconds :: "real \<Rightarrow> real \<Rightarrow> real \<Rightarrow> real" where
  "predictSeconds la bb distanceM = exp la * (distanceM powr bb)"

subsection \<open>fitPowerLaw, binary64 reading\<close>

record Sums64 =
  sw64 :: jsnum
  swx64 :: jsnum
  swy64 :: jsnum
  swxx64 :: jsnum
  swxy64 :: jsnum

definition zeroSums64 :: Sums64 where
  "zeroSums64 =
     \<lparr>sw64 = Finite 0, swx64 = Finite 0, swy64 = Finite 0, swxx64 = Finite 0,
      swxy64 = Finite 0\<rparr>"

text \<open>The first loop; \<open>wi * xi * xi\<close> is \<open>(wi * xi) * xi\<close>, each product rounded.\<close>

fun accumulate64 :: "(jsnum \<times> jsnum \<times> jsnum) list \<Rightarrow> Sums64 \<Rightarrow> Sums64" where
  "accumulate64 [] s = s"
| "accumulate64 ((wi, xi, yi) # rest) s =
     accumulate64 rest
       \<lparr>sw64 = js_add (sw64 s) wi,
        swx64 = js_add (swx64 s) (js_mul wi xi),
        swy64 = js_add (swy64 s) (js_mul wi yi),
        swxx64 = js_add (swxx64 s) (js_mul (js_mul wi xi) xi),
        swxy64 = js_add (swxy64 s) (js_mul (js_mul wi xi) yi)\<rparr>"

fun residuals64 ::
    "jsnum \<Rightarrow> jsnum \<Rightarrow> (jsnum \<times> jsnum \<times> jsnum) list \<Rightarrow> jsnum \<Rightarrow> jsnum" where
  "residuals64 beta0 beta1 [] sse = sse"
| "residuals64 beta0 beta1 ((wi, xi, yi) # rest) sse =
     (let yhat = js_add beta0 (js_mul beta1 xi); r = js_sub yi yhat
      in residuals64 beta0 beta1 rest (js_add sse (js_mul (js_mul wi r) r)))"

record FitResult64 =
  logA64 :: jsnum
  slope64 :: jsnum
  rmseLog64 :: jsnum

definition samples64 :: "runtime \<Rightarrow> Point list \<Rightarrow> int \<Rightarrow> (jsnum \<times> jsnum \<times> jsnum) list" where
  "samples64 rt points now =
     (let x = map (\<lambda>p. Math_log rt (Finite (distance p))) points;
          y = map (\<lambda>p. Math_log rt (Finite (movingTime p))) points;
          w = map (\<lambda>p. recencyWeight64 rt (startDate p) now) points
      in zip w (zip x y))"

definition det64 :: "Sums64 \<Rightarrow> jsnum" where
  \<comment> \<open>\<open>sw * swxx - swx * swx\<close>\<close>
  "det64 s = js_sub (js_mul (sw64 s) (swxx64 s)) (js_mul (swx64 s) (swx64 s))"

definition degenerate64 :: "Sums64 \<Rightarrow> bool" where
  \<comment> \<open>\<open>!isFinite(det) || Math.abs(det) < 1e-12 || sw === 0\<close>; the literal \<open>1e-12\<close> is the
      binary64 value nearest to it\<close>
  "degenerate64 s =
     (\<not> isFinite (det64 s) \<or> js_less (js_abs (det64 s)) (Finite (fl (1 / 10 ^ 12)))
      \<or> sw64 s = Finite 0)"

definition fitPowerLaw64 :: "runtime \<Rightarrow> Point list \<Rightarrow> int \<Rightarrow> FitResult64 option" where
  "fitPowerLaw64 rt points now =
     (if length points < 2 then None
      else
        let xs = samples64 rt points now;
            s = accumulate64 xs zeroSums64;
            det = det64 s
        in if degenerate64 s then None
           else
             let beta0 = js_div (js_sub (js_mul (swy64 s) (swxx64 s))
                                        (js_mul (swx64 s) (swxy64 s))) det;
                 beta1 = js_div (js_sub (js_mul (sw64 s) (swxy64 s))
                                        (js_mul (swx64 s) (swy64 s))) det;
                 sse = residuals64 beta0 beta1 xs (Finite 0)
             in Some \<lparr>logA64 = beta0, slope64 = beta1,
                      rmseLog64 = Math_sqrt (js_div sse (sw64 s))\<rparr>)"

definition predictSeconds64 :: "runtime \<Rightarrow> jsnum \<Rightarrow> jsnum \<Rightarrow> jsnum \<Rightarrow> jsnum" where
  "predictSeconds64 rt la bb distanceM = js_mul (Math_exp rt la) (Math_pow rt distanceM bb)"

subsection \<open>Formatting\<close>

definition Math_round :: "real \<Rightarrow> int" where
  "Math_round v = \<lfloor>v + 1 / 2\<rfloor>"

definition digitChar :: "nat \<Rightarrow> char" where
  \<comment> \<open>the character of a decimal digit (the argument is below 10)\<close>
  "digitChar d = ''0123456789'' ! d"

fun digits :: "nat \<Rightarrow> string" where
  "digits n =
     (if n < 10 then [digitChar n]
      else digits (n div 10) @ [digitChar (n mod 10)])"

declare digits.simps [simp del]

definition toString :: "int \<Rightarrow> string" where
  \<comment> \<open>\<open>Number.prototype.toString\<close> on an integer (below 1e21)\<close>
  "toString i = (if i < 0 then CHR ''-'' # digits (nat (- i)) else digits (nat i))"

definition padStart2 :: "string \<Rightarrow> string" where
  \<comment> \<open>\<open>s.padStart(2, "0")\<close>\<close>
  "padStart2 s = replicate (2 - length s) CHR ''0'' @ s"

definition formatHHMMSS :: "real \<Rightarrow> string" where
  "formatHHMMSS totalSec =
     (let sec = max 0 (Math_round totalSec);
          h = sec div 3600;
          m = (sec mod 3600) div 60;
          s = sec mod 60
      in if h \<noteq> 0
         then toString h @ '':'' @ padStart2 (toString m) @ '':'' @ padStart2 (toString s)
         else toString m @ '':'' @ padStart2 (toString s))"

definition js_rem :: "real \<Rightarrow> real \<Rightarrow> real" where
  \<comment> \<open>the \<open>%\<close> of JavaScript on finite numbers with a non-zero divisor: the quotient is truncated\<close>
  "js_rem a d =
     (let q = a / d in a - d * real_of_int (if q < 0 then \<lceil>q\<rceil> else \<lfloor>q\<rfloor>))"

definition pacePerKm :: "real \<Rightarrow> real \<Rightarrow> string" where
  "pacePerKm totalSec km =
     (let spk = (if km > 0 then totalSec / km else 0);
          mm = \<lfloor>spk / 60\<rfloor>;
          ss = Math_round (js_rem spk 60)
      in toString mm @ '':'' @ padStart2 (toString ss) @ ''/km'')"

definition toFixed1 :: "real \<Rightarrow> real" where
  \<comment> \<open>\<open>Number(v.toFixed(1))\<close>: the nearest multiple of 0.1, a tie going away from zero\<close>
  "toFixed1 v =
     (if v < 0 then - (real_of_int \<lfloor>10 * (- v) + 1 / 2\<rfloor> / 10)
      else real_of_int \<lfloor>10 * v + 1 / 2\<rfloor> / 10)"

subsection \<open>mapStravaAct and the three filters\<close>

text \<open>
  \<open>toLowerCase\<close> on the letters A to Z. No character outside ASCII is lowered to one of
  the letters r, u or n, so the comparison with "run" is decided by the ASCII letters alone.
\<close>

definition toLowerCase :: "string \<Rightarrow> string" where
  "toLowerCase s =
     map (\<lambda>c. case map_of (zip ''ABCDEFGHIJKLMNOPQRSTUVWXYZ'' ''abcdefghijklmnopqrstuvwxyz'') c of
                 Some l \<Rightarrow> l
               | None \<Rightarrow> c) s"

definition mapStravaAct :: "activity option \<Rightarrow> Point option" where
  "mapStravaAct r =
     (case r of
        None \<Rightarrow> None
      | Some a \<Rightarrow>
          (case act_type a of
             None \<Rightarrow> None
           | Some ty \<Rightarrow>
               if toLowerCase ty \<noteq> ''run'' then None
               else
                 (case (act_distance a, moving_time a, start_date a) of
                    (Finite d, Finite mt, Some t) \<Rightarrow>
                      Some \<lparr>distance = d, movingTime = mt,
                            elapsedTime = (case elapsed_time a of
                                             Some (Finite e) \<Rightarrow> Some e
                                           | _ \<Rightarrow> None),
                            startDate = t\<rparr>
                  | _ \<Rightarrow> None)))"

definition normalizeActs :: "activity option list \<Rightarrow> Point list" where
  \<comment> \<open>\<open>acts.map(mapStravaAct).filter(p => p !== null).filter(...)\<close>\<close>
  "normalizeActs acts =
     filter (\<lambda>p. distance p > MIN_DISTANCE_M \<and> movingTime p > 0)
       (map the (filter (\<lambda>r. r \<noteq> None) (map mapStravaAct acts)))"

definition pauseDivisor :: "Point \<Rightarrow> real option" where
  \<comment> \<open>the divisor of the pause filter's division, \<open>None\<close> when the callback returns before it\<close>
  "pauseDivisor p =
     (case elapsedTime p of
        None \<Rightarrow> None
      | Some e \<Rightarrow> if e \<le> 0 then None else Some e)"

definition pauseKeep :: "Point \<Rightarrow> bool" where
  "pauseKeep p =
     (case pauseDivisor p of
        None \<Rightarrow> True
      | Some e \<Rightarrow> movingTime p / e \<ge> MIN_MOVE_ELAPSED_RATIO)"

definition pauseFilter :: "Point list \<Rightarrow> Point list" where
  "pauseFilter pts = filter pauseKeep pts"

definition outlierFilter :: "Point list \<Rightarrow> Point list" where
  \<comment> \<open>the callback reads \<open>paces[i]\<close> by the index of the point; the division and the two
      products are binary64 operations (none of them can overflow for a distance above 800)\<close>
  "outlierFilter pts =
     (let paces = map (\<lambda>p. fl (movingTime p / distance p)) pts;
          med = median paces;
          low = fl ((1 / 2) * med);
          high = fl (2 * med)
      in map fst
           (filter (\<lambda>(p, i). paces ! i \<ge> low \<and> paces ! i \<le> high)
              (zip pts [0..<length pts])))"

subsection \<open>predictPerformance, exact reading\<close>

datatype error =
  Unauthorized
| InvalidInput
| InsufficientData string
| ModelFitFailed

fun status :: "error \<Rightarrow> nat" where
  "status Unauthorized = 401"
| "status InvalidInput = 400"
| "status (InsufficientData msg) = 400"
| "status ModelFitFailed = 500"

fun message :: "error \<Rightarrow> string" where
  "message Unauthorized = ''Unauthorized''"
| "message InvalidInput = ''Invalid distance_km''"
| "message (InsufficientData msg) = msg"
| "message ModelFitFailed = ''Model fit failed''"

record Prediction =
  distance_km :: real
  prediction_seconds :: real
  prediction_time :: string
  pace_per_km :: string
  confidence_low_time :: string
  confidence_high_time :: string
  model :: FitResult
  used_points :: nat

text \<open>The three filtering stages with their gates (the source's lines 361 to 389).\<close>

definition cleanPoints :: "activity option list \<Rightarrow> error + Point list" where
  "cleanPoints acts =
     (let pts = normalizeActs acts in
      if length pts < MIN_POINTS then Inl (InsufficientData ''Need at least 4 valid runs'')
      else
        let pts = pauseFilter pts in
        if length pts < MIN_POINTS
        then Inl (InsufficientData ''Not enough clean runs after filtering'')
        else
          let pts = outlierFilter pts in
          if length pts < MIN_POINTS
          then Inl (InsufficientData
                      ''Too many outliers removed; collect a few more steady runs'')
          else Inr pts)"

text \<open>The predicted seconds and the two bounds (lines 393 to 398), computed exactly.\<close>

definition predSecOf :: "FitResult \<Rightarrow> real \<Rightarrow> real" where
  "predSecOf f targetKm = predictSeconds (logA f) (slope f) (targetKm * 1000)"

definition lowSecOf :: "FitResult \<Rightarrow> real \<Rightarrow> real" where
  "lowSecOf f targetKm = exp (ln (predSecOf f targetKm) - rmseLog f)"

definition highSecOf :: "FitResult \<Rightarrow> real \<Rightarrow> real" where
  "highSecOf f targetKm = exp (ln (predSecOf f targetKm) + rmseLog f)"

text \<open>The fit and the prediction from the cleaned points (lines 391 to 409).\<close>

definition fitAndPredict :: "Point list \<Rightarrow> real \<Rightarrow> int \<Rightarrow> error + Prediction" where
  "fitAndPredict pts targetKm now =
     (case fitPowerLaw pts now of
        None \<Rightarrow> Inl ModelFitFailed
      | Some f \<Rightarrow>
          Inr \<lparr>distance_km = targetKm,
               prediction_seconds = toFixed1 (predSecOf f targetKm),
               prediction_time = formatHHMMSS (predSecOf f targetKm),
               pace_per_km = pacePerKm (predSecOf f targetKm) targetKm,
               confidence_low_time = formatHHMMSS (lowSecOf f targetKm),
               confidence_high_time = formatHHMMSS (highSecOf f targetKm),
               model = f,
               used_points = length pts\<rparr>)"

text \<open>
  \<open>userId\<close> is the result of \<open>getUserId(req)\<close>, \<open>targetKm\<close> is
  \<open>Number(req.query.distance_km ?? "5.0")\<close>, \<open>acts\<close> is what \<open>getActivities\<close>
  returned and \<open>now\<close> is the clock that \<open>fitPowerLaw\<close> reads.
\<close>

definition predictPerformance ::
    "string option \<Rightarrow> jsnum \<Rightarrow> activity option list \<Rightarrow> int \<Rightarrow> error + Prediction" where
  "predictPerformance userId targetKm acts now =
     (if userId = None \<or> userId = Some [] then Inl Unauthorized
      else
        (case targetKm of
           Finite km \<Rightarrow>
             if km \<le> 0 then Inl InvalidInput
             else
               (case cleanPoints acts of
                  Inl e \<Rightarrow> Inl e
                | Inr pts \<Rightarrow> fitAndPredict pts km now)
         | _ \<Rightarrow> Inl InvalidInput))"

subsection \<open>predictPerformance, binary64 reading\<close>

text \<open>
  The numbers of a successful response before they are formatted: the fit, the predicted
  seconds, the two bounds and the number of points used (lines 391 to 398 and 408).
\<close>

record Estimate64 =
  fit64 :: FitResult64
  predSec64 :: jsnum
  lowSec64 :: jsnum
  highSec64 :: jsnum
  usedPoints64 :: nat

definition fitAndPredict64 :: "runtime \<Rightarrow> Point list \<Rightarrow> real \<Rightarrow> int \<Rightarrow> error + Estimate64" where
  "fitAndPredict64 rt pts targetKm now =
     (case fitPowerLaw64 rt pts now of
        None \<Rightarrow> Inl ModelFitFailed
      | Some f \<Rightarrow>
          let targetM = round64 (targetKm * 1000);
              predSec = predictSeconds64 rt (logA64 f) (slope64 f) targetM;
              lowSec = Math_exp rt (js_sub (Math_log rt predSec) (rmseLog64 f));
              highSec = Math_exp rt (js_add (Math_log rt predSec) (rmseLog64 f))
          in Inr \<lparr>fit64 = f, predSec64 = predSec, lowSec64 = lowSec, highSec64 = highSec,
                  usedPoints64 = length pts\<rparr>)"

definition predictPerformance64 ::
    "runtime \<Rightarrow> string option \<Rightarrow> jsnum \<Rightarrow> activity option list \<Rightarrow> int \<Rightarrow> error + Estimate64" where
  "predictPerformance64 rt userId targetKm acts now =
     (if userId = None \<or> userId = Some [] then Inl Unauthorized
      else
        (case targetKm of
           Finite km \<Rightarrow>
             if km \<le> 0 then Inl InvalidInput
             else
               (case cleanPoints acts of
                  Inl e \<Rightarrow> Inl e
                | Inr pts \<Rightarrow> fitAndPredict64 rt pts km now)
         | _ \<Rightarrow> Inl InvalidInput))"

subsection \<open>The clock as part of the world\<close>









subsection \<open>The records that the normalize step keeps\<close>

definition isRun :: "activity \<Rightarrow> bool" where
  \<comment> \<open>\<open>a.type?.toLowerCase() === "run"\<close>\<close>
  "isRun a = (case act_type a of None \<Rightarrow> False | Some ty \<Rightarrow> toLowerCase ty = ''run'')"

definition finiteAbove :: "real \<Rightarrow> jsnum \<Rightarrow> bool" where
  "finiteAbove bound v = (case v of Finite r \<Rightarrow> bound < r | _ \<Rightarrow> False)"

definition validRun :: "activity option \<Rightarrow> bool" where
  \<comment> \<open>the tests of \<open>mapStravaAct\<close> together with the filter that follows it\<close>
  "validRun r =
     (case r of
        None \<Rightarrow> False
      | Some a \<Rightarrow>
          isRun a \<and> finiteAbove MIN_DISTANCE_M (act_distance a)
          \<and> finiteAbove 0 (moving_time a) \<and> start_date a \<noteq> None)"

definition spec_validRun :: "activity option \<Rightarrow> bool" where
  \<comment> \<open>the records the specification says are kept: a run with finite, strictly positive
      distance and moving time and a start time that parses\<close>
  "spec_validRun r =
     (case r of
        None \<Rightarrow> False
      | Some a \<Rightarrow>
          isRun a \<and> finiteAbove 0 (act_distance a)
          \<and> finiteAbove 0 (moving_time a) \<and> start_date a \<noteq> None)"

definition stravaRun :: "real \<Rightarrow> real \<Rightarrow> real option \<Rightarrow> int \<Rightarrow> activity option" where
  \<comment> \<open>an activity of type Run as the Strava API returns it: distance in metres, moving and
      elapsed time in seconds, start date in milliseconds\<close>
  "stravaRun d m e t =
     Some \<lparr>act_type = Some ''Run'', act_distance = Finite d, moving_time = Finite m,
           elapsed_time = map_option Finite e, start_date = Some t\<rparr>"

section \<open>Properties of binary64 rounding\<close>

text \<open>
  Rounding is odd and monotone, fixes every binary64 value, and doubling or halving a
  binary64 value is exact (halving above the subnormal range). The two evaluation lemmas
  compute \<open>fl\<close> of a concrete rational from the binade it lies in.
\<close>

lemma rne_of_int [simp]: "rne (of_int n) = n"
  by (simp add: rne_def)

lemma rne_bounds: "y - 1 / 2 \<le> of_int (rne y)" "of_int (rne y) \<le> y + 1 / 2"
  unfolding rne_def Let_def by (auto; linarith)+

lemma rne_le_int: "y \<le> of_int m \<Longrightarrow> rne y \<le> m"
  unfolding rne_def Let_def
  by (auto simp: floor_le_iff le_floor_iff; linarith)

lemma rne_ge_int: "of_int m \<le> y \<Longrightarrow> m \<le> rne y"
  unfolding rne_def Let_def
  by (auto simp: le_floor_iff; linarith)

lemma rne_minus: "rne (- y) = - rne y"
proof (cases "y \<in> \<int>")
  case True
  then obtain n where "y = of_int n" by (auto elim: Ints_cases)
  then show ?thesis
    by (metis of_int_minus rne_of_int)
next
  case False
  have ne: "y \<noteq> of_int \<lfloor>y\<rfloor>"
    using False by (metis Ints_of_int)
  then have f: "\<lfloor>- y\<rfloor> = - \<lfloor>y\<rfloor> - 1"
    by (simp add: floor_minus ceiling_altdef)
  let ?d = "y - of_int \<lfloor>y\<rfloor>"
  have d: "0 < ?d" "?d < 1"
    using ne by (simp_all add: less_le) linarith
  have d': "(- y) - of_int \<lfloor>- y\<rfloor> = 1 - ?d"
    by (simp add: f)
  have par: "even \<lfloor>- y\<rfloor> \<longleftrightarrow> odd \<lfloor>y\<rfloor>"
    by (simp add: f)
  consider "?d < 1 / 2" | "1 / 2 < ?d" | "?d = 1 / 2"
    by linarith
  then show ?thesis
  proof cases
    case 1
    then have "rne y = \<lfloor>y\<rfloor>" "rne (- y) = \<lfloor>- y\<rfloor> + 1"
      unfolding rne_def Let_def d' by auto
    then show ?thesis by (simp add: f)
  next
    case 2
    then have "rne y = \<lfloor>y\<rfloor> + 1" "rne (- y) = \<lfloor>- y\<rfloor>"
      unfolding rne_def Let_def d' by auto
    then show ?thesis by (simp add: f)
  next
    case 3
    then have "rne y = (if even \<lfloor>y\<rfloor> then \<lfloor>y\<rfloor> else \<lfloor>y\<rfloor> + 1)"
      "rne (- y) = (if even \<lfloor>- y\<rfloor> then \<lfloor>- y\<rfloor> else \<lfloor>- y\<rfloor> + 1)"
      unfolding rne_def Let_def d' by auto
    then show ?thesis using par by (simp add: f)
  qed
qed

lemma rne_mono: "a \<le> b \<Longrightarrow> rne a \<le> rne b"
proof -
  assume ab: "a \<le> b"
  show ?thesis
  proof (cases "\<lfloor>a\<rfloor> = \<lfloor>b\<rfloor>")
    case True
    then show ?thesis
      using ab unfolding rne_def Let_def by (auto simp: algebra_simps)
  next
    case False
    then have "\<lfloor>a\<rfloor> + 1 \<le> \<lfloor>b\<rfloor>"
      using floor_mono [OF ab] by linarith
    moreover have "rne a \<le> \<lfloor>a\<rfloor> + 1"
      unfolding rne_def Let_def by auto
    moreover have "\<lfloor>b\<rfloor> \<le> rne b"
      unfolding rne_def Let_def by auto
    ultimately show ?thesis by linarith
  qed
qed

lemma ulpExp_minus [simp]: "ulpExp (- x) = ulpExp x"
  by (simp add: ulpExp_def)

lemma fl_0 [simp]: "fl 0 = 0"
  by (simp add: fl_def)

lemma fl_minus: "fl (- x) = - fl x"
  by (simp add: fl_def rne_minus)

lemma fl_eq_0_iff_aux: "0 < x \<Longrightarrow> 0 \<le> fl x"
  by (simp add: fl_def rne_ge_int [of 0, simplified])

lemma fl_nonneg: "0 \<le> x \<Longrightarrow> 0 \<le> fl x"
  using fl_eq_0_iff_aux [of x] by (cases "x = 0") simp_all

lemma ulpExp_normal:
  assumes "x \<noteq> 0" and "2 powr real_of_int e \<le> \<bar>x\<bar>" and "\<bar>x\<bar> < 2 powr real_of_int (e + 1)"
    and "- 1022 \<le> e"
  shows "ulpExp x = e - 52"
proof -
  have "\<lfloor>log 2 \<bar>x\<bar>\<rfloor> = e"
    using assms by (subst floor_log_eq_powr_iff) simp_all
  then show ?thesis
    using assms(4) by (simp add: ulpExp_def)
qed

lemma ulpExp_low:
  assumes "x \<noteq> 0" and "\<bar>x\<bar> < 2 powr (- 1021)"
  shows "ulpExp x = - 1074"
proof -
  have "log 2 \<bar>x\<bar> < - 1021"
    using assms by (simp add: log_less_iff)
  then have "\<lfloor>log 2 \<bar>x\<bar>\<rfloor> < - 1021"
    by (simp add: floor_less_iff)
  then show ?thesis
    by (simp add: ulpExp_def)
qed

lemma ulpExp_ge: "- 1074 \<le> ulpExp x"
  by (simp add: ulpExp_def)

lemma abs_less_top:
  assumes "x \<noteq> 0"
  shows "\<bar>x\<bar> < 2 powr real_of_int (ulpExp x + 53)"
proof -
  have "\<bar>x\<bar> < 2 powr (real_of_int \<lfloor>log 2 \<bar>x\<bar>\<rfloor> + 1)"
    using assms floor_log_eq_powr_iff [of "\<bar>x\<bar>" 2 "\<lfloor>log 2 \<bar>x\<bar>\<rfloor>"] by simp
  also have "\<dots> \<le> 2 powr real_of_int (ulpExp x + 53)"
    by (rule powr_mono) (simp_all add: ulpExp_def)
  finally show ?thesis .
qed

lemma normal_ge_bottom:
  assumes "x \<noteq> 0" and "- 1074 < ulpExp x"
  shows "2 powr real_of_int (ulpExp x + 52) \<le> \<bar>x\<bar>"
proof -
  have e: "ulpExp x + 52 = \<lfloor>log 2 \<bar>x\<bar>\<rfloor>"
    using assms(2) by (simp add: ulpExp_def max_def split: if_splits)
  have "2 powr real_of_int \<lfloor>log 2 \<bar>x\<bar>\<rfloor> \<le> \<bar>x\<bar>"
    using assms(1) floor_log_eq_powr_iff [of "\<bar>x\<bar>" 2 "\<lfloor>log 2 \<bar>x\<bar>\<rfloor>"] by simp
  then show ?thesis by (simp add: e)
qed

lemma ulpExp_mono:
  assumes "0 < x" and "x \<le> c"
  shows "ulpExp x \<le> ulpExp c"
proof -
  have "log 2 x \<le> log 2 c"
    using assms by simp
  then have "\<lfloor>log 2 \<bar>x\<bar>\<rfloor> \<le> \<lfloor>log 2 \<bar>c\<bar>\<rfloor>"
    using assms by (simp add: floor_mono)
  then show ?thesis
    by (simp add: ulpExp_def)
qed

lemma fl_le_representable_pos:
  assumes "0 < x" and "x \<le> c" and "fl c = c"
  shows "fl x \<le> c"
proof -
  let ?ux = "2 powr real_of_int (ulpExp x)"
  let ?uc = "2 powr real_of_int (ulpExp c)"
  have c0: "c \<noteq> 0" and x0: "x \<noteq> 0" using assms by auto
  define k where "k = nat (ulpExp c - ulpExp x)"
  have le: "ulpExp x \<le> ulpExp c"
    using assms by (intro ulpExp_mono) auto
  then have "real_of_int (ulpExp c) = real_of_int (ulpExp x) + real k"
    by (simp add: k_def)
  then have uc: "?uc = ?ux * 2 ^ k"
    by (simp add: powr_add powr_realpow)
  define N where "N = rne (c / ?uc)"
  have "c = of_int N * ?uc"
    using assms(3) c0 by (simp add: fl_def N_def)
  then have c: "c = of_int (N * 2 ^ k) * ?ux"
    by (simp add: uc)
  have "x / ?ux \<le> of_int (N * 2 ^ k)"
    using assms(2) c by (simp add: field_simps)
  then have "rne (x / ?ux) \<le> N * 2 ^ k"
    by (rule rne_le_int)
  then have "of_int (rne (x / ?ux)) * ?ux \<le> of_int (N * 2 ^ k) * ?ux"
    by (intro mult_right_mono) (simp_all only: of_int_le_iff powr_ge_zero)
  then show ?thesis
    using x0 c by (simp add: fl_def)
qed

lemma fl_ge_representable_pos:
  assumes "0 < c" and "c \<le> x" and "fl c = c"
  shows "c \<le> fl x"
proof -
  let ?ux = "2 powr real_of_int (ulpExp x)"
  let ?uc = "2 powr real_of_int (ulpExp c)"
  have c0: "c \<noteq> 0" and x0: "x \<noteq> 0" and xp: "0 < x" using assms by auto
  have le: "ulpExp c \<le> ulpExp x"
    using assms by (intro ulpExp_mono) auto
  define N where "N = rne (c / ?uc)"
  have c: "c = of_int N * ?uc"
    using assms(3) c0 by (simp add: fl_def N_def)
  show ?thesis
  proof (cases "ulpExp c = ulpExp x")
    case True
    then have "of_int N \<le> x / ?ux"
      using assms(2) c by (simp add: field_simps)
    then have "N \<le> rne (x / ?ux)"
      by (rule rne_ge_int)
    then have "of_int N * ?ux \<le> of_int (rne (x / ?ux)) * ?ux"
      by (intro mult_right_mono) (simp_all only: of_int_le_iff powr_ge_zero)
    then show ?thesis
      using x0 c True by (simp add: fl_def)
  next
    case False
    then have lt: "ulpExp c + 1 \<le> ulpExp x" using le by simp
    then have "- 1074 < ulpExp x"
      using ulpExp_ge [of c] by linarith
    then have "2 powr real_of_int (ulpExp x + 52) \<le> x"
      using normal_ge_bottom [OF x0] xp by simp
    then have "2 ^ 52 * ?ux \<le> x"
      by (simp add: powr_add mult.commute)
    then have "of_int (2 ^ 52) \<le> x / ?ux"
      by (simp add: field_simps)
    then have "2 ^ 52 \<le> rne (x / ?ux)"
      by (rule rne_ge_int)
    then have "of_int (2 ^ 52) * ?ux \<le> of_int (rne (x / ?ux)) * ?ux"
      by (intro mult_right_mono) (simp_all only: of_int_le_iff powr_ge_zero)
    then have "2 powr real_of_int (ulpExp x + 52) \<le> fl x"
      using x0 by (simp add: fl_def powr_add mult.commute)
    moreover have "c < 2 powr real_of_int (ulpExp c + 53)"
      using abs_less_top [OF c0] assms(1) by simp
    moreover have "2 powr real_of_int (ulpExp c + 53) \<le> 2 powr real_of_int (ulpExp x + 52)"
      using lt by (intro powr_mono) simp_all
    ultimately show ?thesis by linarith
  qed
qed

lemma fl_le_representable:
  assumes "x \<le> c" and "fl c = c"
  shows "fl x \<le> c"
proof -
  consider "0 < x" | "x \<le> 0" "0 \<le> c" | "c < 0" by linarith
  then show ?thesis
  proof cases
    case 1
    then show ?thesis using assms by (rule fl_le_representable_pos)
  next
    case 2
    then have "fl x \<le> 0"
      using fl_nonneg [of "- x"] by (simp add: fl_minus)
    then show ?thesis using 2 by simp
  next
    case 3
    have "- c \<le> fl (- x)"
    proof (rule fl_ge_representable_pos)
      show "0 < - c" using 3 by simp
      show "- c \<le> - x" using assms(1) by simp
      show "fl (- c) = - c" using assms(2) by (simp add: fl_minus)
    qed
    then show ?thesis by (simp add: fl_minus)
  qed
qed

lemma fl_ge_representable:
  assumes "c \<le> x" and "fl c = c"
  shows "c \<le> fl x"
proof -
  have "fl (- x) \<le> - c"
  proof (rule fl_le_representable)
    show "- x \<le> - c" using assms(1) by simp
    show "fl (- c) = - c" using assms(2) by (simp add: fl_minus)
  qed
  then show ?thesis by (simp add: fl_minus)
qed

lemma fl_eval:
  assumes "x \<noteq> 0" and "ulpExp x = k"
  shows "fl x = of_int (rne (x / 2 powr real_of_int k)) * 2 powr real_of_int k"
  using assms by (simp add: fl_def)

lemma rne_abs_bound:
  assumes "x \<noteq> 0"
  shows "\<bar>rne (x / 2 powr real_of_int (ulpExp x))\<bar> \<le> 2 ^ 53"
proof -
  let ?u = "2 powr real_of_int (ulpExp x)"
  have "\<bar>x\<bar> < 2 ^ 53 * ?u"
    using abs_less_top [OF assms] by (simp add: powr_add mult.commute)
  then have "x < 2 ^ 53 * ?u" "- (2 ^ 53 * ?u) < x"
    by (simp_all add: abs_less_iff)
  then have "x / ?u < 2 ^ 53" "- (2 ^ 53) < x / ?u"
    by (simp_all add: pos_divide_less_eq pos_less_divide_eq)
  then have "x / ?u \<le> of_int (2 ^ 53)" "of_int (- (2 ^ 53)) \<le> x / ?u"
    by simp_all
  then have "rne (x / ?u) \<le> 2 ^ 53" "- (2 ^ 53) \<le> rne (x / ?u)"
    by (auto intro: rne_le_int rne_ge_int)
  then show ?thesis by simp
qed

lemma fl_idem_pos:
  assumes "0 < x"
  shows "fl (fl x) = fl x"
proof -
  let ?k = "ulpExp x"
  let ?u = "2 powr real_of_int ?k"
  define n where "n = rne (x / ?u)"
  have x0: "x \<noteq> 0" using assms by simp
  have f: "fl x = of_int n * ?u"
    using x0 by (simp add: fl_def n_def)
  have n0: "0 \<le> n"
    unfolding n_def using assms by (intro rne_ge_int) simp
  have n53: "n \<le> 2 ^ 53"
    using rne_abs_bound [OF x0] by (simp add: n_def)
  show ?thesis
  proof (cases "n = 0")
    case True
    then show ?thesis by (simp add: f)
  next
    case False
    then have n1: "1 \<le> n" using n0 by simp
    have fp: "0 < fl x" using n1 by (simp add: f)
    show ?thesis
    proof (cases "n = 2 ^ 53")
      case True
      have v: "fl x = 2 powr real_of_int (?k + 53)"
        by (simp add: f True powr_add mult.commute)
      have "ulpExp (fl x) = (?k + 53) - 52"
      proof (rule ulpExp_normal)
        show "fl x \<noteq> 0" using fp by simp
        show "2 powr real_of_int (?k + 53) \<le> \<bar>fl x\<bar>" by (simp add: v)
        show "\<bar>fl x\<bar> < 2 powr real_of_int (?k + 53 + 1)"
          unfolding v by (simp add: powr_add)
        show "- 1022 \<le> ?k + 53" using ulpExp_ge [of x] by simp
      qed
      then have k': "ulpExp (fl x) = ?k + 1" by simp
      have "fl x / 2 powr real_of_int (?k + 1) = of_int (2 ^ 52)"
        by (simp add: f True powr_add)
      then have r: "rne (fl x / 2 powr real_of_int (?k + 1)) = 2 ^ 52"
        by (simp only: rne_of_int)
      have "fl (fl x) = of_int (rne (fl x / 2 powr real_of_int (?k + 1))) * 2 powr real_of_int (?k + 1)"
      proof (rule fl_eval)
        show "fl x \<noteq> 0" using fp by simp
        show "ulpExp (fl x) = ?k + 1" by (rule k')
      qed
      then have e: "fl (fl x) = of_int (2 ^ 52) * 2 powr real_of_int (?k + 1)"
        by (simp only: r)
      have "of_int (2 ^ 52) * 2 powr real_of_int (?k + 1) = of_int n * ?u"
        by (simp add: True powr_add)
      then show ?thesis
        using e f by (simp only:)
    next
      case False
      then have nlt: "n < 2 ^ 53" using n53 by simp
      have same: "ulpExp (fl x) = ?k"
      proof (cases "?k = - 1074")
        case True
        have "fl x < 2 ^ 53 * ?u"
          using nlt by (simp add: f)
        also have "\<dots> = 2 powr (- 1021)"
          using True powr_add [of "2::real" 53 "- 1074"] by simp
        finally have "\<bar>fl x\<bar> < 2 powr (- 1021)" using fp by simp
        then show ?thesis
          using fp True by (simp add: ulpExp_low)
      next
        case False
        then have "- 1074 < ?k" using ulpExp_ge [of x] by linarith
        then have "2 powr real_of_int (?k + 52) \<le> x"
          using normal_ge_bottom [OF x0] assms by simp
        then have "of_int (2 ^ 52) \<le> x / ?u"
          by (simp add: powr_add field_simps)
        then have n52: "2 ^ 52 \<le> n"
          unfolding n_def by (rule rne_ge_int)
        have "ulpExp (fl x) = (?k + 52) - 52"
        proof (rule ulpExp_normal)
          show "fl x \<noteq> 0" using fp by simp
          have "of_int (2 ^ 52) * ?u \<le> of_int n * ?u"
            using n52 by (intro mult_right_mono) (simp_all only: of_int_le_iff powr_ge_zero)
          then show "2 powr real_of_int (?k + 52) \<le> \<bar>fl x\<bar>"
            by (simp add: f powr_add mult.commute)
          have "of_int n * ?u < of_int (2 ^ 53) * ?u"
            using nlt by (intro mult_strict_right_mono) simp_all
          then show "\<bar>fl x\<bar> < 2 powr real_of_int (?k + 52 + 1)"
            using n0 by (simp add: f powr_add mult.commute)
          show "- 1022 \<le> ?k + 52" using ulpExp_ge [of x] by simp
        qed
        then show ?thesis by simp
      qed
      have "fl x / ?u = of_int n"
        by (simp add: f)
      then have r: "rne (fl x / ?u) = n"
        by (simp only: rne_of_int)
      have "fl (fl x) = of_int (rne (fl x / ?u)) * ?u"
      proof (rule fl_eval)
        show "fl x \<noteq> 0" using fp by simp
        show "ulpExp (fl x) = ?k" by (rule same)
      qed
      then have e: "fl (fl x) = of_int n * ?u"
        by (simp only: r)
      show ?thesis
        by (rule trans [OF e f [symmetric]])
    qed
  qed
qed

lemma fl_idem [simp]: "fl (fl x) = fl x"
proof -
  consider "0 < x" | "x = 0" | "x < 0" by linarith
  then show ?thesis
  proof cases
    case 1
    then show ?thesis by (rule fl_idem_pos)
  next
    case 2
    then show ?thesis by simp
  next
    case 3
    then have "fl (fl (- x)) = fl (- x)"
      by (intro fl_idem_pos) simp
    then show ?thesis by (simp add: fl_minus)
  qed
qed

lemma fl_double:
  assumes "fl c = c"
  shows "fl (2 * c) = 2 * c"
proof (cases "c = 0")
  case True
  then show ?thesis by simp
next
  case False
  let ?k = "ulpExp c"
  let ?u = "2 powr real_of_int ?k"
  define n where "n = rne (c / ?u)"
  have c: "c = of_int n * ?u"
    using assms False by (simp add: fl_def n_def)
  define m where "m = \<lfloor>log 2 \<bar>c\<bar>\<rfloor>"
  have "log 2 \<bar>2 * c\<bar> = 1 + log 2 \<bar>c\<bar>"
    using False by (simp add: abs_mult log_mult)
  then have l: "\<lfloor>log 2 \<bar>2 * c\<bar>\<rfloor> = m + 1"
    by (simp add: m_def)
  have kc: "?k = max m (- 1022) - 52"
    by (simp add: ulpExp_def m_def)
  have k2c: "ulpExp (2 * c) = max (m + 1) (- 1022) - 52"
    unfolding ulpExp_def l by simp
  show ?thesis
  proof (cases "- 1022 \<le> m")
    case True
    then have k2: "ulpExp (2 * c) = ?k + 1"
      unfolding kc k2c by simp
    have "fl (2 * c) = of_int (rne (2 * c / 2 powr real_of_int (?k + 1))) * 2 powr real_of_int (?k + 1)"
      by (rule fl_eval) (use False k2 in auto)
    also have "2 * c / 2 powr real_of_int (?k + 1) = c / ?u"
      by (simp add: powr_add)
    also have "of_int (rne (c / ?u)) * 2 powr real_of_int (?k + 1) = 2 * (of_int n * ?u)"
      by (simp add: n_def powr_add)
    finally show ?thesis using c by simp
  next
    case False
    then have k2: "ulpExp (2 * c) = ?k"
      unfolding kc k2c by simp
    have "fl (2 * c) = of_int (rne (2 * c / ?u)) * ?u"
      by (rule fl_eval) (use \<open>c \<noteq> 0\<close> k2 in auto)
    also have "2 * c / ?u = of_int (2 * n)"
    proof -
      have "c / ?u = of_int n"
        using c [symmetric] by (simp add: divide_eq_eq)
      then have "2 * (c / ?u) = of_int (2 * n)" by simp
      then show ?thesis by simp
    qed
    also have "of_int (rne (of_int (2 * n))) * ?u = 2 * (of_int n * ?u)"
      unfolding rne_of_int by simp
    finally show ?thesis using c by simp
  qed
qed

lemma fl_half:
  assumes "fl c = c" and "2 powr (- 1021) \<le> \<bar>c\<bar>"
  shows "fl (c / 2) = c / 2"
proof -
  have c0: "c \<noteq> 0" using assms(2) by auto
  let ?k = "ulpExp c"
  let ?u = "2 powr real_of_int ?k"
  define n where "n = rne (c / ?u)"
  have c: "c = of_int n * ?u"
    using assms(1) c0 by (simp add: fl_def n_def)
  define m where "m = \<lfloor>log 2 \<bar>c\<bar>\<rfloor>"
  have "- 1021 \<le> log 2 \<bar>c\<bar>"
    using assms(2) c0 by (simp add: le_log_iff)
  then have fl1: "- 1021 \<le> m"
    by (simp add: le_floor_iff m_def)
  have "log 2 \<bar>c / 2\<bar> = log 2 \<bar>c\<bar> - 1"
    using c0 by (simp add: log_divide)
  then have l: "\<lfloor>log 2 \<bar>c / 2\<bar>\<rfloor> = m - 1"
    by (simp add: m_def)
  have kc: "?k = max m (- 1022) - 52"
    by (simp add: ulpExp_def m_def)
  have "ulpExp (c / 2) = max (m - 1) (- 1022) - 52"
    unfolding ulpExp_def l by simp
  then have k2: "ulpExp (c / 2) = ?k - 1"
    unfolding kc using fl1 by simp
  have "fl (c / 2) = of_int (rne (c / 2 / 2 powr real_of_int (?k - 1))) * 2 powr real_of_int (?k - 1)"
    by (rule fl_eval) (use c0 k2 in auto)
  also have "c / 2 / 2 powr real_of_int (?k - 1) = c / ?u"
    by (simp add: powr_diff)
  also have "of_int (rne (c / ?u)) * 2 powr real_of_int (?k - 1) = (of_int n * ?u) / 2"
    by (simp add: n_def powr_diff)
  finally show ?thesis using c by simp
qed

lemma fl_eval_scaled:
  assumes "0 < x" and "u = 2 powr real_of_int k" and "- 1074 \<le> k"
    and "k = - 1074 \<or> 2 ^ 52 * u \<le> x" and "x < 2 ^ 53 * u"
  shows "fl x = of_int (rne (x / u)) * u"
proof -
  have x0: "x \<noteq> 0" using assms(1) by simp
  have "ulpExp x = k"
  proof (cases "2 ^ 52 * u \<le> x")
    case True
    have "ulpExp x = (k + 52) - 52"
    proof (rule ulpExp_normal [OF x0])
      show "2 powr real_of_int (k + 52) \<le> \<bar>x\<bar>"
        using True assms(1) by (simp add: assms(2) powr_add mult.commute)
      show "\<bar>x\<bar> < 2 powr real_of_int (k + 52 + 1)"
        using assms(5) assms(1) by (simp add: assms(2) powr_add mult.commute)
      show "- 1022 \<le> k + 52" using assms(3) by simp
    qed
    then show ?thesis by simp
  next
    case False
    then have k: "k = - 1074" using assms(4) by simp
    have "x < 2 ^ 52 * u" using False by simp
    also have "\<dots> = 2 powr (- 1022)"
      using powr_add [of "2::real" 52 "- 1074"] by (simp add: assms(2) k)
    also have "\<dots> \<le> 2 powr (- 1021)"
      by (rule powr_mono) simp_all
    finally have "\<bar>x\<bar> < 2 powr (- 1021)" using assms(1) by simp
    then show ?thesis using x0 k by (simp add: ulpExp_low)
  qed
  then show ?thesis
    unfolding assms(2) by (rule fl_eval [OF x0])
qed

lemma fl_1 [simp]: "fl 1 = 1"
proof -
  have "fl 1 = of_int (rne (1 / 2 powr real_of_int (- 52))) * 2 powr real_of_int (- 52)"
    by (rule fl_eval_scaled [where k = "- 52"]) (simp_all add: powr_minus divide_simps)
  also have "1 / 2 powr real_of_int (- 52) = of_int (2 ^ 52)"
    by (simp add: powr_minus divide_simps)
  finally show ?thesis
    by (simp only: rne_of_int) (simp add: powr_minus divide_simps)
qed

lemma fl_eval_down:
  assumes "0 < x" and "n \<le> 1074" and "n = 1074 \<or> 2 ^ 52 \<le> x * 2 ^ n" and "x * 2 ^ n < 2 ^ 53"
  shows "fl x = of_int (rne (x * 2 ^ n)) / 2 ^ n"
proof -
  have u: "1 / 2 ^ n = 2 powr real_of_int (- int n)"
    by (simp add: powr_minus powr_realpow divide_simps)
  have "fl x = of_int (rne (x / (1 / 2 ^ n))) * (1 / 2 ^ n)"
  proof (rule fl_eval_scaled [OF assms(1) u])
    show "- 1074 \<le> - int n" using assms(2) by simp
    show "- int n = - 1074 \<or> 2 ^ 52 * (1 / 2 ^ n) \<le> x"
      using assms(3) by (auto simp: field_simps)
    show "x < 2 ^ 53 * (1 / 2 ^ n)"
      using assms(4) by (simp add: field_simps)
  qed
  then show ?thesis by simp
qed

lemma fl_eval_up:
  assumes "0 < x" and "2 ^ 52 * 2 ^ n \<le> x" and "x < 2 ^ 53 * 2 ^ n"
  shows "fl x = of_int (rne (x / 2 ^ n)) * 2 ^ n"
proof -
  have u: "2 ^ n = 2 powr real_of_int (int n)"
    by (simp add: powr_realpow)
  show ?thesis
    by (rule fl_eval_scaled [OF assms(1) u]) (use assms in auto)
qed

section \<open>Properties of the recency weight\<close>

lemma ageDays_nonneg: "0 \<le> ageDays start now"
  by (simp add: ageDays_def)


lemma recencyWeight_pos: "0 < recencyWeight start now"
  by (simp add: recencyWeight_def)

lemma recencyWeight_le_1: "recencyWeight start now \<le> 1"
proof -
  have "0 \<le> ageDays start now / HALF_LIFE_DAYS"
    using ageDays_nonneg [of start now] by (simp add: HALF_LIFE_DAYS_def)
  then have "(1 / 2 :: real) powr (ageDays start now / HALF_LIFE_DAYS) \<le> (1 / 2) powr 0"
    by (intro powr_mono') simp_all
  then show ?thesis by (simp add: recencyWeight_def)
qed




subsection \<open>The recency weight in binary64\<close>

lemma rne_half: "0 \<le> y \<Longrightarrow> y \<le> 1 / 2 \<Longrightarrow> rne y = 0"
proof -
  assume y: "0 \<le> y" "y \<le> 1 / 2"
  then have "\<lfloor>y\<rfloor> = 0"
    by (simp add: floor_eq_iff)
  then show ?thesis
    using y unfolding rne_def Let_def by simp
qed

lemma fl_underflow:
  assumes "0 \<le> x" and "x \<le> 2 powr (- 1075)"
  shows "fl x = 0"
proof (cases "x = 0")
  case True
  then show ?thesis by simp
next
  case False
  then have xp: "0 < x" using assms(1) by simp
  have "(2::real) powr (- 1075) < 2 powr (- 1021)"
    by (rule powr_less_mono) simp_all
  then have "x < 2 powr (- 1021)"
    using assms(2) by linarith
  then have "\<bar>x\<bar> < 2 powr (- 1021)"
    using xp by (simp only: abs_of_pos)
  then have k: "ulpExp x = - 1074"
    by (rule ulpExp_low [OF False])
  have h: "2 powr (- 1075) = (1 / 2) * 2 powr (- 1074 :: real)"
    using powr_add [of "2::real" "- 1" "- 1074"] by (simp add: powr_minus)
  have "x / 2 powr (- 1074) \<le> 1 / 2"
    using assms(2) unfolding h by (simp add: field_simps)
  moreover have "0 \<le> x / 2 powr (- 1074)"
    using xp by simp
  ultimately have "rne (x / 2 powr (- 1074)) = 0"
    by (intro rne_half)
  then show ?thesis
    using False k by (simp add: fl_def)
qed

lemma fl_min_subnormal: "fl (2 powr (- 1074)) = 2 powr (- 1074)"
proof -
  have "fl (2 powr (- 1074)) =
          of_int (rne (2 powr (- 1074) / 2 powr real_of_int (- 1074))) * 2 powr real_of_int (- 1074)"
    by (rule fl_eval_scaled [where k = "- 1074"]) simp_all
  also have "2 powr (- 1074) / 2 powr real_of_int (- 1074) = of_int 1"
    by simp
  finally show ?thesis
    unfolding rne_of_int by simp
qed

lemma fl_pos: "2 powr (- 1074) \<le> x \<Longrightarrow> 0 < fl x"
proof -
  assume "2 powr (- 1074) \<le> x"
  then have "2 powr (- 1074) \<le> fl x"
    by (rule fl_ge_representable) (rule fl_min_subnormal)
  moreover have "(0::real) < 2 powr (- 1074)" by simp
  ultimately show ?thesis by linarith
qed

lemma fl_le_1: "x \<le> 1 \<Longrightarrow> fl x \<le> 1"
  by (rule fl_le_representable) simp_all

lemma round64_unit: "0 \<le> x \<Longrightarrow> x \<le> 1 \<Longrightarrow> round64 x = Finite (fl x)"
proof -
  assume "0 \<le> x" "x \<le> 1"
  then have "0 \<le> fl x" "fl x \<le> 1"
    by (simp_all add: fl_nonneg fl_le_1)
  moreover have "(1::real) < 2 ^ 1024" by simp
  ultimately show ?thesis
    unfolding round64_def Let_def by auto
qed

lemma half_powr_unit: "0 \<le> e \<Longrightarrow> 0 \<le> (1 / 2 :: real) powr e \<and> (1 / 2 :: real) powr e \<le> 1"
  using powr_mono' [of 0 e "1 / 2"] by simp

lemma idealRuntime_pow:
  "0 \<le> e \<Longrightarrow> Math_pow idealRuntime (Finite (1 / 2)) (Finite e) = Finite (fl ((1 / 2) powr e))"
  using half_powr_unit [of e] by (simp add: idealRuntime_def round64_unit)

lemma faithfulPow_idealRuntime: "faithfulPow idealRuntime"
  unfolding faithfulPow_def
  by (auto simp: idealRuntime_pow intro: fl_ge_representable fl_le_representable)

text \<open>The exponent that \<open>recencyWeight\<close> hands to \<open>Math.pow\<close>.\<close>

lemma recencyWeight64_exponent:
  "\<exists>e. 0 \<le> e
      \<and> recencyWeight64 rt start now = Math_pow rt (Finite (1 / 2)) (Finite e)
      \<and> (now \<le> start \<longrightarrow> e = 0)
      \<and> (now - start \<le> 5567616000000 \<longrightarrow> e \<le> 1074)
      \<and> (5572800000000 \<le> now - start \<longrightarrow> 1075 \<le> e)"
proof -
  define ms where "ms = max 0 (fl (real_of_int now - real_of_int start))"
  define days where "days = fl (ms / 86400000)"
  define e where "e = fl (days / HALF_LIFE_DAYS)"
  have ms0: "0 \<le> ms" by (simp add: ms_def)
  then have d0: "0 \<le> days" by (simp add: days_def fl_nonneg)
  then have e0: "0 \<le> e" by (simp add: e_def fl_nonneg HALF_LIFE_DAYS_def)
  have w: "recencyWeight64 rt start now = Math_pow rt (Finite (1 / 2)) (Finite e)"
    by (simp add: recencyWeight64_def Let_def ms_def days_def e_def)
  have r1: "fl 5567616000000 = 5567616000000"
    by (simp add: fl_eval_down [where n = 10] rne_def Let_def)
  have r2: "fl 64440 = 64440"
    by (simp add: fl_eval_down [where n = 37] rne_def Let_def)
  have r3: "fl 1074 = 1074"
    by (simp add: fl_eval_down [where n = 42] rne_def Let_def)
  have r4: "fl 5572800000000 = 5572800000000"
    by (simp add: fl_eval_down [where n = 10] rne_def Let_def)
  have r5: "fl 64500 = 64500"
    by (simp add: fl_eval_down [where n = 37] rne_def Let_def)
  have r6: "fl 1075 = 1075"
    by (simp add: fl_eval_down [where n = 42] rne_def Let_def)
  have z: "e = 0" if "now \<le> start"
  proof -
    have "real_of_int now - real_of_int start \<le> 0" using that by simp
    then have "fl (real_of_int now - real_of_int start) \<le> 0"
      by (rule fl_le_representable) simp
    then have "ms = 0" by (simp add: ms_def)
    then show ?thesis by (simp add: e_def days_def)
  qed
  have up: "e \<le> 1074" if "now - start \<le> 5567616000000"
  proof -
    have "real_of_int now - real_of_int start \<le> 5567616000000"
      using that by linarith
    then have "fl (real_of_int now - real_of_int start) \<le> 5567616000000"
      using r1 by (rule fl_le_representable)
    then have "ms \<le> 5567616000000" by (simp add: ms_def)
    then have "ms / 86400000 \<le> 64440" by simp
    then have "days \<le> 64440"
      unfolding days_def using r2 by (rule fl_le_representable)
    then have "days / HALF_LIFE_DAYS \<le> 1074" by (simp add: HALF_LIFE_DAYS_def)
    then show ?thesis
      unfolding e_def using r3 by (rule fl_le_representable)
  qed
  have lo: "1075 \<le> e" if "5572800000000 \<le> now - start"
  proof -
    have "5572800000000 \<le> real_of_int now - real_of_int start"
      using that by linarith
    then have "5572800000000 \<le> fl (real_of_int now - real_of_int start)"
      using r4 by (rule fl_ge_representable)
    then have "5572800000000 \<le> ms" by (simp add: ms_def)
    then have "64500 \<le> ms / 86400000" by simp
    then have "64500 \<le> days"
      unfolding days_def using r5 by (rule fl_ge_representable)
    then have "1075 \<le> days / HALF_LIFE_DAYS" by (simp add: HALF_LIFE_DAYS_def)
    then show ?thesis
      unfolding e_def using r6 by (rule fl_ge_representable)
  qed
  show ?thesis
    using e0 w z up lo by blast
qed

lemma recencyWeight64_ideal_zero:
  assumes "5572800000000 \<le> now - start"
  shows "recencyWeight64 idealRuntime start now = Finite 0"
proof -
  obtain e where e: "0 \<le> e"
    "recencyWeight64 idealRuntime start now = Math_pow idealRuntime (Finite (1 / 2)) (Finite e)"
    "5572800000000 \<le> now - start \<longrightarrow> 1075 \<le> e"
    using recencyWeight64_exponent [of idealRuntime start now] by blast
  have "1075 \<le> e" using e(3) assms by blast
  then have "(1 / 2 :: real) powr e \<le> (1 / 2) powr 1075"
    by (intro powr_mono') simp_all
  also have "(1 / 2 :: real) powr 1075 = 2 powr (- 1075)"
    by (simp add: powr_minus powr_divide divide_simps)
  finally have "fl ((1 / 2) powr e) = 0"
    by (intro fl_underflow) simp_all
  then show ?thesis
    using e(1) e(2) by (simp add: idealRuntime_pow)
qed

lemma recencyWeight64_faithful:
  assumes "faithfulPow rt"
  shows "\<exists>v. recencyWeight64 rt start now = Finite v \<and> 0 \<le> v \<and> v \<le> 1
           \<and> (now \<le> start \<longrightarrow> v = 1)
           \<and> (now - start \<le> 5567616000000 \<longrightarrow> 0 < v)"
proof -
  obtain e where e: "0 \<le> e"
    "recencyWeight64 rt start now = Math_pow rt (Finite (1 / 2)) (Finite e)"
    "now \<le> start \<longrightarrow> e = 0"
    "now - start \<le> 5567616000000 \<longrightarrow> e \<le> 1074"
    using recencyWeight64_exponent [of rt start now] by blast
  obtain v where v: "Math_pow rt (Finite (1 / 2)) (Finite e) = Finite v"
    and below: "\<And>c. fl c = c \<Longrightarrow> c \<le> (1 / 2) powr e \<Longrightarrow> c \<le> v"
    and above: "\<And>c. fl c = c \<Longrightarrow> (1 / 2) powr e \<le> c \<Longrightarrow> v \<le> c"
    using assms e(1) unfolding faithfulPow_def by blast
  have p: "0 \<le> (1 / 2 :: real) powr e" "(1 / 2 :: real) powr e \<le> 1"
    using half_powr_unit [OF e(1)] by simp_all
  have v0: "0 \<le> v" using below [of 0] p by simp
  have v1: "v \<le> 1" using above [of 1] p by simp
  have one: "v = 1" if "now \<le> start"
  proof -
    have "e = 0" using e(3) that by blast
    then have "1 \<le> v" using below [of 1] by simp
    then show ?thesis using v1 by simp
  qed
  have pos: "0 < v" if "now - start \<le> 5567616000000"
  proof -
    have "e \<le> 1074" using e(4) that by blast
    then have "(1 / 2 :: real) powr 1074 \<le> (1 / 2) powr e"
      by (intro powr_mono') simp_all
    moreover have "(1 / 2 :: real) powr 1074 = 2 powr (- 1074)"
      by (simp add: powr_minus powr_divide divide_simps)
    ultimately have "2 powr (- 1074) \<le> v"
      using below [OF fl_min_subnormal] by simp
    moreover have "(0::real) < 2 powr (- 1074)" by simp
    ultimately show ?thesis by linarith
  qed
  show ?thesis
    using v e(2) v0 v1 one pos by auto
qed

text \<open>
  Claim C9, corrected. The weight that the program computes lies in the closed interval
  [0, 1], not in (0, 1]. For every start and every \<open>now\<close>, and every runtime whose
  \<open>Math.pow\<close> is faithful, the weight is a finite number between 0 and 1; a start at or
  after \<open>now\<close> has its age clamped to zero and its weight is exactly 1; the weight is
  positive for a run at most 64440 days old (\<open>now - start\<close> at most 5567616000000 ms).
  With the correctly rounded \<open>Math.pow\<close>, which is faithful, the weight of a run 64500
  days old or older (\<open>now - start\<close> at least 5572800000000 ms) is exactly 0: the power is
  below half of the least positive binary64 value and underflows.
\<close>

theorem recencyWeight64_unit_interval:
  "(faithfulPow rt \<longrightarrow>
      (\<exists>v. recencyWeight64 rt start now = Finite v \<and> 0 \<le> v \<and> v \<le> 1
         \<and> (now \<le> start \<longrightarrow> v = 1)
         \<and> (now - start \<le> 5567616000000 \<longrightarrow> 0 < v)))
   \<and> faithfulPow idealRuntime
   \<and> (5572800000000 \<le> now - start \<longrightarrow> recencyWeight64 idealRuntime start now = Finite 0)"
  using recencyWeight64_faithful [of rt start now] faithfulPow_idealRuntime
    recencyWeight64_ideal_zero [of now start]
  by blast

theorem recencyWeight64_unit_interval_witness:
  "faithfulPow idealRuntime
   \<and> recencyWeight64 idealRuntime 7 5 = Finite 1
   \<and> (\<exists>v. recencyWeight64 idealRuntime 0 5184000000 = Finite v \<and> 0 < v \<and> v \<le> 1)
   \<and> recencyWeight64 idealRuntime 0 5572800000000 = Finite 0"
proof -
  have f: "faithfulPow idealRuntime"
    using recencyWeight64_unit_interval [of idealRuntime 7 5] by blast
  have "\<exists>v. recencyWeight64 idealRuntime 7 5 = Finite v \<and> 0 \<le> v \<and> v \<le> 1
         \<and> ((5::int) \<le> 7 \<longrightarrow> v = 1) \<and> ((5::int) - 7 \<le> 5567616000000 \<longrightarrow> 0 < v)"
    using recencyWeight64_unit_interval [of idealRuntime 7 5] f by blast
  then have a: "recencyWeight64 idealRuntime 7 5 = Finite 1"
    by auto
  have "\<exists>v. recencyWeight64 idealRuntime 0 5184000000 = Finite v \<and> 0 \<le> v \<and> v \<le> 1
         \<and> ((5184000000::int) \<le> 0 \<longrightarrow> v = 1)
         \<and> ((5184000000::int) - 0 \<le> 5567616000000 \<longrightarrow> 0 < v)"
    using recencyWeight64_unit_interval [of idealRuntime 0 5184000000] f by blast
  then have b: "\<exists>v. recencyWeight64 idealRuntime 0 5184000000 = Finite v \<and> 0 < v \<and> v \<le> 1"
    by auto
  have "(5572800000000::int) \<le> 5572800000000 - 0
          \<longrightarrow> recencyWeight64 idealRuntime 0 5572800000000 = Finite 0"
    using recencyWeight64_unit_interval [of idealRuntime 0 5572800000000] by blast
  then have c: "recencyWeight64 idealRuntime 0 5572800000000 = Finite 0"
    by simp
  show ?thesis
    using f a b c by blast
qed

text \<open>
  Claim C9 as stated fails: with the correctly rounded \<open>Math.pow\<close> the weight of a run that
  started 65000 days before \<open>now\<close> is 0, which is outside (0, 1].
\<close>

theorem recencyWeight_positive_counterexample:
  "recencyWeight64 idealRuntime 0 5616000000000 = Finite 0"
  by (rule recencyWeight64_ideal_zero) simp

section \<open>The median and the outlier filter\<close>

subsection \<open>The median\<close>

lemma length_filter_sort: "length (filter P (sort xs)) = length (filter P (xs :: real list))"
proof -
  have "filter P (sort xs) = sort (filter P xs)"
    by (rule filter_sort)
  then show ?thesis by simp
qed

lemma count_prefix:
  assumes "k \<le> length arr" and "\<And>i. i < k \<Longrightarrow> P (arr ! i)"
  shows "k \<le> length (filter P arr)"
proof -
  have "\<And>v. v \<in> set (take k arr) \<Longrightarrow> P v"
    using assms by (auto simp: in_set_conv_nth)
  then have "filter P (take k arr) = take k arr"
    by (simp add: filter_id_conv)
  moreover have "filter P arr = filter P (take k arr) @ filter P (drop k arr)"
    by (metis append_take_drop_id filter_append)
  ultimately show ?thesis
    using assms(1) by simp
qed

lemma count_suffix:
  assumes "\<And>i. k \<le> i \<Longrightarrow> i < length arr \<Longrightarrow> P (arr ! i)"
  shows "length arr - k \<le> length (filter P arr)"
proof -
  have "\<And>v. v \<in> set (drop k arr) \<Longrightarrow> P v"
    using assms by (auto simp: in_set_conv_nth)
  then have "filter P (drop k arr) = drop k arr"
    by (simp add: filter_id_conv)
  moreover have "filter P arr = filter P (take k arr) @ filter P (drop k arr)"
    by (metis append_take_drop_id filter_append)
  ultimately show ?thesis
    by simp
qed

lemma median_odd:
  "odd (length nums) \<Longrightarrow> median nums = sort nums ! (length nums div 2)"
  by (auto simp: median_def Let_def odd_iff_mod_2_eq_one)

lemma median_even:
  "even (length nums) \<Longrightarrow> 0 < length nums \<Longrightarrow>
   median nums =
     fl (fl (sort nums ! (length nums div 2 - 1) + sort nums ! (length nums div 2)) / 2)"
  by (auto simp: median_def Let_def)

text \<open>
  The binary64 mean of two binary64 values lies between them: doubling is exact, and
  rounding never crosses a binary64 value.
\<close>

lemma fl_mean_between:
  assumes "a \<le> b" and "fl a = a" and "fl b = b"
  shows "a \<le> fl (fl (a + b) / 2) \<and> fl (fl (a + b) / 2) \<le> b"
proof -
  have "2 * a \<le> a + b" "a + b \<le> 2 * b"
    using assms(1) by simp_all
  then have "2 * a \<le> fl (a + b)" "fl (a + b) \<le> 2 * b"
    using fl_double [OF assms(2)] fl_double [OF assms(3)]
    by (auto intro: fl_ge_representable fl_le_representable)
  then have "a \<le> fl (a + b) / 2" "fl (a + b) / 2 \<le> b"
    by simp_all
  then show ?thesis
    using assms(2) assms(3) by (auto intro: fl_ge_representable fl_le_representable)
qed

text \<open>
  The value that \<open>median\<close> returns for a non-empty list of binary64 values is a binary64
  value that splits the list in halves: at least half of the elements are at most the
  median and at least half are at least the median.
\<close>

lemma median_splits_in_halves:
  assumes "nums \<noteq> []" and "\<And>v. v \<in> set nums \<Longrightarrow> fl v = v"
  shows "length nums \<le> 2 * length (filter (\<lambda>v. v \<le> median nums) nums)
         \<and> length nums \<le> 2 * length (filter (\<lambda>v. median nums \<le> v) nums)
         \<and> fl (median nums) = median nums"
proof -
  let ?arr = "sort nums"
  let ?n = "length nums"
  let ?mid = "?n div 2"
  have n: "0 < ?n" using assms(1) by simp
  have len: "length ?arr = ?n" by simp
  have srt: "sorted ?arr" by simp
  have mono: "?arr ! i \<le> ?arr ! j" if "i \<le> j" "j < ?n" for i j
    using sorted_nth_mono [OF srt that(1)] that(2) by simp
  have rep: "fl (?arr ! i) = ?arr ! i" if "i < ?n" for i
  proof -
    have "?arr ! i \<in> set ?arr"
      using that by (intro nth_mem) simp
    then show ?thesis
      using assms(2) by simp
  qed
  show ?thesis
  proof (cases "odd ?n")
    case True
    then have m: "median nums = ?arr ! ?mid"
      by (rule median_odd)
    have midn: "?mid < ?n" using n by simp
    have "?mid + 1 \<le> length (filter (\<lambda>v. v \<le> median nums) ?arr)"
      by (rule count_prefix) (use midn mono m in auto)
    then have lo: "?mid + 1 \<le> length (filter (\<lambda>v. v \<le> median nums) nums)"
      by (simp add: length_filter_sort)
    have "length ?arr - ?mid \<le> length (filter (\<lambda>v. median nums \<le> v) ?arr)"
      by (rule count_suffix) (use mono m in auto)
    then have hi: "?n - ?mid \<le> length (filter (\<lambda>v. median nums \<le> v) nums)"
      by (simp add: length_filter_sort)
    have "fl (median nums) = median nums"
      unfolding m using midn by (rule rep)
    moreover have "?n \<le> 2 * length (filter (\<lambda>v. v \<le> median nums) nums)"
      using lo by linarith
    moreover have "?n \<le> 2 * length (filter (\<lambda>v. median nums \<le> v) nums)"
      using hi by linarith
    ultimately show ?thesis
      by blast
  next
    case False
    then have ev: "?n mod 2 = 0" by presburger
    have m: "median nums = fl (fl (?arr ! (?mid - 1) + ?arr ! ?mid) / 2)"
      using False n by (intro median_even) simp_all
    have mid1: "1 \<le> ?mid" and midn: "?mid < ?n"
      using n ev by presburger+
    have "?arr ! (?mid - 1) \<le> fl (fl (?arr ! (?mid - 1) + ?arr ! ?mid) / 2)
          \<and> fl (fl (?arr ! (?mid - 1) + ?arr ! ?mid) / 2) \<le> ?arr ! ?mid"
    proof (rule fl_mean_between)
      show "?arr ! (?mid - 1) \<le> ?arr ! ?mid"
        using midn by (intro mono) simp_all
      show "fl (?arr ! (?mid - 1)) = ?arr ! (?mid - 1)"
        using midn by (intro rep) simp
      show "fl (?arr ! ?mid) = ?arr ! ?mid"
        using midn by (intro rep)
    qed
    then have between: "?arr ! (?mid - 1) \<le> median nums" "median nums \<le> ?arr ! ?mid"
      unfolding m by simp_all
    have "?mid \<le> length (filter (\<lambda>v. v \<le> median nums) ?arr)"
    proof (rule count_prefix)
      show "?mid \<le> length ?arr" using midn by simp
      fix i assume "i < ?mid"
      then have "?arr ! i \<le> ?arr ! (?mid - 1)"
        using midn by (intro mono) auto
      then show "?arr ! i \<le> median nums"
        using between by simp
    qed
    then have lo: "?mid \<le> length (filter (\<lambda>v. v \<le> median nums) nums)"
      by (simp add: length_filter_sort)
    have "length ?arr - ?mid \<le> length (filter (\<lambda>v. median nums \<le> v) ?arr)"
    proof (rule count_suffix)
      fix i assume "?mid \<le> i" "i < length ?arr"
      then have "?arr ! ?mid \<le> ?arr ! i"
        by (intro mono) auto
      then show "median nums \<le> ?arr ! i"
        using between by simp
    qed
    then have hi: "?n - ?mid \<le> length (filter (\<lambda>v. median nums \<le> v) nums)"
      by (simp add: length_filter_sort)
    have e: "?n \<le> 2 * ?mid" "?n \<le> 2 * (?n - ?mid)"
      using ev by presburger+
    have "?n \<le> 2 * length (filter (\<lambda>v. v \<le> median nums) nums)"
      using e(1) lo by linarith
    moreover have "?n \<le> 2 * length (filter (\<lambda>v. median nums \<le> v) nums)"
      using e(2) hi by linarith
    moreover have "fl (median nums) = median nums"
      unfolding m by simp
    ultimately show ?thesis
      by blast
  qed
qed

lemma median_binary64:
  assumes "\<And>v. v \<in> set nums \<Longrightarrow> fl v = v"
  shows "fl (median nums) = median nums"
proof (cases "nums = []")
  case True
  then show ?thesis by (simp add: median_def)
next
  case False
  then show ?thesis
    using median_splits_in_halves [OF False assms] by blast
qed

subsection \<open>The outlier filter\<close>

lemma map_fst_filter: "map fst (filter (\<lambda>pi. P (fst pi)) xs) = filter P (map fst xs)"
  by (induction xs) auto

lemma filter_by_index:
  "map fst (filter (\<lambda>(p, i). Q (map f pts ! i)) (zip pts [0..<length pts]))
     = filter (\<lambda>p. Q (f p)) pts"
proof -
  have "filter (\<lambda>(p, i). Q (map f pts ! i)) (zip pts [0..<length pts])
          = filter (\<lambda>pi. Q (f (fst pi))) (zip pts [0..<length pts])"
  proof (rule filter_cong [OF refl])
    fix pi assume "pi \<in> set (zip pts [0..<length pts])"
    then obtain k where "k < length pts" "pi = (pts ! k, k)"
      by (auto simp: set_zip)
    then show "(case pi of (p, i) \<Rightarrow> Q (map f pts ! i)) = Q (f (fst pi))"
      by simp
  qed
  then show ?thesis
    by (simp add: map_fst_filter [where P = "\<lambda>p. Q (f p)"])
qed

lemma outlierFilter_eq:
  "outlierFilter pts =
     filter (\<lambda>p. \<not> (fl (movingTime p / distance p)
                       < fl ((1 / 2) * median (map (\<lambda>q. fl (movingTime q / distance q)) pts))
                   \<or> fl (2 * median (map (\<lambda>q. fl (movingTime q / distance q)) pts))
                       < fl (movingTime p / distance p))) pts"
  unfolding outlierFilter_def Let_def
  by (subst filter_by_index) (simp add: not_less conj_commute)

lemma outlierFilter_startDate:
  "outlierFilter (map (\<lambda>p. p\<lparr>startDate := g p\<rparr>) pts)
     = map (\<lambda>p. p\<lparr>startDate := g p\<rparr>) (outlierFilter pts)"
  by (simp add: outlierFilter_eq filter_map comp_def)

lemma pace_median_binary64:
  "fl (median (map (\<lambda>q. fl (movingTime q / distance q)) pts))
     = median (map (\<lambda>q. fl (movingTime q / distance q)) pts)"
  by (rule median_binary64) auto

text \<open>
  Claim C6. The outlier filter takes the pace of each point as the binary64 quotient
  movingTime / distance and the median of these paces over all points: the middle element
  of the sorted paces for an odd number of points, the binary64 mean of the two middle
  elements for an even number, in both cases a value with at least half of the paces on
  either side. It removes exactly the points whose pace is strictly below the lower
  threshold or strictly above the upper threshold. The upper threshold is exactly 2.0
  times the median, and the lower threshold is exactly 0.5 times the median unless the
  median is a subnormal number (below 2 to the power -1021). The start date, which alone
  decides the recency weight, plays no part: changing the start dates changes neither
  which points are removed nor anything else of the result.
\<close>

theorem outlierFilter_excludes_exactly:
  "(let paceOf = (\<lambda>p. fl (movingTime p / distance p));
        paces = map paceOf pts;
        med = median paces;
        arr = sort paces;
        n = length pts
    in outlierFilter pts
         = filter (\<lambda>p. \<not> (paceOf p < fl ((1 / 2) * med) \<or> fl (2 * med) < paceOf p)) pts
       \<and> fl (2 * med) = 2 * med
       \<and> (2 powr (- 1021) \<le> med \<longrightarrow> fl ((1 / 2) * med) = (1 / 2) * med)
       \<and> (odd n \<longrightarrow> med = arr ! (n div 2))
       \<and> (even n \<and> 0 < n \<longrightarrow> med = fl (fl (arr ! (n div 2 - 1) + arr ! (n div 2)) / 2))
       \<and> (0 < n \<longrightarrow> n \<le> 2 * length (filter (\<lambda>v. v \<le> med) paces)
                    \<and> n \<le> 2 * length (filter (\<lambda>v. med \<le> v) paces)))
   \<and> outlierFilter (map (\<lambda>p. p\<lparr>startDate := g p\<rparr>) pts)
       = map (\<lambda>p. p\<lparr>startDate := g p\<rparr>) (outlierFilter pts)"
proof -
  let ?paceOf = "\<lambda>p. fl (movingTime p / distance p)"
  let ?paces = "map ?paceOf pts"
  let ?med = "median ?paces"
  let ?arr = "sort ?paces"
  let ?n = "length pts"
  have rep: "fl ?med = ?med"
    by (rule pace_median_binary64)
  have a: "outlierFilter pts
         = filter (\<lambda>p. \<not> (?paceOf p < fl ((1 / 2) * ?med) \<or> fl (2 * ?med) < ?paceOf p)) pts"
    by (rule outlierFilter_eq)
  have b: "fl (2 * ?med) = 2 * ?med"
    using rep by (rule fl_double)
  have c: "fl ((1 / 2) * ?med) = (1 / 2) * ?med" if "2 powr (- 1021) \<le> ?med"
  proof -
    have "2 powr (- 1021) \<le> \<bar>?med\<bar>" using that by linarith
    then have "fl (?med / 2) = ?med / 2"
      using rep by (intro fl_half)
    then show ?thesis by simp
  qed
  have d: "?med = ?arr ! (?n div 2)" if "odd ?n"
    using median_odd [of ?paces] that by simp
  have e: "?med = fl (fl (?arr ! (?n div 2 - 1) + ?arr ! (?n div 2)) / 2)"
    if "even ?n \<and> 0 < ?n"
    using median_even [of ?paces] that by simp
  have f: "?n \<le> 2 * length (filter (\<lambda>v. v \<le> ?med) ?paces)
           \<and> ?n \<le> 2 * length (filter (\<lambda>v. ?med \<le> v) ?paces)" if "0 < ?n"
  proof -
    have ne: "?paces \<noteq> []" using that by simp
    have "length ?paces \<le> 2 * length (filter (\<lambda>v. v \<le> ?med) ?paces)
         \<and> length ?paces \<le> 2 * length (filter (\<lambda>v. ?med \<le> v) ?paces)
         \<and> fl ?med = ?med"
      by (rule median_splits_in_halves [OF ne]) auto
    then show ?thesis by simp
  qed
  have g: "outlierFilter (map (\<lambda>p. p\<lparr>startDate := g p\<rparr>) pts)
       = map (\<lambda>p. p\<lparr>startDate := g p\<rparr>) (outlierFilter pts)"
    by (rule outlierFilter_startDate)
  show ?thesis
    unfolding Let_def using a b c d e f g by blast
qed

theorem outlierFilter_excludes_exactly_witness:
  "median (map (\<lambda>p. fl (movingTime p / distance p))
     [\<lparr>distance = 1000, movingTime = 300, elapsedTime = None, startDate = 0\<rparr>,
      \<lparr>distance = 1000, movingTime = 75, elapsedTime = None, startDate = 1\<rparr>,
      \<lparr>distance = 1000, movingTime = 200, elapsedTime = None, startDate = 2\<rparr>,
      \<lparr>distance = 1000, movingTime = 100, elapsedTime = None, startDate = 3\<rparr>])
     = 1351079888211149 / 9007199254740992
   \<and> outlierFilter
     [\<lparr>distance = 1000, movingTime = 300, elapsedTime = None, startDate = 0\<rparr>,
      \<lparr>distance = 1000, movingTime = 75, elapsedTime = None, startDate = 1\<rparr>,
      \<lparr>distance = 1000, movingTime = 200, elapsedTime = None, startDate = 2\<rparr>,
      \<lparr>distance = 1000, movingTime = 100, elapsedTime = None, startDate = 3\<rparr>]
     = [\<lparr>distance = 1000, movingTime = 300, elapsedTime = None, startDate = 0\<rparr>,
        \<lparr>distance = 1000, movingTime = 200, elapsedTime = None, startDate = 2\<rparr>,
        \<lparr>distance = 1000, movingTime = 100, elapsedTime = None, startDate = 3\<rparr>]
   \<and> outlierFilter
     [\<lparr>distance = 1000, movingTime = 300, elapsedTime = None, startDate = 7\<rparr>,
      \<lparr>distance = 1000, movingTime = 75, elapsedTime = None, startDate = 7\<rparr>,
      \<lparr>distance = 1000, movingTime = 200, elapsedTime = None, startDate = 7\<rparr>,
      \<lparr>distance = 1000, movingTime = 100, elapsedTime = None, startDate = 7\<rparr>]
     = [\<lparr>distance = 1000, movingTime = 300, elapsedTime = None, startDate = 7\<rparr>,
        \<lparr>distance = 1000, movingTime = 200, elapsedTime = None, startDate = 7\<rparr>,
        \<lparr>distance = 1000, movingTime = 100, elapsedTime = None, startDate = 7\<rparr>]"
proof -
  define pts where "pts =
     [\<lparr>distance = 1000, movingTime = 300, elapsedTime = None, startDate = 0\<rparr>,
      \<lparr>distance = 1000, movingTime = 75, elapsedTime = None, startDate = 1\<rparr>,
      \<lparr>distance = 1000, movingTime = 200, elapsedTime = None, startDate = 2\<rparr>,
      \<lparr>distance = 1000, movingTime = 100, elapsedTime = None, startDate = 3\<rparr>]"
  let ?paceOf = "\<lambda>p :: Point. fl (movingTime p / distance p)"
  define med where "med = median (map ?paceOf pts)"
  note h = outlierFilter_excludes_exactly [of pts "\<lambda>p. 7", unfolded Let_def, folded med_def]
  have p1: "fl (3 / 10) = 5404319552844595 / 18014398509481984"
    by (simp add: fl_eval_down [where n = 54] rne_def Let_def)
  have p2: "fl (3 / 40) = 5404319552844595 / 72057594037927936"
    by (simp add: fl_eval_down [where n = 56] rne_def Let_def)
  have p3: "fl (1 / 5) = 3602879701896397 / 18014398509481984"
    by (simp add: fl_eval_down [where n = 55] rne_def Let_def)
  have p4: "fl (1 / 10) = 3602879701896397 / 36028797018963968"
    by (simp add: fl_eval_down [where n = 56] rne_def Let_def)
  have paces: "map ?paceOf pts =
      [5404319552844595 / 18014398509481984, 5404319552844595 / 72057594037927936,
       3602879701896397 / 18014398509481984, 3602879701896397 / 36028797018963968]"
    by (simp add: pts_def p1 p2 p3 p4)
  have arr: "sort (map ?paceOf pts) =
      [5404319552844595 / 72057594037927936, 3602879701896397 / 36028797018963968,
       3602879701896397 / 18014398509481984, 5404319552844595 / 18014398509481984]"
    unfolding paces by simp
  have n: "length pts = 4"
    by (simp add: pts_def)
  have "even (length pts) \<and> 0 < length pts \<longrightarrow>
        med = fl (fl (sort (map ?paceOf pts) ! (length pts div 2 - 1)
                      + sort (map ?paceOf pts) ! (length pts div 2)) / 2)"
    using h by blast
  then have "med = fl (fl (sort (map ?paceOf pts) ! (length pts div 2 - 1)
                      + sort (map ?paceOf pts) ! (length pts div 2)) / 2)"
    by (simp add: n)
  also have "\<dots> = fl (fl (3602879701896397 / 36028797018963968
                          + 3602879701896397 / 18014398509481984) / 2)"
    unfolding arr n by simp
  also have "fl (3602879701896397 / 36028797018963968 + 3602879701896397 / 18014398509481984)
               = 1351079888211149 / 4503599627370496"
    by (simp add: fl_eval_down [where n = 54] rne_def Let_def)
  also have "fl (1351079888211149 / 4503599627370496 / 2) = 1351079888211149 / 9007199254740992"
    by (simp add: fl_eval_down [where n = 55] rne_def Let_def)
  finally have m: "med = 1351079888211149 / 9007199254740992" .
  have hi: "fl (2 * med) = 2 * med"
    using h by blast
  have "2 powr (- 1021) \<le> (1 :: real) / 2 ^ 1021"
    by (simp add: powr_minus powr_realpow divide_simps)
  also have "\<dots> \<le> med"
    unfolding m by (simp add: divide_simps)
  finally have "fl ((1 / 2) * med) = (1 / 2) * med"
    using h by blast
  then have lo: "fl ((1 / 2) * med) = 1351079888211149 / 18014398509481984"
    by (simp add: m)
  have hi': "fl (2 * med) = 1351079888211149 / 4503599627370496"
    unfolding hi by (simp add: m)
  have "outlierFilter pts
          = filter (\<lambda>p. \<not> (?paceOf p < fl ((1 / 2) * med) \<or> fl (2 * med) < ?paceOf p)) pts"
    using h by blast
  then have f: "outlierFilter pts
          = filter (\<lambda>p. \<not> (?paceOf p < 1351079888211149 / 18014398509481984
                            \<or> 1351079888211149 / 4503599627370496 < ?paceOf p)) pts"
    by (simp only: lo hi')
  have a: "outlierFilter pts = [pts ! 0, pts ! 2, pts ! 3]"
    unfolding f by (simp add: pts_def p1 p2 p3 p4)
  have "outlierFilter (map (\<lambda>p. p\<lparr>startDate := 7\<rparr>) pts)
          = map (\<lambda>p. p\<lparr>startDate := 7\<rparr>) (outlierFilter pts)"
    using h by blast
  then have b: "outlierFilter (map (\<lambda>p. p\<lparr>startDate := 7\<rparr>) pts)
          = map (\<lambda>p. p\<lparr>startDate := 7\<rparr>) [pts ! 0, pts ! 2, pts ! 3]"
    by (simp only: a)
  show ?thesis
    using m a b unfolding med_def pts_def by simp
qed

text \<open>Points that all have the same pace pass the outlier filter.\<close>

lemma median_const:
  assumes "nums \<noteq> []" and "\<And>v. v \<in> set nums \<Longrightarrow> v = c" and "fl c = c"
  shows "median nums = c"
proof -
  have el: "sort nums ! i = c" if "i < length nums" for i
  proof -
    have "sort nums ! i \<in> set (sort nums)"
      using that by (intro nth_mem) simp
    then show ?thesis using assms(2) by simp
  qed
  have n: "0 < length nums" using assms(1) by simp
  show ?thesis
  proof (cases "odd (length nums)")
    case True
    then show ?thesis
      using el [of "length nums div 2"] n by (simp add: median_odd)
  next
    case False
    then have "median nums =
        fl (fl (sort nums ! (length nums div 2 - 1) + sort nums ! (length nums div 2)) / 2)"
      using n by (intro median_even) simp_all
    also have "sort nums ! (length nums div 2 - 1) = c"
      using n by (intro el) linarith
    also have "sort nums ! (length nums div 2) = c"
      using n by (intro el) simp
    also have "fl (c + c) = 2 * c"
      using fl_double [OF assms(3)] by simp
    finally show ?thesis
      using assms(3) by simp
  qed
qed

lemma outlierFilter_same_pace:
  assumes "\<And>p. p \<in> set pts \<Longrightarrow> fl (movingTime p / distance p) = c" and "0 \<le> c"
  shows "outlierFilter pts = pts"
proof (cases "pts = []")
  case True
  then show ?thesis by (simp add: outlierFilter_def)
next
  case False
  let ?paces = "map (\<lambda>q. fl (movingTime q / distance q)) pts"
  obtain p where p: "p \<in> set pts"
    using False by (cases pts) auto
  have rep: "fl c = c"
    using assms(1) [OF p, symmetric] by simp
  have med: "median ?paces = c"
  proof (rule median_const)
    show "?paces \<noteq> []" using False by simp
    show "\<And>v. v \<in> set ?paces \<Longrightarrow> v = c" using assms(1) by auto
    show "fl c = c" by (rule rep)
  qed
  have lo: "fl ((1 / 2) * c) \<le> c"
    using assms(2) rep by (intro fl_le_representable) simp_all
  have hi: "fl (2 * c) = 2 * c"
    using rep by (rule fl_double)
  have "filter (\<lambda>p. \<not> (fl (movingTime p / distance p) < fl ((1 / 2) * median ?paces)
                        \<or> fl (2 * median ?paces) < fl (movingTime p / distance p))) pts = pts"
    unfolding med hi filter_id_conv using assms lo by (auto simp: not_less)
  then show ?thesis
    by (simp only: outlierFilter_eq)
qed

section \<open>The pause filter\<close>

lemma pauseDivisor_pos: "pauseDivisor p = Some e \<Longrightarrow> 0 < e \<and> elapsedTime p = Some e"
  by (auto simp: pauseDivisor_def split: option.splits if_splits)

text \<open>
  Claim C10. The pause filter divides movingTime by elapsedTime only when elapsedTime is a
  number strictly greater than 0: the divisor of every division it evaluates is positive.
  A point whose elapsedTime is absent or not positive is kept without any division.
\<close>

theorem pauseFilter_divides_only_by_positive:
  "(pauseDivisor p = Some e \<longrightarrow> 0 < e \<and> elapsedTime p = Some e)
   \<and> ((elapsedTime p = None \<or> (\<exists>v. elapsedTime p = Some v \<and> v \<le> 0))
        \<longrightarrow> pauseDivisor p = None \<and> pauseKeep p
            \<and> (p \<in> set pts \<longrightarrow> p \<in> set (pauseFilter pts)))
   \<and> pauseKeep p = (case elapsedTime p of
                        None \<Rightarrow> True
                      | Some v \<Rightarrow> v \<le> 0 \<or> (0 < v \<and> MIN_MOVE_ELAPSED_RATIO \<le> movingTime p / v))"
proof (intro conjI impI)
  show "0 < e" "elapsedTime p = Some e" if "pauseDivisor p = Some e"
    using pauseDivisor_pos [OF that] by simp_all
  assume a: "elapsedTime p = None \<or> (\<exists>v. elapsedTime p = Some v \<and> v \<le> 0)"
  then show d: "pauseDivisor p = None"
    by (auto simp: pauseDivisor_def)
  then show k: "pauseKeep p"
    by (simp add: pauseKeep_def)
  show "p \<in> set (pauseFilter pts)" if "p \<in> set pts"
    using that k by (simp add: pauseFilter_def)
next
  show "pauseKeep p = (case elapsedTime p of
                        None \<Rightarrow> True
                      | Some v \<Rightarrow> v \<le> 0 \<or> (0 < v \<and> MIN_MOVE_ELAPSED_RATIO \<le> movingTime p / v))"
    by (auto simp: pauseKeep_def pauseDivisor_def split: option.splits)
qed

theorem pauseFilter_divides_only_by_positive_witness:
  "pauseFilter
     [\<lparr>distance = 5000, movingTime = 1500, elapsedTime = Some 0, startDate = 0\<rparr>,
      \<lparr>distance = 5000, movingTime = 1500, elapsedTime = Some 3000, startDate = 1\<rparr>,
      \<lparr>distance = 5000, movingTime = 1500, elapsedTime = None, startDate = 2\<rparr>,
      \<lparr>distance = 5000, movingTime = 1500, elapsedTime = Some (- 7), startDate = 3\<rparr>,
      \<lparr>distance = 5000, movingTime = 1500, elapsedTime = Some 1600, startDate = 4\<rparr>]
   = [\<lparr>distance = 5000, movingTime = 1500, elapsedTime = Some 0, startDate = 0\<rparr>,
      \<lparr>distance = 5000, movingTime = 1500, elapsedTime = None, startDate = 2\<rparr>,
      \<lparr>distance = 5000, movingTime = 1500, elapsedTime = Some (- 7), startDate = 3\<rparr>,
      \<lparr>distance = 5000, movingTime = 1500, elapsedTime = Some 1600, startDate = 4\<rparr>]
   \<and> pauseDivisor \<lparr>distance = 5000, movingTime = 1500, elapsedTime = Some 0, startDate = 0\<rparr> = None
   \<and> pauseDivisor \<lparr>distance = 5000, movingTime = 1500, elapsedTime = Some 1600, startDate = 4\<rparr>
       = Some 1600"
proof -
  let ?z = "\<lparr>distance = 5000, movingTime = 1500, elapsedTime = Some (0::real), startDate = 0\<rparr>"
  let ?n = "\<lparr>distance = 5000, movingTime = 1500, elapsedTime = None, startDate = 2\<rparr>"
  let ?m = "\<lparr>distance = 5000, movingTime = 1500, elapsedTime = Some (- 7 :: real), startDate = 3\<rparr>"
  let ?h = "\<lparr>distance = 5000, movingTime = 1500, elapsedTime = Some (3000::real), startDate = 1\<rparr>"
  let ?k = "\<lparr>distance = 5000, movingTime = 1500, elapsedTime = Some (1600::real), startDate = 4\<rparr>"
  have "pauseKeep ?z" "pauseDivisor ?z = None" "?z \<in> set (pauseFilter [?z, ?h, ?n, ?m, ?k])"
    using pauseFilter_divides_only_by_positive [of ?z 0 "[?z, ?h, ?n, ?m, ?k]"] by simp_all
  moreover have "pauseKeep ?n"
    using pauseFilter_divides_only_by_positive [of ?n 0 "[]"] by simp
  moreover have "pauseKeep ?m"
    using pauseFilter_divides_only_by_positive [of ?m 0 "[]"] by simp
  moreover have "\<not> pauseKeep ?h" "pauseKeep ?k"
    by (simp_all add: pauseKeep_def pauseDivisor_def MIN_MOVE_ELAPSED_RATIO_def)
  moreover have "pauseDivisor ?k = Some 1600"
    by (simp add: pauseDivisor_def)
  ultimately show ?thesis
    by (simp add: pauseFilter_def)
qed

section \<open>The normalize step\<close>

lemma mapStravaAct_stravaRun:
  "mapStravaAct (stravaRun d m e t)
     = Some \<lparr>distance = d, movingTime = m, elapsedTime = e, startDate = t\<rparr>"
  by (cases e) (simp_all add: mapStravaAct_def stravaRun_def toLowerCase_def)

lemma mapStravaAct_Some_iff:
  "mapStravaAct r \<noteq> None \<longleftrightarrow>
     (case r of None \<Rightarrow> False
      | Some a \<Rightarrow> isRun a \<and> isFinite (act_distance a) \<and> isFinite (moving_time a)
                   \<and> start_date a \<noteq> None)"
  by (cases r; cases "act_distance (the r)"; cases "moving_time (the r)")
     (auto simp: mapStravaAct_def isRun_def split: option.splits)

lemma mapStravaAct_fields:
  assumes "mapStravaAct (Some a) = Some p"
  shows "act_distance a = Finite (distance p) \<and> moving_time a = Finite (movingTime p)
         \<and> start_date a = Some (startDate p)
         \<and> elapsedTime p = (case elapsed_time a of Some (Finite e) \<Rightarrow> Some e | _ \<Rightarrow> None)"
  using assms
  by (cases "act_distance a"; cases "moving_time a")
     (auto simp: mapStravaAct_def split: option.splits if_splits)

lemma validRun_iff:
  "validRun r \<longleftrightarrow>
     (\<exists>p. mapStravaAct r = Some p \<and> MIN_DISTANCE_M < distance p \<and> 0 < movingTime p)"
proof (cases r)
  case None
  then show ?thesis by (simp add: validRun_def mapStravaAct_def)
next
  case (Some a)
  show ?thesis
  proof
    assume v: "validRun r"
    then have "mapStravaAct r \<noteq> None"
      unfolding mapStravaAct_Some_iff using Some
      by (auto simp: validRun_def finiteAbove_def split: jsnum.splits)
    then obtain p where p: "mapStravaAct (Some a) = Some p"
      using Some by auto
    from mapStravaAct_fields [OF p] v Some
    have "MIN_DISTANCE_M < distance p \<and> 0 < movingTime p"
      by (simp add: validRun_def finiteAbove_def)
    with p Some show "\<exists>p. mapStravaAct r = Some p \<and> MIN_DISTANCE_M < distance p \<and> 0 < movingTime p"
      by auto
  next
    assume "\<exists>p. mapStravaAct r = Some p \<and> MIN_DISTANCE_M < distance p \<and> 0 < movingTime p"
    then obtain p where p: "mapStravaAct (Some a) = Some p"
      and b: "MIN_DISTANCE_M < distance p" "0 < movingTime p"
      using Some by auto
    have "mapStravaAct (Some a) \<noteq> None" using p by simp
    then have "isRun a \<and> start_date a \<noteq> None"
      unfolding mapStravaAct_Some_iff by simp
    with mapStravaAct_fields [OF p] b Some show "validRun r"
      by (simp add: validRun_def finiteAbove_def)
  qed
qed

lemma normalizeActs_eq: "normalizeActs acts = map (the \<circ> mapStravaAct) (filter validRun acts)"
proof (induction acts)
  case Nil
  show ?case by (simp add: normalizeActs_def)
next
  case (Cons r acts)
  show ?case
  proof (cases "mapStravaAct r")
    case None
    then have "\<not> validRun r" by (simp add: validRun_iff)
    with None Cons show ?thesis by (simp add: normalizeActs_def)
  next
    case (Some p)
    then have "validRun r \<longleftrightarrow> MIN_DISTANCE_M < distance p \<and> 0 < movingTime p"
      by (simp add: validRun_iff)
    with Some Cons show ?thesis by (simp add: normalizeActs_def)
  qed
qed

text \<open>
  Claim C3, as amended. The normalize step keeps exactly the raw records whose type label
  is "run" case-insensitively, whose distance is finite and strictly above 800 metres
  (\<open>MIN_DISTANCE_M\<close>), whose moving time is finite and strictly positive and whose start
  time parses; each of them becomes a point with the same distance, moving time and start,
  in the order of the input, and every other record is discarded. The records kept are
  those the unamended claim names, less the ones of at most 800 metres.
\<close>

theorem normalizeActs_keeps_exactly:
  "normalizeActs acts = map (the \<circ> mapStravaAct) (filter validRun acts)
   \<and> (validRun (Some a) \<longrightarrow>
        (\<exists>p. mapStravaAct (Some a) = Some p
             \<and> act_distance a = Finite (distance p) \<and> 800 < distance p
             \<and> moving_time a = Finite (movingTime p) \<and> 0 < movingTime p
             \<and> start_date a = Some (startDate p)))
   \<and> validRun (Some a) = (spec_validRun (Some a) \<and> finiteAbove 800 (act_distance a))"
proof (intro conjI impI)
  show "normalizeActs acts = map (the \<circ> mapStravaAct) (filter validRun acts)"
    by (rule normalizeActs_eq)
  show "\<exists>p. mapStravaAct (Some a) = Some p
             \<and> act_distance a = Finite (distance p) \<and> 800 < distance p
             \<and> moving_time a = Finite (movingTime p) \<and> 0 < movingTime p
             \<and> start_date a = Some (startDate p)" if "validRun (Some a)"
  proof -
    from that obtain p where p: "mapStravaAct (Some a) = Some p"
      and b: "MIN_DISTANCE_M < distance p" "0 < movingTime p"
      unfolding validRun_iff by auto
    with mapStravaAct_fields [OF p] show ?thesis
      by (simp add: MIN_DISTANCE_M_def)
  qed
  show "validRun (Some a) = (spec_validRun (Some a) \<and> finiteAbove 800 (act_distance a))"
    by (auto simp: validRun_def spec_validRun_def finiteAbove_def MIN_DISTANCE_M_def
             split: jsnum.splits)
qed

text \<open>
  Claim C3 as stated fails: a run of 500 metres in 150 seconds with a start time that
  parses has a finite, strictly positive distance and moving time, and is discarded.
\<close>

theorem normalizeActs_keeps_all_positive_counterexample:
  "spec_validRun
     (Some \<lparr>act_type = Some ''Run'', act_distance = Finite 500, moving_time = Finite 150,
            elapsed_time = None, start_date = Some 0\<rparr>)
   \<and> normalizeActs
       [Some \<lparr>act_type = Some ''Run'', act_distance = Finite 500, moving_time = Finite 150,
              elapsed_time = None, start_date = Some 0\<rparr>] = []"
  by (simp add: spec_validRun_def isRun_def finiteAbove_def toLowerCase_def normalizeActs_def
        mapStravaAct_def MIN_DISTANCE_M_def)

theorem normalizeActs_keeps_exactly_witness:
  "normalizeActs
     [Some \<lparr>act_type = Some ''Run'', act_distance = Finite 5000, moving_time = Finite 1500,
            elapsed_time = Some (Finite 1600), start_date = Some 10\<rparr>,
      Some \<lparr>act_type = Some ''Ride'', act_distance = Finite 20000, moving_time = Finite 3600,
            elapsed_time = None, start_date = Some 20\<rparr>,
      None,
      Some \<lparr>act_type = Some ''RUN'', act_distance = NaN, moving_time = Finite 1500,
            elapsed_time = None, start_date = Some 30\<rparr>,
      Some \<lparr>act_type = Some ''run'', act_distance = Finite 801, moving_time = Finite 240,
            elapsed_time = Some NaN, start_date = Some 40\<rparr>,
      Some \<lparr>act_type = Some ''Run'', act_distance = Finite 5000, moving_time = Finite 0,
            elapsed_time = None, start_date = Some 50\<rparr>,
      Some \<lparr>act_type = Some ''Run'', act_distance = Finite 5000, moving_time = Finite 1500,
            elapsed_time = None, start_date = None\<rparr>,
      Some \<lparr>act_type = None, act_distance = Finite 5000, moving_time = Finite 1500,
            elapsed_time = None, start_date = Some 60\<rparr>]
   = [\<lparr>distance = 5000, movingTime = 1500, elapsedTime = Some 1600, startDate = 10\<rparr>,
      \<lparr>distance = 801, movingTime = 240, elapsedTime = None, startDate = 40\<rparr>]
   \<and> validRun
        (Some \<lparr>act_type = Some ''Run'', act_distance = Finite 5000, moving_time = Finite 1500,
               elapsed_time = Some (Finite 1600), start_date = Some 10\<rparr>)
   \<and> mapStravaAct
        (Some \<lparr>act_type = Some ''Run'', act_distance = Finite 5000, moving_time = Finite 1500,
               elapsed_time = Some (Finite 1600), start_date = Some 10\<rparr>)
       = Some \<lparr>distance = 5000, movingTime = 1500, elapsedTime = Some 1600, startDate = 10\<rparr>"
proof -
  let ?a = "\<lparr>act_type = Some ''Run'', act_distance = Finite 5000, moving_time = Finite 1500,
            elapsed_time = Some (Finite 1600), start_date = Some 10\<rparr>"
  let ?acts = "[Some ?a,
      Some \<lparr>act_type = Some ''Ride'', act_distance = Finite 20000, moving_time = Finite 3600,
            elapsed_time = None, start_date = Some 20\<rparr>,
      None,
      Some \<lparr>act_type = Some ''RUN'', act_distance = NaN, moving_time = Finite 1500,
            elapsed_time = None, start_date = Some 30\<rparr>,
      Some \<lparr>act_type = Some ''run'', act_distance = Finite 801, moving_time = Finite 240,
            elapsed_time = Some NaN, start_date = Some 40\<rparr>,
      Some \<lparr>act_type = Some ''Run'', act_distance = Finite 5000, moving_time = Finite 0,
            elapsed_time = None, start_date = Some 50\<rparr>,
      Some \<lparr>act_type = Some ''Run'', act_distance = Finite 5000, moving_time = Finite 1500,
            elapsed_time = None, start_date = None\<rparr>,
      Some \<lparr>act_type = None, act_distance = Finite 5000, moving_time = Finite 1500,
            elapsed_time = None, start_date = Some 60\<rparr>]"
  note h = normalizeActs_keeps_exactly [of ?acts ?a]
  have v: "validRun (Some ?a)"
    by (simp add: validRun_def isRun_def finiteAbove_def toLowerCase_def MIN_DISTANCE_M_def)
  have m: "mapStravaAct (Some ?a)
       = Some \<lparr>distance = 5000, movingTime = 1500, elapsedTime = Some 1600, startDate = 10\<rparr>"
    by (simp add: mapStravaAct_def toLowerCase_def)
  have "normalizeActs ?acts = map (the \<circ> mapStravaAct) (filter validRun ?acts)"
    using h by blast
  also have "\<dots> = [\<lparr>distance = 5000, movingTime = 1500, elapsedTime = Some 1600, startDate = 10\<rparr>,
      \<lparr>distance = 801, movingTime = 240, elapsedTime = None, startDate = 40\<rparr>]"
    by (simp add: validRun_def isRun_def finiteAbove_def toLowerCase_def MIN_DISTANCE_M_def
          mapStravaAct_def)
  finally show ?thesis
    using v m by simp
qed

section \<open>Validation of the request\<close>

text \<open>
  A request without a user identity is answered with Unauthorized (status 401), and an
  identified request whose target distance is not a finite positive number with
  InvalidInput (status 400, "Invalid distance_km"), before any activity is looked at.
\<close>

theorem request_validation:
  "((userId = None \<or> userId = Some []) \<longrightarrow>
      predictPerformance userId targetKm acts now = Inl Unauthorized)
   \<and> (userId = Some u \<and> u \<noteq> [] \<and> (\<not> isFinite targetKm \<or> (\<exists>k. targetKm = Finite k \<and> k \<le> 0)) \<longrightarrow>
      predictPerformance userId targetKm acts now = Inl InvalidInput)
   \<and> status Unauthorized = 401 \<and> message Unauthorized = ''Unauthorized''
   \<and> status InvalidInput = 400 \<and> message InvalidInput = ''Invalid distance_km''"
  by (cases targetKm) (auto simp: predictPerformance_def)

theorem request_validation_witness:
  "predictPerformance None (Finite 5) [] 0 = Inl Unauthorized
   \<and> predictPerformance (Some '''') (Finite 5) [] 0 = Inl Unauthorized
   \<and> predictPerformance (Some ''u1'') NaN [] 0 = Inl InvalidInput
   \<and> predictPerformance (Some ''u1'') (Finite 0) [] 0 = Inl InvalidInput
   \<and> predictPerformance (Some ''u1'') PosInfinity [] 0 = Inl InvalidInput"
proof -
  have "predictPerformance None (Finite 5) [] 0 = Inl Unauthorized"
    using request_validation [of None "Finite 5" "[]" 0 "''u1''"] by blast
  moreover have "predictPerformance (Some '''') (Finite 5) [] 0 = Inl Unauthorized"
    using request_validation [of "Some ''''" "Finite 5" "[]" 0 "''u1''"] by blast
  moreover have "\<not> isFinite NaN" and "\<not> isFinite PosInfinity" and "''u1'' \<noteq> []"
    and "Finite 0 = Finite 0 \<and> (0::real) \<le> 0"
    by simp_all
  then have "predictPerformance (Some ''u1'') NaN [] 0 = Inl InvalidInput"
    and "predictPerformance (Some ''u1'') PosInfinity [] 0 = Inl InvalidInput"
    and "predictPerformance (Some ''u1'') (Finite 0) [] 0 = Inl InvalidInput"
    using request_validation [of "Some ''u1''" NaN "[]" 0 "''u1''"]
      request_validation [of "Some ''u1''" PosInfinity "[]" 0 "''u1''"]
      request_validation [of "Some ''u1''" "Finite 0" "[]" 0 "''u1''"]
    by blast+
  ultimately show ?thesis by blast
qed

section \<open>The minimum-volume gates\<close>

lemma gate_messages_distinct:
  "distinct [''Need at least 4 valid runs'', ''Not enough clean runs after filtering'',
             ''Too many outliers removed; collect a few more steady runs'']"
  by simp

lemma fitAndPredict_not_insufficient: "fitAndPredict pts km now \<noteq> Inl (InsufficientData msg)"
  by (simp add: fitAndPredict_def split: option.splits)

lemma predictPerformance_valid_request:
  "u \<noteq> [] \<Longrightarrow> 0 < km \<Longrightarrow>
   predictPerformance (Some u) (Finite km) acts now =
     (case cleanPoints acts of Inl e \<Rightarrow> Inl e | Inr pts \<Rightarrow> fitAndPredict pts km now)"
  by (simp add: predictPerformance_def)

text \<open>
  Claim C5. For an authorised request with a valid target distance: after each of the
  three filtering stages (normalization, pause filter, outlier filter) fewer than 4
  remaining points make the predictor fail with InsufficientData (status 400), each stage
  with a message of its own, and 4 or more points pass on to the next stage; when all
  three gates are passed the result is that of the fit on the cleaned points, which is
  never InsufficientData.
\<close>

theorem minimum_volume_gates:
  assumes "u \<noteq> []" and "0 < km"
  shows
  "(length (normalizeActs acts) < 4 \<longrightarrow>
      predictPerformance (Some u) (Finite km) acts now
        = Inl (InsufficientData ''Need at least 4 valid runs''))
   \<and> (4 \<le> length (normalizeActs acts) \<and> length (pauseFilter (normalizeActs acts)) < 4 \<longrightarrow>
      predictPerformance (Some u) (Finite km) acts now
        = Inl (InsufficientData ''Not enough clean runs after filtering''))
   \<and> (4 \<le> length (normalizeActs acts) \<and> 4 \<le> length (pauseFilter (normalizeActs acts))
        \<and> length (outlierFilter (pauseFilter (normalizeActs acts))) < 4 \<longrightarrow>
      predictPerformance (Some u) (Finite km) acts now
        = Inl (InsufficientData ''Too many outliers removed; collect a few more steady runs''))
   \<and> (4 \<le> length (normalizeActs acts) \<and> 4 \<le> length (pauseFilter (normalizeActs acts))
        \<and> 4 \<le> length (outlierFilter (pauseFilter (normalizeActs acts))) \<longrightarrow>
      cleanPoints acts = Inr (outlierFilter (pauseFilter (normalizeActs acts)))
      \<and> predictPerformance (Some u) (Finite km) acts now
          = fitAndPredict (outlierFilter (pauseFilter (normalizeActs acts))) km now
      \<and> (\<forall>msg. predictPerformance (Some u) (Finite km) acts now \<noteq> Inl (InsufficientData msg)))
   \<and> distinct [''Need at least 4 valid runs'', ''Not enough clean runs after filtering'',
                ''Too many outliers removed; collect a few more steady runs'']
   \<and> status (InsufficientData msg) = 400 \<and> message (InsufficientData msg) = msg"
proof -
  note pp = predictPerformance_valid_request [OF assms, of acts now]
  have 1: "predictPerformance (Some u) (Finite km) acts now
        = Inl (InsufficientData ''Need at least 4 valid runs'')"
    if "length (normalizeActs acts) < 4"
    using that by (simp add: pp cleanPoints_def MIN_POINTS_def)
  have 2: "predictPerformance (Some u) (Finite km) acts now
        = Inl (InsufficientData ''Not enough clean runs after filtering'')"
    if "4 \<le> length (normalizeActs acts) \<and> length (pauseFilter (normalizeActs acts)) < 4"
    using that by (simp add: pp cleanPoints_def MIN_POINTS_def Let_def)
  have 3: "predictPerformance (Some u) (Finite km) acts now
        = Inl (InsufficientData ''Too many outliers removed; collect a few more steady runs'')"
    if "4 \<le> length (normalizeActs acts) \<and> 4 \<le> length (pauseFilter (normalizeActs acts))
        \<and> length (outlierFilter (pauseFilter (normalizeActs acts))) < 4"
    using that by (simp add: pp cleanPoints_def MIN_POINTS_def Let_def)
  have 4: "cleanPoints acts = Inr (outlierFilter (pauseFilter (normalizeActs acts)))
      \<and> predictPerformance (Some u) (Finite km) acts now
          = fitAndPredict (outlierFilter (pauseFilter (normalizeActs acts))) km now
      \<and> (\<forall>msg. predictPerformance (Some u) (Finite km) acts now \<noteq> Inl (InsufficientData msg))"
    if "4 \<le> length (normalizeActs acts) \<and> 4 \<le> length (pauseFilter (normalizeActs acts))
        \<and> 4 \<le> length (outlierFilter (pauseFilter (normalizeActs acts)))"
  proof -
    have c: "cleanPoints acts = Inr (outlierFilter (pauseFilter (normalizeActs acts)))"
      using that by (simp add: cleanPoints_def MIN_POINTS_def Let_def)
    then show ?thesis
      using fitAndPredict_not_insufficient by (simp add: pp)
  qed
  have 5: "status (InsufficientData msg) = 400 \<and> message (InsufficientData msg) = msg"
    by simp
  show ?thesis
    using 1 2 3 4 5 gate_messages_distinct by blast
qed

theorem minimum_volume_gates_witness:
  "predictPerformance (Some ''u1'') (Finite 5)
     [stravaRun 5000 1500 None 0, stravaRun 5000 1500 None 1, stravaRun 5000 1500 None 2] 9
     = Inl (InsufficientData ''Need at least 4 valid runs'')
   \<and> predictPerformance (Some ''u1'') (Finite 5)
       [stravaRun 5000 1500 None 0, stravaRun 5000 1500 None 1, stravaRun 5000 1500 None 2,
        stravaRun 5000 1500 (Some 3000) 3] 9
     = Inl (InsufficientData ''Not enough clean runs after filtering'')
   \<and> predictPerformance (Some ''u1'') (Finite 5)
       [stravaRun 5000 1500 None 0, stravaRun 5000 1500 None 1, stravaRun 5000 1500 None 2,
        stravaRun 5000 3500 None 3] 9
     = Inl (InsufficientData ''Too many outliers removed; collect a few more steady runs'')
   \<and> cleanPoints
       [stravaRun 5000 1500 None 0, stravaRun 5000 1500 None 1, stravaRun 5000 1500 None 2,
        stravaRun 5000 1500 None 3]
     = Inr [\<lparr>distance = 5000, movingTime = 1500, elapsedTime = None, startDate = 0\<rparr>,
            \<lparr>distance = 5000, movingTime = 1500, elapsedTime = None, startDate = 1\<rparr>,
            \<lparr>distance = 5000, movingTime = 1500, elapsedTime = None, startDate = 2\<rparr>,
            \<lparr>distance = 5000, movingTime = 1500, elapsedTime = None, startDate = 3\<rparr>]"
proof -
  have u: "''u1'' \<noteq> []" and k: "(0::real) < 5"
    by simp_all
  let ?three = "[stravaRun 5000 1500 None 0, stravaRun 5000 1500 None 1, stravaRun 5000 1500 None 2]"
  let ?paused = "?three @ [stravaRun 5000 1500 (Some 3000) 3]"
  let ?slow = "?three @ [stravaRun 5000 3500 None 3]"
  let ?four = "?three @ [stravaRun 5000 1500 None 3]"
  have n3: "length (normalizeActs ?three) = 3"
    by (simp add: normalizeActs_def mapStravaAct_stravaRun MIN_DISTANCE_M_def)
  have np: "length (normalizeActs ?paused) = 4"
    and pp: "length (pauseFilter (normalizeActs ?paused)) = 3"
    by (simp_all add: normalizeActs_def mapStravaAct_stravaRun MIN_DISTANCE_M_def
          pauseFilter_def pauseKeep_def pauseDivisor_def MIN_MOVE_ELAPSED_RATIO_def)
  have ns: "normalizeActs ?slow =
      [\<lparr>distance = 5000, movingTime = 1500, elapsedTime = None, startDate = 0\<rparr>,
       \<lparr>distance = 5000, movingTime = 1500, elapsedTime = None, startDate = 1\<rparr>,
       \<lparr>distance = 5000, movingTime = 1500, elapsedTime = None, startDate = 2\<rparr>,
       \<lparr>distance = 5000, movingTime = 3500, elapsedTime = None, startDate = 3\<rparr>]"
    by (simp add: normalizeActs_def mapStravaAct_stravaRun MIN_DISTANCE_M_def)
  have ps: "pauseFilter (normalizeActs ?slow) = normalizeActs ?slow"
    unfolding ns by (simp add: pauseFilter_def pauseKeep_def pauseDivisor_def)
  have os: "length (outlierFilter (normalizeActs ?slow)) = 3"
  proof -
    define a where "a = fl (3 / 10)"
    define b where "b = fl (7 / 10)"
    have av: "a = 5404319552844595 / 18014398509481984"
      unfolding a_def by (simp add: fl_eval_down [where n = 54] rne_def Let_def)
    have bv: "b = 3152519739159347 / 4503599627370496"
      unfolding b_def by (simp add: fl_eval_down [where n = 53] rne_def Let_def)
    have ord: "0 < a" "a \<le> b" "2 * a < b"
      unfolding av bv by simp_all
    have ra: "fl a = a"
      by (simp add: a_def)
    have hi: "fl (2 * a) = 2 * a"
      using ra by (rule fl_double)
    have lo: "fl (a / 2) \<le> a"
      using ord(1) ra by (intro fl_le_representable) simp_all
    have srt: "sort [a, a, a, b] = [a, a, a, b]"
      using ord(2) by simp
    have "median [a, a, a, b] = fl (fl (a + a) / 2)"
      by (simp add: median_def srt)
    also have "fl (a + a) = 2 * a"
      using hi by simp
    finally have med: "median [a, a, a, b] = a"
      using ra by simp
    have "outlierFilter (normalizeActs ?slow) = take 3 (normalizeActs ?slow)"
      unfolding ns outlierFilter_eq
      using ord lo by (simp add: a_def [symmetric] b_def [symmetric] med hi not_less)
    then show ?thesis
      unfolding ns by simp
  qed
  have nf: "normalizeActs ?four =
      [\<lparr>distance = 5000, movingTime = 1500, elapsedTime = None, startDate = 0\<rparr>,
       \<lparr>distance = 5000, movingTime = 1500, elapsedTime = None, startDate = 1\<rparr>,
       \<lparr>distance = 5000, movingTime = 1500, elapsedTime = None, startDate = 2\<rparr>,
       \<lparr>distance = 5000, movingTime = 1500, elapsedTime = None, startDate = 3\<rparr>]"
    by (simp add: normalizeActs_def mapStravaAct_stravaRun MIN_DISTANCE_M_def)
  have pf: "pauseFilter (normalizeActs ?four) = normalizeActs ?four"
    unfolding nf by (simp add: pauseFilter_def pauseKeep_def pauseDivisor_def)
  have "of": "outlierFilter (normalizeActs ?four) = normalizeActs ?four"
    unfolding nf by (rule outlierFilter_same_pace [where c = "fl (3 / 10)"]) (auto simp: fl_nonneg)
  have a: "predictPerformance (Some ''u1'') (Finite 5) ?three 9
     = Inl (InsufficientData ''Need at least 4 valid runs'')"
    using minimum_volume_gates [OF u k, of ?three 9] n3 by simp
  have b: "predictPerformance (Some ''u1'') (Finite 5) ?paused 9
     = Inl (InsufficientData ''Not enough clean runs after filtering'')"
    using minimum_volume_gates [OF u k, of ?paused 9] np pp by simp
  have c: "predictPerformance (Some ''u1'') (Finite 5) ?slow 9
     = Inl (InsufficientData ''Too many outliers removed; collect a few more steady runs'')"
    using minimum_volume_gates [OF u k, of ?slow 9] ps os ns by simp
  have d: "cleanPoints ?four = Inr (normalizeActs ?four)"
    using minimum_volume_gates [OF u k, of ?four 9] pf "of" nf by simp
  show ?thesis
    using a b c d unfolding nf by simp
qed

section \<open>The regression\<close>

subsection \<open>The exact determinant of points at one distance\<close>







subsection \<open>Evaluation of the binary64 reading\<close>

lemma recencyWeight64_future:
  assumes "now \<le> start"
  shows "recencyWeight64 rt start now = Math_pow rt (Finite (1 / 2)) (Finite 0)"
proof -
  obtain e where "recencyWeight64 rt start now = Math_pow rt (Finite (1 / 2)) (Finite e)"
    and "now \<le> start \<longrightarrow> e = 0"
    using recencyWeight64_exponent [of rt start now] by blast
  then show ?thesis using assms by simp
qed

lemma cleanPoints_kept:
  assumes "normalizeActs acts = pts" and "pauseFilter pts = pts" and "outlierFilter pts = pts"
    and "4 \<le> length pts"
  shows "cleanPoints acts = Inr pts"
  using assms by (simp add: cleanPoints_def Let_def MIN_POINTS_def)

lemma fitAndPredict64_None:
  "fitPowerLaw64 rt pts now = None \<Longrightarrow> fitAndPredict64 rt pts km now = Inl ModelFitFailed"
  by (simp add: fitAndPredict64_def)

lemma fitAndPredict64_Some:
  "fitPowerLaw64 rt pts now = Some f \<Longrightarrow>
   \<exists>est. fitAndPredict64 rt pts km now = Inr est \<and> fit64 est = f \<and> usedPoints64 est = length pts"
  by (simp add: fitAndPredict64_def Let_def)

lemma fitPowerLaw64_None_iff:
  "fitPowerLaw64 rt pts now = None \<longleftrightarrow>
     length pts < 2 \<or> degenerate64 (accumulate64 (samples64 rt pts now) zeroSums64)"
  by (simp add: fitPowerLaw64_def Let_def)

lemma predictPerformance64_valid_request:
  "u \<noteq> [] \<Longrightarrow> 0 < km \<Longrightarrow>
   predictPerformance64 rt (Some u) (Finite km) acts now =
     (case cleanPoints acts of Inl e \<Rightarrow> Inl e | Inr pts \<Rightarrow> fitAndPredict64 rt pts km now)"
  by (simp add: predictPerformance64_def)

section \<open>Degenerate fits\<close>

text \<open>
  Claim C2 does not hold of the program. Nine runs of 42195 m in 12600 s each, dated at
  or after the clock (so that every weight is \<open>0.5 ** 0 = 1\<close>), share one distance and one
  moving time. The determinant that \<open>fitPowerLaw\<close> computes is not 0 but the rounding
  error of \<open>sw * swxx - swx * swx\<close>, about 1.819e-12, which is above the guard of 1e-12.
  \<open>fitPowerLaw\<close> therefore divides by it and returns the fit \<open>logA = 8\<close>, \<open>b = -0.5\<close>,
  and the predictor does not fail with ModelFitFailed.
\<close>

theorem degenerate_fit_not_rejected:
  "fitPowerLaw64 sampledRuntime
     [\<lparr>distance = 42195, movingTime = 12600, elapsedTime = None, startDate = 1700000000000\<rparr>,
      \<lparr>distance = 42195, movingTime = 12600, elapsedTime = None, startDate = 1700086400000\<rparr>,
      \<lparr>distance = 42195, movingTime = 12600, elapsedTime = None, startDate = 1700172800000\<rparr>,
      \<lparr>distance = 42195, movingTime = 12600, elapsedTime = None, startDate = 1700259200000\<rparr>,
      \<lparr>distance = 42195, movingTime = 12600, elapsedTime = None, startDate = 1700345600000\<rparr>,
      \<lparr>distance = 42195, movingTime = 12600, elapsedTime = None, startDate = 1700432000000\<rparr>,
      \<lparr>distance = 42195, movingTime = 12600, elapsedTime = None, startDate = 1700518400000\<rparr>,
      \<lparr>distance = 42195, movingTime = 12600, elapsedTime = None, startDate = 1700604800000\<rparr>,
      \<lparr>distance = 42195, movingTime = 12600, elapsedTime = None, startDate = 1700691200000\<rparr>]
     1700000000000
     = Some \<lparr>logA64 = Finite 8, slope64 = Finite (- (1 / 2)),
              rmseLog64 = Math_sqrt (Finite (3221851225496927 / 70368744177664))\<rparr>
   \<and> det64 (accumulate64 (samples64 sampledRuntime
     [\<lparr>distance = 42195, movingTime = 12600, elapsedTime = None, startDate = 1700000000000\<rparr>,
      \<lparr>distance = 42195, movingTime = 12600, elapsedTime = None, startDate = 1700086400000\<rparr>,
      \<lparr>distance = 42195, movingTime = 12600, elapsedTime = None, startDate = 1700172800000\<rparr>,
      \<lparr>distance = 42195, movingTime = 12600, elapsedTime = None, startDate = 1700259200000\<rparr>,
      \<lparr>distance = 42195, movingTime = 12600, elapsedTime = None, startDate = 1700345600000\<rparr>,
      \<lparr>distance = 42195, movingTime = 12600, elapsedTime = None, startDate = 1700432000000\<rparr>,
      \<lparr>distance = 42195, movingTime = 12600, elapsedTime = None, startDate = 1700518400000\<rparr>,
      \<lparr>distance = 42195, movingTime = 12600, elapsedTime = None, startDate = 1700604800000\<rparr>,
      \<lparr>distance = 42195, movingTime = 12600, elapsedTime = None, startDate = 1700691200000\<rparr>]
     1700000000000) zeroSums64) = Finite (1 / 549755813888)
   \<and> predictPerformance64 sampledRuntime (Some ''u1'') (Finite (5938418321153065 / 140737488355328))
     [stravaRun 42195 12600 None 1700000000000,
      stravaRun 42195 12600 None 1700086400000,
      stravaRun 42195 12600 None 1700172800000,
      stravaRun 42195 12600 None 1700259200000,
      stravaRun 42195 12600 None 1700345600000,
      stravaRun 42195 12600 None 1700432000000,
      stravaRun 42195 12600 None 1700518400000,
      stravaRun 42195 12600 None 1700604800000,
      stravaRun 42195 12600 None 1700691200000]
     1700000000000 \<noteq> Inl ModelFitFailed"
proof -
  let ?pts = "[\<lparr>distance = 42195, movingTime = 12600, elapsedTime = None, startDate = 1700000000000\<rparr>,
      \<lparr>distance = 42195, movingTime = 12600, elapsedTime = None, startDate = 1700086400000\<rparr>,
      \<lparr>distance = 42195, movingTime = 12600, elapsedTime = None, startDate = 1700172800000\<rparr>,
      \<lparr>distance = 42195, movingTime = 12600, elapsedTime = None, startDate = 1700259200000\<rparr>,
      \<lparr>distance = 42195, movingTime = 12600, elapsedTime = None, startDate = 1700345600000\<rparr>,
      \<lparr>distance = 42195, movingTime = 12600, elapsedTime = None, startDate = 1700432000000\<rparr>,
      \<lparr>distance = 42195, movingTime = 12600, elapsedTime = None, startDate = 1700518400000\<rparr>,
      \<lparr>distance = 42195, movingTime = 12600, elapsedTime = None, startDate = 1700604800000\<rparr>,
      \<lparr>distance = 42195, movingTime = 12600, elapsedTime = None, startDate = 1700691200000\<rparr>]"
  let ?acts = "[stravaRun 42195 12600 None 1700000000000,
      stravaRun 42195 12600 None 1700086400000,
      stravaRun 42195 12600 None 1700172800000,
      stravaRun 42195 12600 None 1700259200000,
      stravaRun 42195 12600 None 1700345600000,
      stravaRun 42195 12600 None 1700432000000,
      stravaRun 42195 12600 None 1700518400000,
      stravaRun 42195 12600 None 1700604800000,
      stravaRun 42195 12600 None 1700691200000]"
  have t1: "Math_log sampledRuntime (Finite 42195) = Finite (5995449097484171 / 562949953421312)"
    by (simp add: sampledRuntime_def tableRuntime_def)
  have t2: "Math_log sampledRuntime (Finite 12600) = Finite (5315065015949879 / 562949953421312)"
    by (simp add: sampledRuntime_def tableRuntime_def)
  have t3: "Math_pow sampledRuntime (Finite (1 / 2)) (Finite 0) = Finite 1"
    by (simp add: sampledRuntime_def tableRuntime_def)
  have wt: "recencyWeight64 sampledRuntime s 1700000000000 = Finite 1" if "1700000000000 \<le> s" for s
    using that by (simp add: recencyWeight64_future t3)
  have smp: "samples64 sampledRuntime ?pts 1700000000000
      = [(Finite 1, Finite (5995449097484171 / 562949953421312),
          Finite (5315065015949879 / 562949953421312)),
         (Finite 1, Finite (5995449097484171 / 562949953421312),
          Finite (5315065015949879 / 562949953421312)),
         (Finite 1, Finite (5995449097484171 / 562949953421312),
          Finite (5315065015949879 / 562949953421312)),
         (Finite 1, Finite (5995449097484171 / 562949953421312),
          Finite (5315065015949879 / 562949953421312)),
         (Finite 1, Finite (5995449097484171 / 562949953421312),
          Finite (5315065015949879 / 562949953421312)),
         (Finite 1, Finite (5995449097484171 / 562949953421312),
          Finite (5315065015949879 / 562949953421312)),
         (Finite 1, Finite (5995449097484171 / 562949953421312),
          Finite (5315065015949879 / 562949953421312)),
         (Finite 1, Finite (5995449097484171 / 562949953421312),
          Finite (5315065015949879 / 562949953421312)),
         (Finite 1, Finite (5995449097484171 / 562949953421312),
          Finite (5315065015949879 / 562949953421312))]"
    by (simp add: samples64_def wt t1 t2)
  have a1: "js_add (Finite 0) (Finite 1) = Finite 1"
    by (simp add: js_sub_def round64_def fl_minus fl_eval_down [where n = 52] rne_def Let_def)
  have a2: "js_mul (Finite 1) (Finite (5995449097484171 / 562949953421312)) = Finite (5995449097484171 / 562949953421312)"
    by (simp add: js_sub_def round64_def fl_minus fl_eval_down [where n = 49] rne_def Let_def)
  have a3: "js_add (Finite 0) (Finite (5995449097484171 / 562949953421312)) = Finite (5995449097484171 / 562949953421312)"
    by (simp add: js_sub_def round64_def fl_minus fl_eval_down [where n = 49] rne_def Let_def)
  have a4: "js_mul (Finite 1) (Finite (5315065015949879 / 562949953421312)) = Finite (5315065015949879 / 562949953421312)"
    by (simp add: js_sub_def round64_def fl_minus fl_eval_down [where n = 49] rne_def Let_def)
  have a5: "js_add (Finite 0) (Finite (5315065015949879 / 562949953421312)) = Finite (5315065015949879 / 562949953421312)"
    by (simp add: js_sub_def round64_def fl_minus fl_eval_down [where n = 49] rne_def Let_def)
  have a6: "js_mul (Finite (5995449097484171 / 562949953421312)) (Finite (5995449097484171 / 562949953421312)) = Finite (7981484335789215 / 70368744177664)"
    by (simp add: js_sub_def round64_def fl_minus fl_eval_down [where n = 46] rne_def Let_def)
  have a7: "js_add (Finite 0) (Finite (7981484335789215 / 70368744177664)) = Finite (7981484335789215 / 70368744177664)"
    by (simp add: js_sub_def round64_def fl_minus fl_eval_down [where n = 46] rne_def Let_def)
  have a8: "js_mul (Finite (5995449097484171 / 562949953421312)) (Finite (5315065015949879 / 562949953421312)) = Finite (3537859089347161 / 35184372088832)"
    by (simp add: js_sub_def round64_def fl_minus fl_eval_down [where n = 46] rne_def Let_def)
  have a9: "js_add (Finite 0) (Finite (3537859089347161 / 35184372088832)) = Finite (3537859089347161 / 35184372088832)"
    by (simp add: js_sub_def round64_def fl_minus fl_eval_down [where n = 46] rne_def Let_def)
  have a10: "js_add (Finite 1) (Finite 1) = Finite 2"
    by (simp add: js_sub_def round64_def fl_minus fl_eval_down [where n = 51] rne_def Let_def)
  have a11: "js_add (Finite (5995449097484171 / 562949953421312)) (Finite (5995449097484171 / 562949953421312)) = Finite (5995449097484171 / 281474976710656)"
    by (simp add: js_sub_def round64_def fl_minus fl_eval_down [where n = 48] rne_def Let_def)
  have a12: "js_add (Finite (5315065015949879 / 562949953421312)) (Finite (5315065015949879 / 562949953421312)) = Finite (5315065015949879 / 281474976710656)"
    by (simp add: js_sub_def round64_def fl_minus fl_eval_down [where n = 48] rne_def Let_def)
  have a13: "js_add (Finite (7981484335789215 / 70368744177664)) (Finite (7981484335789215 / 70368744177664)) = Finite (7981484335789215 / 35184372088832)"
    by (simp add: js_sub_def round64_def fl_minus fl_eval_down [where n = 45] rne_def Let_def)
  have a14: "js_add (Finite (3537859089347161 / 35184372088832)) (Finite (3537859089347161 / 35184372088832)) = Finite (3537859089347161 / 17592186044416)"
    by (simp add: js_sub_def round64_def fl_minus fl_eval_down [where n = 45] rne_def Let_def)
  have a15: "js_add (Finite 2) (Finite 1) = Finite 3"
    by (simp add: js_sub_def round64_def fl_minus fl_eval_down [where n = 51] rne_def Let_def)
  have a16: "js_add (Finite (5995449097484171 / 281474976710656)) (Finite (5995449097484171 / 562949953421312)) = Finite (562073352889141 / 17592186044416)"
    by (simp add: js_sub_def round64_def fl_minus fl_eval_down [where n = 48] rne_def Let_def)
  have a17: "js_add (Finite (5315065015949879 / 281474976710656)) (Finite (5315065015949879 / 562949953421312)) = Finite (3986298761962409 / 140737488355328)"
    by (simp add: js_sub_def round64_def fl_minus fl_eval_down [where n = 48] rne_def Let_def)
  have a18: "js_add (Finite (7981484335789215 / 35184372088832)) (Finite (7981484335789215 / 70368744177664)) = Finite (5986113251841911 / 17592186044416)"
    by (simp add: js_sub_def round64_def fl_minus fl_eval_down [where n = 44] rne_def Let_def)
  have a19: "js_add (Finite (3537859089347161 / 17592186044416)) (Finite (3537859089347161 / 35184372088832)) = Finite (2653394317010371 / 8796093022208)"
    by (simp add: js_sub_def round64_def fl_minus fl_eval_down [where n = 44] rne_def Let_def)
  have a20: "js_add (Finite 3) (Finite 1) = Finite 4"
    by (simp add: js_sub_def round64_def fl_minus fl_eval_down [where n = 50] rne_def Let_def)
  have a21: "js_add (Finite (562073352889141 / 17592186044416)) (Finite (5995449097484171 / 562949953421312)) = Finite (5995449097484171 / 140737488355328)"
    by (simp add: js_sub_def round64_def fl_minus fl_eval_down [where n = 47] rne_def Let_def)
  have a22: "js_add (Finite (3986298761962409 / 140737488355328)) (Finite (5315065015949879 / 562949953421312)) = Finite (5315065015949879 / 140737488355328)"
    by (simp add: js_sub_def round64_def fl_minus fl_eval_down [where n = 47] rne_def Let_def)
  have a23: "js_add (Finite (5986113251841911 / 17592186044416)) (Finite (7981484335789215 / 70368744177664)) = Finite (7981484335789215 / 17592186044416)"
    by (simp add: js_sub_def round64_def fl_minus fl_eval_down [where n = 44] rne_def Let_def)
  have a24: "js_add (Finite (2653394317010371 / 8796093022208)) (Finite (3537859089347161 / 35184372088832)) = Finite (3537859089347161 / 8796093022208)"
    by (simp add: js_sub_def round64_def fl_minus fl_eval_down [where n = 44] rne_def Let_def)
  have a25: "js_add (Finite 4) (Finite 1) = Finite 5"
    by (simp add: js_sub_def round64_def fl_minus fl_eval_down [where n = 50] rne_def Let_def)
  have a26: "js_add (Finite (5995449097484171 / 140737488355328)) (Finite (5995449097484171 / 562949953421312)) = Finite (3747155685927607 / 70368744177664)"
    by (simp add: js_sub_def round64_def fl_minus fl_eval_down [where n = 47] rne_def Let_def)
  have a27: "js_add (Finite (5315065015949879 / 140737488355328)) (Finite (5315065015949879 / 562949953421312)) = Finite (6643831269937349 / 140737488355328)"
    by (simp add: js_sub_def round64_def fl_minus fl_eval_down [where n = 47] rne_def Let_def)
  have a28: "js_add (Finite (7981484335789215 / 17592186044416)) (Finite (7981484335789215 / 70368744177664)) = Finite (4988427709868259 / 8796093022208)"
    by (simp add: js_sub_def round64_def fl_minus fl_eval_down [where n = 43] rne_def Let_def)
  have a29: "js_add (Finite (3537859089347161 / 8796093022208)) (Finite (3537859089347161 / 35184372088832)) = Finite (4422323861683951 / 8796093022208)"
    by (simp add: js_sub_def round64_def fl_minus fl_eval_down [where n = 44] rne_def Let_def)
  have a30: "js_add (Finite 5) (Finite 1) = Finite 6"
    by (simp add: js_sub_def round64_def fl_minus fl_eval_down [where n = 50] rne_def Let_def)
  have a31: "js_add (Finite (3747155685927607 / 70368744177664)) (Finite (5995449097484171 / 562949953421312)) = Finite (8993173646226257 / 140737488355328)"
    by (simp add: js_sub_def round64_def fl_minus fl_eval_down [where n = 47] rne_def Let_def)
  have a32: "js_add (Finite (6643831269937349 / 140737488355328)) (Finite (5315065015949879 / 562949953421312)) = Finite (7972597523924819 / 140737488355328)"
    by (simp add: js_sub_def round64_def fl_minus fl_eval_down [where n = 47] rne_def Let_def)
  have a33: "js_add (Finite (4988427709868259 / 8796093022208)) (Finite (7981484335789215 / 70368744177664)) = Finite (5986113251841911 / 8796093022208)"
    by (simp add: js_sub_def round64_def fl_minus fl_eval_down [where n = 43] rne_def Let_def)
  have a34: "js_add (Finite (4422323861683951 / 8796093022208)) (Finite (3537859089347161 / 35184372088832)) = Finite (5306788634020741 / 8796093022208)"
    by (simp add: js_sub_def round64_def fl_minus fl_eval_down [where n = 43] rne_def Let_def)
  have a35: "js_add (Finite 6) (Finite 1) = Finite 7"
    by (simp add: js_sub_def round64_def fl_minus fl_eval_down [where n = 50] rne_def Let_def)
  have a36: "js_add (Finite (8993173646226257 / 140737488355328)) (Finite (5995449097484171 / 562949953421312)) = Finite (2623008980149325 / 35184372088832)"
    by (simp add: js_sub_def round64_def fl_minus fl_eval_down [where n = 46] rne_def Let_def)
  have a37: "js_add (Finite (7972597523924819 / 140737488355328)) (Finite (5315065015949879 / 562949953421312)) = Finite (290667618059759 / 4398046511104)"
    by (simp add: js_sub_def round64_def fl_minus fl_eval_down [where n = 46] rne_def Let_def)
  have a38: "js_add (Finite (5986113251841911 / 8796093022208)) (Finite (7981484335789215 / 70368744177664)) = Finite (6983798793815563 / 8796093022208)"
    by (simp add: js_sub_def round64_def fl_minus fl_eval_down [where n = 43] rne_def Let_def)
  have a39: "js_add (Finite (5306788634020741 / 8796093022208)) (Finite (3537859089347161 / 35184372088832)) = Finite (6191253406357531 / 8796093022208)"
    by (simp add: js_sub_def round64_def fl_minus fl_eval_down [where n = 43] rne_def Let_def)
  have a40: "js_add (Finite 7) (Finite 1) = Finite 8"
    by (simp add: js_sub_def round64_def fl_minus fl_eval_down [where n = 49] rne_def Let_def)
  have a41: "js_add (Finite (2623008980149325 / 35184372088832)) (Finite (5995449097484171 / 562949953421312)) = Finite (5995449097484171 / 70368744177664)"
    by (simp add: js_sub_def round64_def fl_minus fl_eval_down [where n = 46] rne_def Let_def)
  have a42: "js_add (Finite (290667618059759 / 4398046511104)) (Finite (5315065015949879 / 562949953421312)) = Finite (5315065015949879 / 70368744177664)"
    by (simp add: js_sub_def round64_def fl_minus fl_eval_down [where n = 46] rne_def Let_def)
  have a43: "js_add (Finite (6983798793815563 / 8796093022208)) (Finite (7981484335789215 / 70368744177664)) = Finite (7981484335789215 / 8796093022208)"
    by (simp add: js_sub_def round64_def fl_minus fl_eval_down [where n = 43] rne_def Let_def)
  have a44: "js_add (Finite (6191253406357531 / 8796093022208)) (Finite (3537859089347161 / 35184372088832)) = Finite (7075718178694321 / 8796093022208)"
    by (simp add: js_sub_def round64_def fl_minus fl_eval_down [where n = 43] rne_def Let_def)
  have a45: "js_add (Finite 8) (Finite 1) = Finite 9"
    by (simp add: js_sub_def round64_def fl_minus fl_eval_down [where n = 49] rne_def Let_def)
  have a46: "js_add (Finite (5995449097484171 / 70368744177664)) (Finite (5995449097484171 / 562949953421312)) = Finite (1686220058667423 / 17592186044416)"
    by (simp add: js_sub_def round64_def fl_minus fl_eval_down [where n = 46] rne_def Let_def)
  have a47: "js_add (Finite (5315065015949879 / 70368744177664)) (Finite (5315065015949879 / 562949953421312)) = Finite (2989724071471807 / 35184372088832)"
    by (simp add: js_sub_def round64_def fl_minus fl_eval_down [where n = 46] rne_def Let_def)
  have a48: "js_add (Finite (7981484335789215 / 8796093022208)) (Finite (7981484335789215 / 70368744177664)) = Finite (8979169877762867 / 8796093022208)"
    by (simp add: js_sub_def round64_def fl_minus fl_eval_down [where n = 43] rne_def Let_def)
  have a49: "js_add (Finite (7075718178694321 / 8796093022208)) (Finite (3537859089347161 / 35184372088832)) = Finite (7960182951031111 / 8796093022208)"
    by (simp add: js_sub_def round64_def fl_minus fl_eval_down [where n = 43] rne_def Let_def)
  have a50: "js_mul (Finite 9) (Finite (8979169877762867 / 8796093022208)) = Finite (5050783056241613 / 549755813888)"
    by (simp add: js_sub_def round64_def fl_minus fl_eval_down [where n = 39] rne_def Let_def)
  have a51: "js_mul (Finite (1686220058667423 / 17592186044416)) (Finite (1686220058667423 / 17592186044416)) = Finite (1262695764060403 / 137438953472)"
    by (simp add: js_sub_def round64_def fl_minus fl_eval_down [where n = 39] rne_def Let_def)
  have a52: "js_sub (Finite (5050783056241613 / 549755813888)) (Finite (1262695764060403 / 137438953472)) = Finite (1 / 549755813888)"
    by (simp add: js_sub_def round64_def fl_minus fl_eval_down [where n = 91] rne_def Let_def)
  have a53: "js_mul (Finite (2989724071471807 / 35184372088832)) (Finite (8979169877762867 / 8796093022208)) = Finite (5960840782167011 / 68719476736)"
    by (simp add: js_sub_def round64_def fl_minus fl_eval_down [where n = 36] rne_def Let_def)
  have a54: "js_mul (Finite (1686220058667423 / 17592186044416)) (Finite (7960182951031111 / 8796093022208)) = Finite (2980420391083505 / 34359738368)"
    by (simp add: js_sub_def round64_def fl_minus fl_eval_down [where n = 36] rne_def Let_def)
  have a55: "js_sub (Finite (5960840782167011 / 68719476736)) (Finite (2980420391083505 / 34359738368)) = Finite (1 / 68719476736)"
    by (simp add: js_sub_def round64_def fl_minus fl_eval_down [where n = 88] rne_def Let_def)
  have a56: "js_div (Finite (1 / 68719476736)) (Finite (1 / 549755813888)) = Finite 8"
    by (simp add: js_sub_def round64_def fl_minus fl_eval_down [where n = 49] rne_def Let_def)
  have a57: "js_mul (Finite 9) (Finite (7960182951031111 / 8796093022208)) = Finite (559700363744375 / 68719476736)"
    by (simp add: js_sub_def round64_def fl_minus fl_eval_down [where n = 40] rne_def Let_def)
  have a58: "js_mul (Finite (1686220058667423 / 17592186044416)) (Finite (2989724071471807 / 35184372088832)) = Finite (8955205819910001 / 1099511627776)"
    by (simp add: js_sub_def round64_def fl_minus fl_eval_down [where n = 40] rne_def Let_def)
  have a59: "js_sub (Finite (559700363744375 / 68719476736)) (Finite (8955205819910001 / 1099511627776)) = Finite (- (1 / 1099511627776))"
    by (simp add: js_sub_def round64_def fl_minus fl_eval_down [where n = 92] rne_def Let_def)
  have a60: "js_div (Finite (- (1 / 1099511627776))) (Finite (1 / 549755813888)) = Finite (- (1 / 2))"
    by (simp add: js_sub_def round64_def fl_minus fl_eval_down [where n = 53] rne_def Let_def)
  have a61: "js_mul (Finite (- (1 / 2))) (Finite (5995449097484171 / 562949953421312)) = Finite (- (5995449097484171 / 1125899906842624))"
    by (simp add: js_sub_def round64_def fl_minus fl_eval_down [where n = 50] rne_def Let_def)
  have a62: "js_add (Finite 8) (Finite (- (5995449097484171 / 1125899906842624))) = Finite (3011750157256821 / 1125899906842624)"
    by (simp add: js_sub_def round64_def fl_minus fl_eval_down [where n = 51] rne_def Let_def)
  have a63: "js_sub (Finite (5315065015949879 / 562949953421312)) (Finite (3011750157256821 / 1125899906842624)) = Finite (7618379874642937 / 1125899906842624)"
    by (simp add: js_sub_def round64_def fl_minus fl_eval_down [where n = 50] rne_def Let_def)
  have a64: "js_mul (Finite 1) (Finite (7618379874642937 / 1125899906842624)) = Finite (7618379874642937 / 1125899906842624)"
    by (simp add: js_sub_def round64_def fl_minus fl_eval_down [where n = 50] rne_def Let_def)
  have a65: "js_mul (Finite (7618379874642937 / 1125899906842624)) (Finite (7618379874642937 / 1125899906842624)) = Finite (6443702450993853 / 140737488355328)"
    by (simp add: js_sub_def round64_def fl_minus fl_eval_down [where n = 47] rne_def Let_def)
  have a66: "js_add (Finite 0) (Finite (6443702450993853 / 140737488355328)) = Finite (6443702450993853 / 140737488355328)"
    by (simp add: js_sub_def round64_def fl_minus fl_eval_down [where n = 47] rne_def Let_def)
  have a67: "js_add (Finite (6443702450993853 / 140737488355328)) (Finite (6443702450993853 / 140737488355328)) = Finite (6443702450993853 / 70368744177664)"
    by (simp add: js_sub_def round64_def fl_minus fl_eval_down [where n = 46] rne_def Let_def)
  have a68: "js_add (Finite (6443702450993853 / 70368744177664)) (Finite (6443702450993853 / 140737488355328)) = Finite (2416388419122695 / 17592186044416)"
    by (simp add: js_sub_def round64_def fl_minus fl_eval_down [where n = 45] rne_def Let_def)
  have a69: "js_add (Finite (2416388419122695 / 17592186044416)) (Finite (6443702450993853 / 140737488355328)) = Finite (6443702450993853 / 35184372088832)"
    by (simp add: js_sub_def round64_def fl_minus fl_eval_down [where n = 45] rne_def Let_def)
  have a70: "js_add (Finite (6443702450993853 / 35184372088832)) (Finite (6443702450993853 / 140737488355328)) = Finite (2013657015935579 / 8796093022208)"
    by (simp add: js_sub_def round64_def fl_minus fl_eval_down [where n = 45] rne_def Let_def)
  have a71: "js_add (Finite (2013657015935579 / 8796093022208)) (Finite (6443702450993853 / 140737488355328)) = Finite (2416388419122695 / 8796093022208)"
    by (simp add: js_sub_def round64_def fl_minus fl_eval_down [where n = 44] rne_def Let_def)
  have a72: "js_add (Finite (2416388419122695 / 8796093022208)) (Finite (6443702450993853 / 140737488355328)) = Finite (2819119822309811 / 8796093022208)"
    by (simp add: js_sub_def round64_def fl_minus fl_eval_down [where n = 44] rne_def Let_def)
  have a73: "js_add (Finite (2819119822309811 / 8796093022208)) (Finite (6443702450993853 / 140737488355328)) = Finite (3221851225496927 / 8796093022208)"
    by (simp add: js_sub_def round64_def fl_minus fl_eval_down [where n = 44] rne_def Let_def)
  have a74: "js_add (Finite (3221851225496927 / 8796093022208)) (Finite (6443702450993853 / 140737488355328)) = Finite (3624582628684043 / 8796093022208)"
    by (simp add: js_sub_def round64_def fl_minus fl_eval_down [where n = 44] rne_def Let_def)
  have a75: "js_div (Finite (3624582628684043 / 8796093022208)) (Finite 9) = Finite (3221851225496927 / 70368744177664)"
    by (simp add: js_sub_def round64_def fl_minus fl_eval_down [where n = 47] rne_def Let_def)
  have acc: "accumulate64 [(Finite 1, Finite (5995449097484171 / 562949953421312),
          Finite (5315065015949879 / 562949953421312)),
         (Finite 1, Finite (5995449097484171 / 562949953421312),
          Finite (5315065015949879 / 562949953421312)),
         (Finite 1, Finite (5995449097484171 / 562949953421312),
          Finite (5315065015949879 / 562949953421312)),
         (Finite 1, Finite (5995449097484171 / 562949953421312),
          Finite (5315065015949879 / 562949953421312)),
         (Finite 1, Finite (5995449097484171 / 562949953421312),
          Finite (5315065015949879 / 562949953421312)),
         (Finite 1, Finite (5995449097484171 / 562949953421312),
          Finite (5315065015949879 / 562949953421312)),
         (Finite 1, Finite (5995449097484171 / 562949953421312),
          Finite (5315065015949879 / 562949953421312)),
         (Finite 1, Finite (5995449097484171 / 562949953421312),
          Finite (5315065015949879 / 562949953421312)),
         (Finite 1, Finite (5995449097484171 / 562949953421312),
          Finite (5315065015949879 / 562949953421312))] zeroSums64
      = \<lparr>sw64 = Finite 9,
         swx64 = Finite (1686220058667423 / 17592186044416),
         swy64 = Finite (2989724071471807 / 35184372088832),
         swxx64 = Finite (8979169877762867 / 8796093022208),
         swxy64 = Finite (7960182951031111 / 8796093022208)\<rparr>"
    by (simp only: accumulate64.simps zeroSums64_def Sums64.select_convs a1 a2 a3 a4 a5 a6 a7 a8 a9 a10 a11 a12 a13 a14 a15 a16 a17 a18 a19 a20 a21 a22 a23 a24
        a25 a26 a27 a28 a29 a30 a31 a32 a33 a34 a35 a36 a37 a38 a39 a40 a41 a42 a43 a44 a45 a46
        a47 a48 a49 a50 a51 a52 a53 a54 a55 a56 a57 a58 a59 a60 a61 a62 a63 a64 a65 a66 a67 a68
        a69 a70 a71 a72 a73 a74 a75)
  have dt: "det64 \<lparr>sw64 = Finite 9,
         swx64 = Finite (1686220058667423 / 17592186044416),
         swy64 = Finite (2989724071471807 / 35184372088832),
         swxx64 = Finite (8979169877762867 / 8796093022208),
         swxy64 = Finite (7960182951031111 / 8796093022208)\<rparr> = Finite (1 / 549755813888)"
    by (simp only: det64_def Sums64.select_convs a1 a2 a3 a4 a5 a6 a7 a8 a9 a10 a11 a12 a13 a14 a15 a16 a17 a18 a19 a20 a21 a22 a23 a24
        a25 a26 a27 a28 a29 a30 a31 a32 a33 a34 a35 a36 a37 a38 a39 a40 a41 a42 a43 a44 a45 a46
        a47 a48 a49 a50 a51 a52 a53 a54 a55 a56 a57 a58 a59 a60 a61 a62 a63 a64 a65 a66 a67 a68
        a69 a70 a71 a72 a73 a74 a75)
  have guard: "fl (1 / 10 ^ 12) = (4951760157141521 / 4951760157141521099596496896)"
    by (simp add: fl_eval_down [where n = 92] rne_def Let_def)
  have nd: "\<not> degenerate64 \<lparr>sw64 = Finite 9,
         swx64 = Finite (1686220058667423 / 17592186044416),
         swy64 = Finite (2989724071471807 / 35184372088832),
         swxx64 = Finite (8979169877762867 / 8796093022208),
         swxy64 = Finite (7960182951031111 / 8796093022208)\<rparr>"
    unfolding degenerate64_def dt guard by simp
  have b0: "js_div (js_sub (js_mul (swy64 \<lparr>sw64 = Finite 9,
         swx64 = Finite (1686220058667423 / 17592186044416),
         swy64 = Finite (2989724071471807 / 35184372088832),
         swxx64 = Finite (8979169877762867 / 8796093022208),
         swxy64 = Finite (7960182951031111 / 8796093022208)\<rparr>) (swxx64 \<lparr>sw64 = Finite 9,
         swx64 = Finite (1686220058667423 / 17592186044416),
         swy64 = Finite (2989724071471807 / 35184372088832),
         swxx64 = Finite (8979169877762867 / 8796093022208),
         swxy64 = Finite (7960182951031111 / 8796093022208)\<rparr>))
                        (js_mul (swx64 \<lparr>sw64 = Finite 9,
         swx64 = Finite (1686220058667423 / 17592186044416),
         swy64 = Finite (2989724071471807 / 35184372088832),
         swxx64 = Finite (8979169877762867 / 8796093022208),
         swxy64 = Finite (7960182951031111 / 8796093022208)\<rparr>) (swxy64 \<lparr>sw64 = Finite 9,
         swx64 = Finite (1686220058667423 / 17592186044416),
         swy64 = Finite (2989724071471807 / 35184372088832),
         swxx64 = Finite (8979169877762867 / 8796093022208),
         swxy64 = Finite (7960182951031111 / 8796093022208)\<rparr>))) (Finite (1 / 549755813888)) = Finite 8"
    by (simp only: Sums64.select_convs a1 a2 a3 a4 a5 a6 a7 a8 a9 a10 a11 a12 a13 a14 a15 a16 a17 a18 a19 a20 a21 a22 a23 a24
        a25 a26 a27 a28 a29 a30 a31 a32 a33 a34 a35 a36 a37 a38 a39 a40 a41 a42 a43 a44 a45 a46
        a47 a48 a49 a50 a51 a52 a53 a54 a55 a56 a57 a58 a59 a60 a61 a62 a63 a64 a65 a66 a67 a68
        a69 a70 a71 a72 a73 a74 a75)
  have b1: "js_div (js_sub (js_mul (sw64 \<lparr>sw64 = Finite 9,
         swx64 = Finite (1686220058667423 / 17592186044416),
         swy64 = Finite (2989724071471807 / 35184372088832),
         swxx64 = Finite (8979169877762867 / 8796093022208),
         swxy64 = Finite (7960182951031111 / 8796093022208)\<rparr>) (swxy64 \<lparr>sw64 = Finite 9,
         swx64 = Finite (1686220058667423 / 17592186044416),
         swy64 = Finite (2989724071471807 / 35184372088832),
         swxx64 = Finite (8979169877762867 / 8796093022208),
         swxy64 = Finite (7960182951031111 / 8796093022208)\<rparr>))
                        (js_mul (swx64 \<lparr>sw64 = Finite 9,
         swx64 = Finite (1686220058667423 / 17592186044416),
         swy64 = Finite (2989724071471807 / 35184372088832),
         swxx64 = Finite (8979169877762867 / 8796093022208),
         swxy64 = Finite (7960182951031111 / 8796093022208)\<rparr>) (swy64 \<lparr>sw64 = Finite 9,
         swx64 = Finite (1686220058667423 / 17592186044416),
         swy64 = Finite (2989724071471807 / 35184372088832),
         swxx64 = Finite (8979169877762867 / 8796093022208),
         swxy64 = Finite (7960182951031111 / 8796093022208)\<rparr>))) (Finite (1 / 549755813888)) = Finite (- (1 / 2))"
    by (simp only: Sums64.select_convs a1 a2 a3 a4 a5 a6 a7 a8 a9 a10 a11 a12 a13 a14 a15 a16 a17 a18 a19 a20 a21 a22 a23 a24
        a25 a26 a27 a28 a29 a30 a31 a32 a33 a34 a35 a36 a37 a38 a39 a40 a41 a42 a43 a44 a45 a46
        a47 a48 a49 a50 a51 a52 a53 a54 a55 a56 a57 a58 a59 a60 a61 a62 a63 a64 a65 a66 a67 a68
        a69 a70 a71 a72 a73 a74 a75)
  have res: "residuals64 (Finite 8) (Finite (- (1 / 2))) [(Finite 1, Finite (5995449097484171 / 562949953421312),
          Finite (5315065015949879 / 562949953421312)),
         (Finite 1, Finite (5995449097484171 / 562949953421312),
          Finite (5315065015949879 / 562949953421312)),
         (Finite 1, Finite (5995449097484171 / 562949953421312),
          Finite (5315065015949879 / 562949953421312)),
         (Finite 1, Finite (5995449097484171 / 562949953421312),
          Finite (5315065015949879 / 562949953421312)),
         (Finite 1, Finite (5995449097484171 / 562949953421312),
          Finite (5315065015949879 / 562949953421312)),
         (Finite 1, Finite (5995449097484171 / 562949953421312),
          Finite (5315065015949879 / 562949953421312)),
         (Finite 1, Finite (5995449097484171 / 562949953421312),
          Finite (5315065015949879 / 562949953421312)),
         (Finite 1, Finite (5995449097484171 / 562949953421312),
          Finite (5315065015949879 / 562949953421312)),
         (Finite 1, Finite (5995449097484171 / 562949953421312),
          Finite (5315065015949879 / 562949953421312))] (Finite 0) = Finite (3624582628684043 / 8796093022208)"
    by (simp only: residuals64.simps Let_def a1 a2 a3 a4 a5 a6 a7 a8 a9 a10 a11 a12 a13 a14 a15 a16 a17 a18 a19 a20 a21 a22 a23 a24
        a25 a26 a27 a28 a29 a30 a31 a32 a33 a34 a35 a36 a37 a38 a39 a40 a41 a42 a43 a44 a45 a46
        a47 a48 a49 a50 a51 a52 a53 a54 a55 a56 a57 a58 a59 a60 a61 a62 a63 a64 a65 a66 a67 a68
        a69 a70 a71 a72 a73 a74 a75)
  have quo: "js_div (Finite (3624582628684043 / 8796093022208)) (sw64 \<lparr>sw64 = Finite 9,
         swx64 = Finite (1686220058667423 / 17592186044416),
         swy64 = Finite (2989724071471807 / 35184372088832),
         swxx64 = Finite (8979169877762867 / 8796093022208),
         swxy64 = Finite (7960182951031111 / 8796093022208)\<rparr>) = Finite (3221851225496927 / 70368744177664)"
    by (simp only: Sums64.select_convs a1 a2 a3 a4 a5 a6 a7 a8 a9 a10 a11 a12 a13 a14 a15 a16 a17 a18 a19 a20 a21 a22 a23 a24
        a25 a26 a27 a28 a29 a30 a31 a32 a33 a34 a35 a36 a37 a38 a39 a40 a41 a42 a43 a44 a45 a46
        a47 a48 a49 a50 a51 a52 a53 a54 a55 a56 a57 a58 a59 a60 a61 a62 a63 a64 a65 a66 a67 a68
        a69 a70 a71 a72 a73 a74 a75)
  have fit: "fitPowerLaw64 sampledRuntime ?pts 1700000000000
      = Some \<lparr>logA64 = Finite 8, slope64 = Finite (- (1 / 2)),
              rmseLog64 = Math_sqrt (Finite (3221851225496927 / 70368744177664))\<rparr>"
    unfolding fitPowerLaw64_def Let_def smp acc dt b0 b1 res quo using nd by simp
  have d: "det64 (accumulate64 (samples64 sampledRuntime ?pts 1700000000000) zeroSums64) = Finite (1 / 549755813888)"
    unfolding smp acc by (rule dt)
  have n: "normalizeActs ?acts = ?pts"
    by (simp add: normalizeActs_def mapStravaAct_stravaRun MIN_DISTANCE_M_def)
  have p: "pauseFilter ?pts = ?pts"
    by (simp add: pauseFilter_def pauseKeep_def pauseDivisor_def)
  have o: "outlierFilter ?pts = ?pts"
    by (rule outlierFilter_same_pace [where c = "fl (12600 / 42195)"]) (auto simp: fl_nonneg)
  have c: "cleanPoints ?acts = Inr ?pts"
    using n p o by (rule cleanPoints_kept) simp
  obtain est where "fitAndPredict64 sampledRuntime ?pts (5938418321153065 / 140737488355328) 1700000000000 = Inr est"
    using fitAndPredict64_Some [OF fit] by blast
  then have "predictPerformance64 sampledRuntime (Some ''u1'') (Finite (5938418321153065 / 140737488355328)) ?acts 1700000000000 = Inr est"
    by (simp add: predictPerformance64_def c)
  then have e: "predictPerformance64 sampledRuntime (Some ''u1'') (Finite (5938418321153065 / 140737488355328)) ?acts 1700000000000
      \<noteq> Inl ModelFitFailed"
    by simp
  show ?thesis
    using fit d e by (rule conjI [OF _ conjI])
qed

subsection \<open>Zero weights\<close>

lemma sw64_accumulate64_zero:
  assumes "\<And>w x y. (w, x, y) \<in> set xs \<Longrightarrow> w = Finite 0" and "sw64 s = Finite 0"
  shows "sw64 (accumulate64 xs s) = Finite 0"
  using assms
proof (induction xs arbitrary: s)
  case Nil
  then show ?case by simp
next
  case (Cons t xs)
  obtain w x y where t: "t = (w, x, y)" by (cases t) auto
  have w: "w = Finite 0" using Cons.prems(1) [of w x y] t by simp
  let ?s' = "\<lparr>sw64 = js_add (sw64 s) w,
        swx64 = js_add (swx64 s) (js_mul w x),
        swy64 = js_add (swy64 s) (js_mul w y),
        swxx64 = js_add (swxx64 s) (js_mul (js_mul w x) x),
        swxy64 = js_add (swxy64 s) (js_mul (js_mul w x) y)\<rparr>"
  have "sw64 (accumulate64 xs ?s') = Finite 0"
  proof (rule Cons.IH)
    show "\<And>w x y. (w, x, y) \<in> set xs \<Longrightarrow> w = Finite 0"
      using Cons.prems(1) by auto
    show "sw64 ?s' = Finite 0"
      using Cons.prems(2) w by (simp add: round64_def)
  qed
  then show ?case by (simp add: t)
qed

text \<open>
  The test \<open>sw === 0\<close> of \<open>fitPowerLaw\<close> can fire. With a correctly rounded \<open>Math.pow\<close>,
  when every point that reaches the fit started 64500 days or more before \<open>now\<close>, every
  weight is 0, the weight sum is 0, \<open>fitPowerLaw\<close> returns null and the prediction fails
  with ModelFitFailed.
\<close>

theorem zero_weights_fit_fails:
  assumes "Math_pow rt = Math_pow idealRuntime"
    and "\<And>p. p \<in> set pts \<Longrightarrow> 5572800000000 \<le> now - startDate p"
  shows "sw64 (accumulate64 (samples64 rt pts now) zeroSums64) = Finite 0
         \<and> fitPowerLaw64 rt pts now = None
         \<and> fitAndPredict64 rt pts km now = Inl ModelFitFailed"
proof -
  have w: "recencyWeight64 rt (startDate p) now = Finite 0" if "p \<in> set pts" for p
  proof -
    have "recencyWeight64 rt (startDate p) now = recencyWeight64 idealRuntime (startDate p) now"
      by (simp add: recencyWeight64_def assms(1))
    then show ?thesis
      using recencyWeight64_ideal_zero [OF assms(2) [OF that]] by simp
  qed
  have "\<And>w x y. (w, x, y) \<in> set (samples64 rt pts now) \<Longrightarrow> w = Finite 0"
    using w by (auto simp: samples64_def Let_def set_zip)
  then have s: "sw64 (accumulate64 (samples64 rt pts now) zeroSums64) = Finite 0"
    by (rule sw64_accumulate64_zero) (simp_all add: zeroSums64_def)
  then have "degenerate64 (accumulate64 (samples64 rt pts now) zeroSums64)"
    by (simp add: degenerate64_def)
  then have f: "fitPowerLaw64 rt pts now = None"
    by (simp add: fitPowerLaw64_None_iff)
  then have "fitAndPredict64 rt pts km now = Inl ModelFitFailed"
    by (rule fitAndPredict64_None)
  then show ?thesis
    using s f by blast
qed

theorem zero_weights_fit_fails_witness:
  "fitPowerLaw64 idealRuntime
     [\<lparr>distance = 5000, movingTime = 1500, elapsedTime = None, startDate = 0\<rparr>,
      \<lparr>distance = 10000, movingTime = 3200, elapsedTime = None, startDate = 86400000\<rparr>]
     5616000000000 = None
   \<and> fitAndPredict64 idealRuntime
     [\<lparr>distance = 5000, movingTime = 1500, elapsedTime = None, startDate = 0\<rparr>,
      \<lparr>distance = 10000, movingTime = 3200, elapsedTime = None, startDate = 86400000\<rparr>]
     5 5616000000000 = Inl ModelFitFailed"
proof -
  let ?pts = "[\<lparr>distance = 5000, movingTime = 1500, elapsedTime = None, startDate = 0\<rparr>,
      \<lparr>distance = 10000, movingTime = 3200, elapsedTime = None, startDate = 86400000\<rparr>]"
  have a: "Math_pow idealRuntime = Math_pow idealRuntime"
    by simp
  have b: "\<And>p. p \<in> set ?pts \<Longrightarrow> 5572800000000 \<le> 5616000000000 - startDate p"
    by auto
  from zero_weights_fit_fails [OF a b, where km = 5]
  show ?thesis
    by blast
qed

section \<open>The end-to-end example of five identical runs\<close>





section \<open>The confidence bounds\<close>

text \<open>
  Claim C7 does not hold of the program. Four runs that each took as many seconds as
  they are metres long (1000, 2000, 4000 and 8000) lie on the power law \<open>t = d\<close>; the fit
  returns \<open>logA = 0\<close>, \<open>b = 1\<close> and \<open>rmseLog = 0\<close>, and for the target of 21.0975 km
  the predicted time is 21097.5 s. Both bounds are \<open>Math.exp(Math.log(21097.5))\<close>, which
  is 21097.49999999998: the upper bound is below the prediction, and the response shows
  the upper bound 5:51:37 under the predicted time 5:51:38.
\<close>

theorem confidence_high_below_prediction:
  "predictPerformance64 sampledRuntime (Some ''u1'') (Finite (5938418321153065 / 281474976710656))
     [stravaRun 1000 1000 None 1700000000000,
      stravaRun 2000 2000 None 1700086400000,
      stravaRun 4000 4000 None 1700172800000,
      stravaRun 8000 8000 None 1700259200000]
     1700000000000
     = Inr \<lparr>fit64 = \<lparr>logA64 = Finite 0, slope64 = Finite 1, rmseLog64 = Finite 0\<rparr>,
            predSec64 = Finite (42195 / 2),
            lowSec64 = Finite (5799236641751035 / 274877906944),
            highSec64 = Finite (5799236641751035 / 274877906944),
            usedPoints64 = 4\<rparr>
   \<and> ((5799236641751035 / 274877906944) :: real) < (42195 / 2)
   \<and> formatHHMMSS (42195 / 2) = ''5:51:38''
   \<and> formatHHMMSS (5799236641751035 / 274877906944) = ''5:51:37''"
proof -
  let ?pts = "[\<lparr>distance = 1000, movingTime = 1000, elapsedTime = None, startDate = 1700000000000\<rparr>,
      \<lparr>distance = 2000, movingTime = 2000, elapsedTime = None, startDate = 1700086400000\<rparr>,
      \<lparr>distance = 4000, movingTime = 4000, elapsedTime = None, startDate = 1700172800000\<rparr>,
      \<lparr>distance = 8000, movingTime = 8000, elapsedTime = None, startDate = 1700259200000\<rparr>]"
  let ?acts = "[stravaRun 1000 1000 None 1700000000000,
      stravaRun 2000 2000 None 1700086400000,
      stravaRun 4000 4000 None 1700172800000,
      stravaRun 8000 8000 None 1700259200000]"
  have t1: "Math_log sampledRuntime (Finite 1000) = Finite (243045032034301 / 35184372088832)"
    by (simp add: sampledRuntime_def tableRuntime_def)
  have t2: "Math_log sampledRuntime (Finite 2000) = Finite (4278927685559151 / 562949953421312)"
    by (simp add: sampledRuntime_def tableRuntime_def)
  have t3: "Math_log sampledRuntime (Finite 4000) = Finite (2334567429284743 / 281474976710656)"
    by (simp add: sampledRuntime_def tableRuntime_def)
  have t4: "Math_log sampledRuntime (Finite 8000) = Finite (5059342031579821 / 562949953421312)"
    by (simp add: sampledRuntime_def tableRuntime_def)
  have t5: "Math_log sampledRuntime (Finite (42195 / 2)) = Finite (1401310481118459 / 140737488355328)"
    by (simp add: sampledRuntime_def tableRuntime_def)
  have t6: "Math_exp sampledRuntime (Finite 0) = Finite 1"
    by (simp add: sampledRuntime_def tableRuntime_def)
  have t7: "Math_exp sampledRuntime (Finite (1401310481118459 / 140737488355328)) = Finite (5799236641751035 / 274877906944)"
    by (simp add: sampledRuntime_def tableRuntime_def)
  have t8: "Math_pow sampledRuntime (Finite (1 / 2)) (Finite 0) = Finite 1"
    by (simp add: sampledRuntime_def tableRuntime_def)
  have t9: "Math_pow sampledRuntime (Finite (42195 / 2)) (Finite 1) = Finite (42195 / 2)"
    by (simp add: sampledRuntime_def tableRuntime_def)
  have wt: "recencyWeight64 sampledRuntime s 1700000000000 = Finite 1" if "1700000000000 \<le> s" for s
    using that by (simp add: recencyWeight64_future t8)
  have smp: "samples64 sampledRuntime ?pts 1700000000000
      = [(Finite 1, Finite (243045032034301 / 35184372088832),
          Finite (243045032034301 / 35184372088832)),
         (Finite 1, Finite (4278927685559151 / 562949953421312),
          Finite (4278927685559151 / 562949953421312)),
         (Finite 1, Finite (2334567429284743 / 281474976710656),
          Finite (2334567429284743 / 281474976710656)),
         (Finite 1, Finite (5059342031579821 / 562949953421312),
          Finite (5059342031579821 / 562949953421312))]"
    by (simp add: samples64_def wt t1 t2 t3 t4)
  have a1: "js_add (Finite 0) (Finite 1) = Finite 1"
    by (simp add: js_sub_def round64_def fl_minus fl_eval_down [where n = 52] rne_def Let_def)
  have a2: "js_mul (Finite 1) (Finite (243045032034301 / 35184372088832)) = Finite (243045032034301 / 35184372088832)"
    by (simp add: js_sub_def round64_def fl_minus fl_eval_down [where n = 50] rne_def Let_def)
  have a3: "js_add (Finite 0) (Finite (243045032034301 / 35184372088832)) = Finite (243045032034301 / 35184372088832)"
    by (simp add: js_sub_def round64_def fl_minus fl_eval_down [where n = 50] rne_def Let_def)
  have a4: "js_mul (Finite (243045032034301 / 35184372088832)) (Finite (243045032034301 / 35184372088832)) = Finite (6715582412261301 / 140737488355328)"
    by (simp add: js_sub_def round64_def fl_minus fl_eval_down [where n = 47] rne_def Let_def)
  have a5: "js_add (Finite 0) (Finite (6715582412261301 / 140737488355328)) = Finite (6715582412261301 / 140737488355328)"
    by (simp add: js_sub_def round64_def fl_minus fl_eval_down [where n = 47] rne_def Let_def)
  have a6: "js_add (Finite 1) (Finite 1) = Finite 2"
    by (simp add: js_sub_def round64_def fl_minus fl_eval_down [where n = 51] rne_def Let_def)
  have a7: "js_mul (Finite 1) (Finite (4278927685559151 / 562949953421312)) = Finite (4278927685559151 / 562949953421312)"
    by (simp add: js_sub_def round64_def fl_minus fl_eval_down [where n = 50] rne_def Let_def)
  have a8: "js_add (Finite (243045032034301 / 35184372088832)) (Finite (4278927685559151 / 562949953421312)) = Finite (8167648198107967 / 562949953421312)"
    by (simp add: js_sub_def round64_def fl_minus fl_eval_down [where n = 49] rne_def Let_def)
  have a9: "js_mul (Finite (4278927685559151 / 562949953421312)) (Finite (4278927685559151 / 562949953421312)) = Finite (8130927992342315 / 140737488355328)"
    by (simp add: js_sub_def round64_def fl_minus fl_eval_down [where n = 47] rne_def Let_def)
  have a10: "js_add (Finite (6715582412261301 / 140737488355328)) (Finite (8130927992342315 / 140737488355328)) = Finite (463953450143863 / 4398046511104)"
    by (simp add: js_sub_def round64_def fl_minus fl_eval_down [where n = 46] rne_def Let_def)
  have a11: "js_add (Finite 2) (Finite 1) = Finite 3"
    by (simp add: js_sub_def round64_def fl_minus fl_eval_down [where n = 51] rne_def Let_def)
  have a12: "js_mul (Finite 1) (Finite (2334567429284743 / 281474976710656)) = Finite (2334567429284743 / 281474976710656)"
    by (simp add: js_sub_def round64_def fl_minus fl_eval_down [where n = 49] rne_def Let_def)
  have a13: "js_add (Finite (8167648198107967 / 562949953421312)) (Finite (2334567429284743 / 281474976710656)) = Finite (3209195764169363 / 140737488355328)"
    by (simp add: js_sub_def round64_def fl_minus fl_eval_down [where n = 48] rne_def Let_def)
  have a14: "js_mul (Finite (2334567429284743 / 281474976710656)) (Finite (2334567429284743 / 281474976710656)) = Finite (1210188634165815 / 17592186044416)"
    by (simp add: js_sub_def round64_def fl_minus fl_eval_down [where n = 46] rne_def Let_def)
  have a15: "js_add (Finite (463953450143863 / 4398046511104)) (Finite (1210188634165815 / 17592186044416)) = Finite (3066002434741267 / 17592186044416)"
    by (simp add: js_sub_def round64_def fl_minus fl_eval_down [where n = 45] rne_def Let_def)
  have a16: "js_add (Finite 3) (Finite 1) = Finite 4"
    by (simp add: js_sub_def round64_def fl_minus fl_eval_down [where n = 50] rne_def Let_def)
  have a17: "js_mul (Finite 1) (Finite (5059342031579821 / 562949953421312)) = Finite (5059342031579821 / 562949953421312)"
    by (simp add: js_sub_def round64_def fl_minus fl_eval_down [where n = 49] rne_def Let_def)
  have a18: "js_add (Finite (3209195764169363 / 140737488355328)) (Finite (5059342031579821 / 562949953421312)) = Finite (2237015636032159 / 70368744177664)"
    by (simp add: js_sub_def round64_def fl_minus fl_eval_down [where n = 48] rne_def Let_def)
  have a19: "js_mul (Finite (5059342031579821 / 562949953421312)) (Finite (5059342031579821 / 562949953421312)) = Finite (5683662827606957 / 70368744177664)"
    by (simp add: js_sub_def round64_def fl_minus fl_eval_down [where n = 46] rne_def Let_def)
  have a20: "js_add (Finite (3066002434741267 / 17592186044416)) (Finite (5683662827606957 / 70368744177664)) = Finite (2243459070821503 / 8796093022208)"
    by (simp add: js_sub_def round64_def fl_minus fl_eval_down [where n = 45] rne_def Let_def)
  have a21: "js_mul (Finite 4) (Finite (2243459070821503 / 8796093022208)) = Finite (2243459070821503 / 2199023255552)"
    by (simp add: js_sub_def round64_def fl_minus fl_eval_down [where n = 43] rne_def Let_def)
  have a22: "js_mul (Finite (2237015636032159 / 70368744177664)) (Finite (2237015636032159 / 70368744177664)) = Finite (2222328523805379 / 2199023255552)"
    by (simp add: js_sub_def round64_def fl_minus fl_eval_down [where n = 43] rne_def Let_def)
  have a23: "js_sub (Finite (2243459070821503 / 2199023255552)) (Finite (2222328523805379 / 2199023255552)) = Finite (5282636754031 / 549755813888)"
    by (simp add: js_sub_def round64_def fl_minus fl_eval_down [where n = 49] rne_def Let_def)
  have a24: "js_mul (Finite (2237015636032159 / 70368744177664)) (Finite (2243459070821503 / 8796093022208)) = Finite (8914918617054967 / 1099511627776)"
    by (simp add: js_sub_def round64_def fl_minus fl_eval_down [where n = 40] rne_def Let_def)
  have a25: "js_sub (Finite (8914918617054967 / 1099511627776)) (Finite (8914918617054967 / 1099511627776)) = Finite 0"
    by (simp add: js_sub_def round64_def)
  have a26: "js_div (Finite 0) (Finite (5282636754031 / 549755813888)) = Finite 0"
    by (simp add: js_sub_def round64_def)
  have a27: "js_div (Finite (5282636754031 / 549755813888)) (Finite (5282636754031 / 549755813888)) = Finite 1"
    by (simp add: js_sub_def round64_def fl_minus fl_eval_down [where n = 52] rne_def Let_def)
  have a28: "js_sub (Finite (243045032034301 / 35184372088832)) (Finite (243045032034301 / 35184372088832)) = Finite 0"
    by (simp add: js_sub_def round64_def)
  have a29: "js_mul (Finite 1) (Finite 0) = Finite 0"
    by (simp add: js_sub_def round64_def)
  have a30: "js_mul (Finite 0) (Finite 0) = Finite 0"
    by (simp add: js_sub_def round64_def)
  have a31: "js_add (Finite 0) (Finite 0) = Finite 0"
    by (simp add: js_sub_def round64_def)
  have a32: "js_add (Finite 0) (Finite (4278927685559151 / 562949953421312)) = Finite (4278927685559151 / 562949953421312)"
    by (simp add: js_sub_def round64_def fl_minus fl_eval_down [where n = 50] rne_def Let_def)
  have a33: "js_sub (Finite (4278927685559151 / 562949953421312)) (Finite (4278927685559151 / 562949953421312)) = Finite 0"
    by (simp add: js_sub_def round64_def)
  have a34: "js_add (Finite 0) (Finite (2334567429284743 / 281474976710656)) = Finite (2334567429284743 / 281474976710656)"
    by (simp add: js_sub_def round64_def fl_minus fl_eval_down [where n = 49] rne_def Let_def)
  have a35: "js_sub (Finite (2334567429284743 / 281474976710656)) (Finite (2334567429284743 / 281474976710656)) = Finite 0"
    by (simp add: js_sub_def round64_def)
  have a36: "js_add (Finite 0) (Finite (5059342031579821 / 562949953421312)) = Finite (5059342031579821 / 562949953421312)"
    by (simp add: js_sub_def round64_def fl_minus fl_eval_down [where n = 49] rne_def Let_def)
  have a37: "js_sub (Finite (5059342031579821 / 562949953421312)) (Finite (5059342031579821 / 562949953421312)) = Finite 0"
    by (simp add: js_sub_def round64_def)
  have a38: "js_div (Finite 0) (Finite 4) = Finite 0"
    by (simp add: js_sub_def round64_def)
  have a39: "js_mul (Finite 1) (Finite (42195 / 2)) = Finite (42195 / 2)"
    by (simp add: js_sub_def round64_def fl_minus fl_eval_down [where n = 38] rne_def Let_def)
  have a40: "js_sub (Finite (1401310481118459 / 140737488355328)) (Finite 0) = Finite (1401310481118459 / 140737488355328)"
    by (simp add: js_sub_def round64_def fl_minus fl_eval_down [where n = 49] rne_def Let_def)
  have a41: "js_add (Finite (1401310481118459 / 140737488355328)) (Finite 0) = Finite (1401310481118459 / 140737488355328)"
    by (simp add: js_sub_def round64_def fl_minus fl_eval_down [where n = 49] rne_def Let_def)
  have acc: "accumulate64 [(Finite 1, Finite (243045032034301 / 35184372088832),
          Finite (243045032034301 / 35184372088832)),
         (Finite 1, Finite (4278927685559151 / 562949953421312),
          Finite (4278927685559151 / 562949953421312)),
         (Finite 1, Finite (2334567429284743 / 281474976710656),
          Finite (2334567429284743 / 281474976710656)),
         (Finite 1, Finite (5059342031579821 / 562949953421312),
          Finite (5059342031579821 / 562949953421312))] zeroSums64
      = \<lparr>sw64 = Finite 4,
         swx64 = Finite (2237015636032159 / 70368744177664),
         swy64 = Finite (2237015636032159 / 70368744177664),
         swxx64 = Finite (2243459070821503 / 8796093022208),
         swxy64 = Finite (2243459070821503 / 8796093022208)\<rparr>"
    by (simp only: accumulate64.simps zeroSums64_def Sums64.select_convs a1 a2 a3 a4 a5 a6 a7 a8 a9 a10 a11 a12 a13 a14 a15 a16 a17 a18 a19 a20 a21 a22 a23 a24
        a25 a26 a27 a28 a29 a30 a31 a32 a33 a34 a35 a36 a37 a38 a39 a40 a41)
  have dt: "det64 \<lparr>sw64 = Finite 4,
         swx64 = Finite (2237015636032159 / 70368744177664),
         swy64 = Finite (2237015636032159 / 70368744177664),
         swxx64 = Finite (2243459070821503 / 8796093022208),
         swxy64 = Finite (2243459070821503 / 8796093022208)\<rparr> = Finite (5282636754031 / 549755813888)"
    by (simp only: det64_def Sums64.select_convs a1 a2 a3 a4 a5 a6 a7 a8 a9 a10 a11 a12 a13 a14 a15 a16 a17 a18 a19 a20 a21 a22 a23 a24
        a25 a26 a27 a28 a29 a30 a31 a32 a33 a34 a35 a36 a37 a38 a39 a40 a41)
  have guard: "fl (1 / 10 ^ 12) = (4951760157141521 / 4951760157141521099596496896)"
    by (simp add: fl_eval_down [where n = 92] rne_def Let_def)
  have nd: "\<not> degenerate64 \<lparr>sw64 = Finite 4,
         swx64 = Finite (2237015636032159 / 70368744177664),
         swy64 = Finite (2237015636032159 / 70368744177664),
         swxx64 = Finite (2243459070821503 / 8796093022208),
         swxy64 = Finite (2243459070821503 / 8796093022208)\<rparr>"
    unfolding degenerate64_def dt guard by simp
  have b0: "js_div (js_sub (js_mul (swy64 \<lparr>sw64 = Finite 4,
         swx64 = Finite (2237015636032159 / 70368744177664),
         swy64 = Finite (2237015636032159 / 70368744177664),
         swxx64 = Finite (2243459070821503 / 8796093022208),
         swxy64 = Finite (2243459070821503 / 8796093022208)\<rparr>) (swxx64 \<lparr>sw64 = Finite 4,
         swx64 = Finite (2237015636032159 / 70368744177664),
         swy64 = Finite (2237015636032159 / 70368744177664),
         swxx64 = Finite (2243459070821503 / 8796093022208),
         swxy64 = Finite (2243459070821503 / 8796093022208)\<rparr>))
                        (js_mul (swx64 \<lparr>sw64 = Finite 4,
         swx64 = Finite (2237015636032159 / 70368744177664),
         swy64 = Finite (2237015636032159 / 70368744177664),
         swxx64 = Finite (2243459070821503 / 8796093022208),
         swxy64 = Finite (2243459070821503 / 8796093022208)\<rparr>) (swxy64 \<lparr>sw64 = Finite 4,
         swx64 = Finite (2237015636032159 / 70368744177664),
         swy64 = Finite (2237015636032159 / 70368744177664),
         swxx64 = Finite (2243459070821503 / 8796093022208),
         swxy64 = Finite (2243459070821503 / 8796093022208)\<rparr>))) (Finite (5282636754031 / 549755813888)) = Finite 0"
    by (simp only: Sums64.select_convs a1 a2 a3 a4 a5 a6 a7 a8 a9 a10 a11 a12 a13 a14 a15 a16 a17 a18 a19 a20 a21 a22 a23 a24
        a25 a26 a27 a28 a29 a30 a31 a32 a33 a34 a35 a36 a37 a38 a39 a40 a41)
  have b1: "js_div (js_sub (js_mul (sw64 \<lparr>sw64 = Finite 4,
         swx64 = Finite (2237015636032159 / 70368744177664),
         swy64 = Finite (2237015636032159 / 70368744177664),
         swxx64 = Finite (2243459070821503 / 8796093022208),
         swxy64 = Finite (2243459070821503 / 8796093022208)\<rparr>) (swxy64 \<lparr>sw64 = Finite 4,
         swx64 = Finite (2237015636032159 / 70368744177664),
         swy64 = Finite (2237015636032159 / 70368744177664),
         swxx64 = Finite (2243459070821503 / 8796093022208),
         swxy64 = Finite (2243459070821503 / 8796093022208)\<rparr>))
                        (js_mul (swx64 \<lparr>sw64 = Finite 4,
         swx64 = Finite (2237015636032159 / 70368744177664),
         swy64 = Finite (2237015636032159 / 70368744177664),
         swxx64 = Finite (2243459070821503 / 8796093022208),
         swxy64 = Finite (2243459070821503 / 8796093022208)\<rparr>) (swy64 \<lparr>sw64 = Finite 4,
         swx64 = Finite (2237015636032159 / 70368744177664),
         swy64 = Finite (2237015636032159 / 70368744177664),
         swxx64 = Finite (2243459070821503 / 8796093022208),
         swxy64 = Finite (2243459070821503 / 8796093022208)\<rparr>))) (Finite (5282636754031 / 549755813888)) = Finite 1"
    by (simp only: Sums64.select_convs a1 a2 a3 a4 a5 a6 a7 a8 a9 a10 a11 a12 a13 a14 a15 a16 a17 a18 a19 a20 a21 a22 a23 a24
        a25 a26 a27 a28 a29 a30 a31 a32 a33 a34 a35 a36 a37 a38 a39 a40 a41)
  have res: "residuals64 (Finite 0) (Finite 1) [(Finite 1, Finite (243045032034301 / 35184372088832),
          Finite (243045032034301 / 35184372088832)),
         (Finite 1, Finite (4278927685559151 / 562949953421312),
          Finite (4278927685559151 / 562949953421312)),
         (Finite 1, Finite (2334567429284743 / 281474976710656),
          Finite (2334567429284743 / 281474976710656)),
         (Finite 1, Finite (5059342031579821 / 562949953421312),
          Finite (5059342031579821 / 562949953421312))] (Finite 0) = Finite 0"
    by (simp only: residuals64.simps Let_def a1 a2 a3 a4 a5 a6 a7 a8 a9 a10 a11 a12 a13 a14 a15 a16 a17 a18 a19 a20 a21 a22 a23 a24
        a25 a26 a27 a28 a29 a30 a31 a32 a33 a34 a35 a36 a37 a38 a39 a40 a41)
  have quo: "js_div (Finite 0) (sw64 \<lparr>sw64 = Finite 4,
         swx64 = Finite (2237015636032159 / 70368744177664),
         swy64 = Finite (2237015636032159 / 70368744177664),
         swxx64 = Finite (2243459070821503 / 8796093022208),
         swxy64 = Finite (2243459070821503 / 8796093022208)\<rparr>) = Finite 0"
    by (simp only: Sums64.select_convs a1 a2 a3 a4 a5 a6 a7 a8 a9 a10 a11 a12 a13 a14 a15 a16 a17 a18 a19 a20 a21 a22 a23 a24
        a25 a26 a27 a28 a29 a30 a31 a32 a33 a34 a35 a36 a37 a38 a39 a40 a41)
  have rm: "Math_sqrt (Finite 0) = Finite 0"
    by simp
  have fit: "fitPowerLaw64 sampledRuntime ?pts 1700000000000 = Some \<lparr>logA64 = Finite 0, slope64 = Finite 1, rmseLog64 = Finite 0\<rparr>"
    unfolding fitPowerLaw64_def Let_def smp acc dt b0 b1 res quo rm using nd by simp
  have tm: "round64 ((5938418321153065 / 281474976710656) * 1000) = Finite (42195 / 2)"
    by (simp add: round64_def fl_eval_down [where n = 38] rne_def Let_def)
  have ps: "predictSeconds64 sampledRuntime (Finite 0) (Finite 1) (Finite (42195 / 2)) = Finite (42195 / 2)"
    by (simp only: predictSeconds64_def t6 t9 a1 a2 a3 a4 a5 a6 a7 a8 a9 a10 a11 a12 a13 a14 a15 a16 a17 a18 a19 a20 a21 a22 a23 a24
        a25 a26 a27 a28 a29 a30 a31 a32 a33 a34 a35 a36 a37 a38 a39 a40 a41)
  have lo: "Math_exp sampledRuntime (js_sub (Math_log sampledRuntime (Finite (42195 / 2))) (Finite 0))
      = Finite (5799236641751035 / 274877906944)"
    by (simp only: t5 t7 a1 a2 a3 a4 a5 a6 a7 a8 a9 a10 a11 a12 a13 a14 a15 a16 a17 a18 a19 a20 a21 a22 a23 a24
        a25 a26 a27 a28 a29 a30 a31 a32 a33 a34 a35 a36 a37 a38 a39 a40 a41)
  have hi: "Math_exp sampledRuntime (js_add (Math_log sampledRuntime (Finite (42195 / 2))) (Finite 0))
      = Finite (5799236641751035 / 274877906944)"
    by (simp only: t5 t7 a1 a2 a3 a4 a5 a6 a7 a8 a9 a10 a11 a12 a13 a14 a15 a16 a17 a18 a19 a20 a21 a22 a23 a24
        a25 a26 a27 a28 a29 a30 a31 a32 a33 a34 a35 a36 a37 a38 a39 a40 a41)
  have len: "length ?pts = 4"
    by simp
  have fp: "fitAndPredict64 sampledRuntime ?pts (5938418321153065 / 281474976710656) 1700000000000
      = Inr \<lparr>fit64 = \<lparr>logA64 = Finite 0, slope64 = Finite 1, rmseLog64 = Finite 0\<rparr>,
            predSec64 = Finite (42195 / 2),
            lowSec64 = Finite (5799236641751035 / 274877906944),
            highSec64 = Finite (5799236641751035 / 274877906944),
            usedPoints64 = 4\<rparr>"
    unfolding fitAndPredict64_def fit
    by (simp only: option.case Let_def FitResult64.select_convs tm ps lo hi len)
  have n: "normalizeActs ?acts = ?pts"
    by (simp add: normalizeActs_def mapStravaAct_stravaRun MIN_DISTANCE_M_def)
  have p: "pauseFilter ?pts = ?pts"
    by (simp add: pauseFilter_def pauseKeep_def pauseDivisor_def)
  have o: "outlierFilter ?pts = ?pts"
    by (rule outlierFilter_same_pace [where c = 1]) auto
  have c: "cleanPoints ?acts = Inr ?pts"
    using n p o by (rule cleanPoints_kept) simp
  have pp: "predictPerformance64 sampledRuntime (Some ''u1'') (Finite (5938418321153065 / 281474976710656)) ?acts 1700000000000
      = Inr \<lparr>fit64 = \<lparr>logA64 = Finite 0, slope64 = Finite 1, rmseLog64 = Finite 0\<rparr>,
            predSec64 = Finite (42195 / 2),
            lowSec64 = Finite (5799236641751035 / 274877906944),
            highSec64 = Finite (5799236641751035 / 274877906944),
            usedPoints64 = 4\<rparr>"
    unfolding fp [symmetric] by (simp add: predictPerformance64_valid_request c)
  have lt: "((5799236641751035 / 274877906944) :: real) < (42195 / 2)"
    by simp
  have f1: "formatHHMMSS (42195 / 2) = ''5:51:38''"
    by (simp add: formatHHMMSS_def Math_round_def toString_def padStart2_def digits.simps
          digitChar_def)
  have f2: "formatHHMMSS (5799236641751035 / 274877906944) = ''5:51:37''"
    by (simp add: formatHHMMSS_def Math_round_def toString_def padStart2_def digits.simps
          digitChar_def)
  show ?thesis
    using pp lt f1 f2 by (intro conjI)
qed

section \<open>Determinism\<close>











end
